theory Spec2Isabelle
  imports Main
begin

section \<open>Document nodes\<close>

text \<open>
  The node kinds: the kinds of the TSDoc library (\<^verbatim>\<open>DocNodeKind\<close>) followed by the six
  custom kinds of the documenter (\<^verbatim>\<open>CustomDocNodeKind\<close>).
\<close>

datatype DocNodeKind =
    Block | BlockTag | CodeSpan | Comment | DeclarationReference | ErrorText | EscapedText
  | Excerpt | FencedCode | HtmlAttribute | HtmlEndTag | HtmlStartTag | InheritDocTag
  | InlineTag | LinkTag | MemberIdentifier | MemberReference | MemberSelector | MemberSymbol
  | Paragraph | ParamBlock | ParamCollection | PlainText | Section | SoftBreak
  | EmphasisSpan | Heading | NoteBox | Table | TableCell | TableRow

text \<open>
  The nodes a page body is made of: the TSDoc nodes the documenter creates or copies from
  a parsed comment, and the six custom nodes of the documenter (emphasis span, heading,
  note box, table, table row, table cell). A table cell and a note box hold a section,
  written here as the section's node list. \<open>DocOtherNode\<close> stands for any other node of
  a parsed comment, by its kind.
\<close>

datatype DocNode =
    DocPlainText string
  | DocSoftBreak
  | DocCodeSpan string
  | DocFencedCode string string
  | DocLinkTag string string
  | DocOtherNode DocNodeKind
  | DocParagraph "DocNode list"
  | DocSection "DocNode list"
  | DocEmphasisSpan bool bool "DocNode list"
  | DocHeading string
  | DocNoteBox "DocNode list"
  | DocTable "string list" "DocTableRow list"
and DocTableRow = DocTableRow "DocTableCell list"
and DocTableCell = DocTableCell "DocNode list"

text \<open>The \<^verbatim>\<open>kind\<close> getter of a node.\<close>

fun nodeKind :: "DocNode \<Rightarrow> DocNodeKind" where
  "nodeKind (DocPlainText t) = PlainText"
| "nodeKind DocSoftBreak = SoftBreak"
| "nodeKind (DocCodeSpan c) = CodeSpan"
| "nodeKind (DocFencedCode c l) = FencedCode"
| "nodeKind (DocLinkTag t u) = LinkTag"
| "nodeKind (DocOtherNode k) = k"
| "nodeKind (DocParagraph ns) = Paragraph"
| "nodeKind (DocSection ns) = Section"
| "nodeKind (DocEmphasisSpan b i ns) = EmphasisSpan"
| "nodeKind (DocHeading t) = Heading"
| "nodeKind (DocNoteBox ns) = NoteBox"
| "nodeKind (DocTable h rs) = Table"

section \<open>The API item model\<close>

text \<open>
  A parsed documentation comment, as far as the documenter reads it. A block is its
  content's node list; a custom block comes with its tag name in upper case.
\<close>

record DocComment =
  summarySection :: "DocNode list"
  remarksBlock :: "DocNode list option"
  deprecatedBlock :: "DocNode list option"
  returnsBlock :: "DocNode list option"
  customBlocks :: "(string \<times> DocNode list) list"

datatype ExcerptTokenKind = Content | Reference

text \<open>
  An excerpt token; the canonical reference is written as a string. An excerpt is the
  list of the tokens it spans, and its text is their texts joined.
\<close>

record ExcerptToken =
  tokenKind :: ExcerptTokenKind
  tokenText :: string
  canonicalReference :: "string option"

type_synonym Excerpt = "ExcerptToken list"

definition excerptText :: "Excerpt \<Rightarrow> string" where
  "excerptText excerpt = concat (map tokenText excerpt)"

record Parameter =
  parameterName :: string
  parameterIsOptional :: bool
  tsdocParamBlock :: "DocNode list option"
  parameterTypeExcerpt :: Excerpt

datatype ReleaseTag = NoReleaseTag | Internal | Alpha | Beta | Public

text \<open>
  The item kinds (\<^verbatim>\<open>ApiItemKind\<close>); the kind \<^verbatim>\<open>None\<close> is written \<open>NoneKind\<close>.
\<close>

datatype ApiItemKind =
    CallSignature | Class | Constructor | ConstructSignature | EntryPoint | Enum
  | EnumMember | Function | IndexSignature | Interface | Method | MethodSignature
  | Model | Namespace | Package | Property | PropertySignature | TypeAlias | Variable
  | NoneKind

text \<open>
  What the documenter reads of one item. \<open>uid\<close> stands for the identity of the object
  (the code compares items with \<^verbatim>\<open>===\<close>). \<open>name\<close> is, for an entry point, its import
  path (empty for the default entry point). A flag of a mixin is \<open>None\<close> on an item whose
  class lacks the mixin. \<open>scopedNameWithinPackage\<close>, \<open>excerptWithModifiers\<close> and
  \<open>conciseSignature\<close> are the results of \<^verbatim>\<open>getScopedNameWithinPackage()\<close>,
  \<^verbatim>\<open>getExcerptWithModifiers()\<close> and \<^verbatim>\<open>Utilities.getConciseSignature\<close> on the item.
\<close>

record ApiItemData =
  uid :: nat
  kind :: ApiItemKind
  displayName :: string
  name :: string
  overloadIndex :: nat
  scopedNameWithinPackage :: string
  conciseSignature :: string
  releaseTag :: "ReleaseTag option"
  isOptional :: "bool option"
  isStatic :: "bool option"
  isProtected :: "bool option"
  isAbstract :: "bool option"
  isReadonly :: "bool option"
  isEventProperty :: bool
  tsdocComment :: "DocComment option"
  excerptTokens :: Excerpt
  excerptWithModifiers :: string
  extendsType :: "Excerpt option"
  implementsTypes :: "Excerpt list"
  extendsTypes :: "Excerpt list"
  parameters :: "Parameter list"
  returnTypeExcerpt :: Excerpt
  propertyTypeExcerpt :: Excerpt
  initializerExcerpt :: "Excerpt option"

datatype ApiItem = ApiItem (itemData: ApiItemData) (members: "ApiItem list")

text \<open>
  An item as the code holds it, with its parent chain: the data of its ancestors from the
  root down, and the item itself. \<^verbatim>\<open>getHierarchy()\<close> is the ancestors followed by the
  item.
\<close>

type_synonym ItemRef = "ApiItemData list \<times> ApiItem"

definition refData :: "ItemRef \<Rightarrow> ApiItemData" where
  "refData r = itemData (snd r)"

definition memberRefs :: "ItemRef \<Rightarrow> ItemRef list" where
  "memberRefs r = map (\<lambda>m. (fst r @ [refData r], m)) (members (snd r))"

definition parentOf :: "ItemRef \<Rightarrow> ApiItemData option" where
  "parentOf r = (if fst r = [] then None else Some (last (fst r)))"

text \<open>
  The class tests of the code, by kind: \<^verbatim>\<open>ApiParameterListMixin.isBaseClassOf\<close>,
  \<^verbatim>\<open>ApiReturnTypeMixin.isBaseClassOf\<close>, \<^verbatim>\<open>instanceof ApiDocumentedItem\<close> (every item
  class but the model's and the entry point's) and \<^verbatim>\<open>instanceof ApiDeclaredItem\<close>
  (every documented item class but the package's).
\<close>

definition ApiParameterListMixin_isBaseClassOf :: "ApiItemKind \<Rightarrow> bool" where
  "ApiParameterListMixin_isBaseClassOf k =
     (k = CallSignature \<or> k = Constructor \<or> k = ConstructSignature \<or> k = Function
      \<or> k = IndexSignature \<or> k = Method \<or> k = MethodSignature)"

definition ApiReturnTypeMixin_isBaseClassOf :: "ApiItemKind \<Rightarrow> bool" where
  "ApiReturnTypeMixin_isBaseClassOf k =
     (k = CallSignature \<or> k = ConstructSignature \<or> k = Function
      \<or> k = IndexSignature \<or> k = Method \<or> k = MethodSignature)"

definition isApiDocumentedItem :: "ApiItemKind \<Rightarrow> bool" where
  "isApiDocumentedItem k = (k \<noteq> Model \<and> k \<noteq> EntryPoint \<and> k \<noteq> NoneKind)"

definition isApiDeclaredItem :: "ApiItemKind \<Rightarrow> bool" where
  "isApiDeclaredItem k = (isApiDocumentedItem k \<and> k \<noteq> Package)"

subsection \<open>Errors\<close>

text \<open>
  The exceptions of a run, as values: an item or node kind without a handling branch, a
  child node that is not allowed below its parent, a failed registration of node kinds
  (a kind registered twice, or a kind that was never registered), the type error of
  reading a property of \<^verbatim>\<open>undefined\<close>, and a name that \<^verbatim>\<open>PackageName\<close> does not
  accept as the name of a package.
\<close>

datatype Error =
    UnsupportedKindError ApiItemKind
  | StructureError DocNodeKind DocNodeKind
  | ConfigurationError DocNodeKind
  | TypeError
  | PackageNameError string

text \<open>Running on after a step that may have thrown.\<close>

fun bindE :: "'e + 'a \<Rightarrow> ('a \<Rightarrow> 'e + 'b) \<Rightarrow> 'e + 'b" where
  "bindE (Inl e) f = Inl e"
| "bindE (Inr x) f = f x"

text \<open>
  The two naming helpers \<^verbatim>\<open>_getFilenameForApiItem\<close> calls are not part of the
  sources at hand: \<^verbatim>\<open>Utilities.getSafeFilenameForName\<close> and
  \<^verbatim>\<open>PackageName.getUnscopedName\<close>. They are parameters of the model; every
  general theorem below holds for all of them. \<^verbatim>\<open>PackageName.getUnscopedName\<close> parses
  its argument as the name of a package and throws when it is none.
\<close>

record Naming =
  getSafeFilenameForName :: "string \<Rightarrow> string"
  getUnscopedName :: "string \<Rightarrow> Error + string"

subsection \<open>Numbers in template strings\<close>

text \<open>
  \<^verbatim>\<open>`_${hierarchyItem.overloadIndex - 1}`\<close> formats a non-negative integer in decimal.
\<close>

definition digit_char :: "nat \<Rightarrow> char" where
  "digit_char d = ''0123456789'' ! d"

fun decimal :: "nat \<Rightarrow> string" where
  "decimal n = (if n < 10 then [digit_char n] else decimal (n div 10) @ [digit_char (n mod 10)])"

declare decimal.simps [simp del]

section \<open>The file name of an item\<close>

text \<open>
  The name a hierarchy item contributes in \<^verbatim>\<open>_getFilenameForApiItem\<close>: the safe display
  name, with the overload suffix and the \<^verbatim>\<open>var_\<close> prefix.
\<close>

definition qualifiedNameOf :: "Naming \<Rightarrow> ApiItemData \<Rightarrow> string" where
  "qualifiedNameOf N hierarchyItem =
     (let qualifiedName = getSafeFilenameForName N (displayName hierarchyItem);
          qualifiedName =
            (if ApiParameterListMixin_isBaseClassOf (kind hierarchyItem)
                \<and> overloadIndex hierarchyItem > 1
             then qualifiedName @ ''_'' @ decimal (overloadIndex hierarchyItem - 1)
             else qualifiedName)
      in if kind hierarchyItem = Variable then ''var_'' @ qualifiedName else qualifiedName)"

text \<open>
  One round of the loop over \<^verbatim>\<open>apiItem.getHierarchy()\<close>: the new \<^verbatim>\<open>baseName\<close>.
\<close>

definition hierarchyStep :: "Naming \<Rightarrow> ApiItemData \<Rightarrow> string \<Rightarrow> ApiItemData \<Rightarrow> Error + string" where
  "hierarchyStep N apiItem baseName hierarchyItem =
     (case kind hierarchyItem of
        Model \<Rightarrow> Inr baseName
      | EnumMember \<Rightarrow> Inr baseName
      | EntryPoint \<Rightarrow>
          (let entrypointName = name hierarchyItem
           in if length entrypointName > 0
              then bindE (getUnscopedName N entrypointName) (\<lambda>unscopedName.
                     Inr (baseName @ ''/'' @ getSafeFilenameForName N unscopedName))
              else Inr (baseName @ ''/_root''))
      | Package \<Rightarrow>
          bindE (getUnscopedName N (displayName hierarchyItem)) (\<lambda>unscopedName.
            (let baseName = getSafeFilenameForName N unscopedName
             in if uid hierarchyItem = uid apiItem then Inr (baseName @ ''/_root'')
                else Inr baseName))
      | _ \<Rightarrow> Inr (baseName @ ''/'' @ qualifiedNameOf N hierarchyItem))"

fun hierarchyLoop :: "Naming \<Rightarrow> ApiItemData \<Rightarrow> string \<Rightarrow> ApiItemData list \<Rightarrow> Error + string" where
  "hierarchyLoop N apiItem baseName [] = Inr baseName"
| "hierarchyLoop N apiItem baseName (hierarchyItem # rest) =
     bindE (hierarchyStep N apiItem baseName hierarchyItem) (\<lambda>baseName.
       hierarchyLoop N apiItem baseName rest)"

text \<open>
  \<^verbatim>\<open>_getFilenameForApiItem\<close>, on the item's ancestors (root first) and the item.
\<close>

definition getFilenameForApiItem :: "Naming \<Rightarrow> ApiItemData list \<Rightarrow> ApiItemData \<Rightarrow> Error + string" where
  "getFilenameForApiItem N ancestors apiItem =
     (if kind apiItem = Model then Inr ''_index.md''
      else bindE (hierarchyLoop N apiItem [] (ancestors @ [apiItem])) (\<lambda>baseName.
             Inr (baseName @ ''/_index.md'')))"

text \<open>\<^verbatim>\<open>_getLinkFilenameForApiItem\<close>, with the fixed base URL \<^verbatim>\<open>/docs\<close>.\<close>

definition baseUrl :: string where
  "baseUrl = ''/docs''"

definition getLinkFilenameForApiItem :: "Naming \<Rightarrow> ApiItemData list \<Rightarrow> ApiItemData \<Rightarrow> Error + string" where
  "getLinkFilenameForApiItem N ancestors apiItem =
     bindE (getFilenameForApiItem N ancestors apiItem) (\<lambda>filename.
       Inr (baseUrl @ ''/'' @ filename))"

text \<open>The same for an item held with its parent chain, and for the parent of such an item.\<close>

definition linkOfRef :: "Naming \<Rightarrow> ItemRef \<Rightarrow> Error + string" where
  "linkOfRef N r = getLinkFilenameForApiItem N (fst r) (refData r)"

definition linkOfParent :: "Naming \<Rightarrow> ItemRef \<Rightarrow> Error + string" where
  "linkOfParent N r = getLinkFilenameForApiItem N (butlast (fst r)) (last (fst r))"

section \<open>The registry of node kinds\<close>

text \<open>
  The node manager of a TSDoc configuration: for each registered kind, the package that
  registered it and the kinds allowed as its children. \<open>objectId\<close> stands for the
  identity of the configuration object. The registry belongs to the TSDoc library; its
  operations follow the contract of the Document Node Model: a kind is registered once
  (a second registration fails), the allowable children of a kind accumulate, and a
  kind must be registered before it is named as a parent or as a child.
\<close>

record DocNodeDefinition =
  docNodeKind :: DocNodeKind
  packageName :: string
  allowedChildKinds :: "DocNodeKind set"

record TSDocConfiguration =
  objectId :: nat
  docNodeDefinitions :: "DocNodeDefinition list"

definition getDefinition :: "TSDocConfiguration \<Rightarrow> DocNodeKind \<Rightarrow> Error + DocNodeDefinition" where
  "getDefinition C k =
     (case find (\<lambda>d. docNodeKind d = k) (docNodeDefinitions C) of
        None \<Rightarrow> Inl (ConfigurationError k)
      | Some d \<Rightarrow> Inr d)"

fun registerDocNodes :: "string \<Rightarrow> DocNodeKind list \<Rightarrow> TSDocConfiguration \<Rightarrow> Error + TSDocConfiguration" where
  "registerDocNodes pkg [] C = Inr C"
| "registerDocNodes pkg (k # ks) C =
     (case find (\<lambda>d. docNodeKind d = k) (docNodeDefinitions C) of
        Some existingDefinition \<Rightarrow> Inl (ConfigurationError k)
      | None \<Rightarrow>
          registerDocNodes pkg ks
            (C\<lparr> docNodeDefinitions := docNodeDefinitions C
                  @ [\<lparr> docNodeKind = k, packageName = pkg, allowedChildKinds = {} \<rparr>] \<rparr>))"

definition addAllowedChild :: "DocNodeKind \<Rightarrow> DocNodeKind \<Rightarrow> DocNodeDefinition \<Rightarrow> DocNodeDefinition" where
  "addAllowedChild parentKind childKind d =
     (if docNodeKind d = parentKind
      then d\<lparr> allowedChildKinds := insert childKind (allowedChildKinds d) \<rparr> else d)"

fun registerAllowableChildren :: "DocNodeKind \<Rightarrow> DocNodeKind list \<Rightarrow> TSDocConfiguration \<Rightarrow> Error + TSDocConfiguration" where
  "registerAllowableChildren parentKind [] C =
     bindE (getDefinition C parentKind) (\<lambda>parentDefinition. Inr C)"
| "registerAllowableChildren parentKind (childKind # childKinds) C =
     bindE (getDefinition C parentKind) (\<lambda>parentDefinition.
     bindE (getDefinition C childKind) (\<lambda>childDefinition.
       registerAllowableChildren parentKind childKinds
         (C\<lparr> docNodeDefinitions := map (addAllowedChild parentKind childKind) (docNodeDefinitions C) \<rparr>)))"

definition isAllowedChild :: "TSDocConfiguration \<Rightarrow> DocNodeKind \<Rightarrow> DocNodeKind \<Rightarrow> Error + bool" where
  "isAllowedChild C parentKind childKind =
     bindE (getDefinition C parentKind) (\<lambda>parentDefinition.
       Inr (childKind \<in> allowedChildKinds parentDefinition))"

text \<open>
  A new configuration registers the built-in kinds of the library, with the children the
  library allows below a section and below a paragraph.
\<close>

definition builtInDocNodeKinds :: "DocNodeKind list" where
  "builtInDocNodeKinds =
     [Block, BlockTag, CodeSpan, Comment, DeclarationReference,
      ErrorText, EscapedText, Excerpt, FencedCode, HtmlAttribute,
      HtmlEndTag, HtmlStartTag, InheritDocTag, InlineTag, LinkTag,
      MemberIdentifier, MemberReference, MemberSelector, MemberSymbol,
      Paragraph, ParamBlock, ParamCollection, PlainText, Section,
      SoftBreak]"

definition BuiltInDocNodes_register :: "TSDocConfiguration \<Rightarrow> Error + TSDocConfiguration" where
  "BuiltInDocNodes_register C =
     bindE (registerDocNodes ''@microsoft/tsdoc'' builtInDocNodeKinds C) (\<lambda>C.
     bindE (registerAllowableChildren Section
              [FencedCode, Paragraph, HtmlStartTag, HtmlEndTag] C) (\<lambda>C.
       registerAllowableChildren Paragraph
         [BlockTag, CodeSpan, ErrorText, EscapedText, HtmlStartTag,
          HtmlEndTag, InlineTag, LinkTag, PlainText, SoftBreak] C))"

definition new_TSDocConfiguration :: "nat \<Rightarrow> Error + TSDocConfiguration" where
  "new_TSDocConfiguration i =
     BuiltInDocNodes_register \<lparr> objectId = i, docNodeDefinitions = [] \<rparr>"

subsection \<open>The configuration of the custom nodes\<close>

text \<open>
  The state the getter \<^verbatim>\<open>CustomDocNodes.configuration\<close> works on: the static field
  \<^verbatim>\<open>_configuration\<close>, and the number of configuration objects created so far in the
  process (the next object's identity).
\<close>

record Process =
  CustomDocNodes_configuration :: "TSDocConfiguration option"
  configurationsCreated :: nat

definition initialProcess :: Process where
  "initialProcess = \<lparr> CustomDocNodes_configuration = None, configurationsCreated = 0 \<rparr>"

text \<open>
  The registrations of the getter on a new configuration.
\<close>

definition registerCustomDocNodes :: "TSDocConfiguration \<Rightarrow> Error + TSDocConfiguration" where
  "registerCustomDocNodes configuration =
     bindE (registerDocNodes ''@micrososft/api-documenter''
              [EmphasisSpan, Heading, NoteBox, Table, TableCell, TableRow]
              configuration) (\<lambda>configuration.
     bindE (registerAllowableChildren EmphasisSpan [PlainText, SoftBreak]
              configuration) (\<lambda>configuration.
     bindE (registerAllowableChildren Section [Heading, NoteBox, Table]
              configuration) (\<lambda>configuration.
       registerAllowableChildren Paragraph [EmphasisSpan] configuration)))"

text \<open>
  The getter: the result (a configuration, or the exception of a failed registration) and
  the state after it. The field is assigned only when every registration has succeeded.
\<close>

definition configuration_get :: "Process \<Rightarrow> (Error + TSDocConfiguration) \<times> Process" where
  "configuration_get P =
     (case CustomDocNodes_configuration P of
        Some configuration \<Rightarrow> (Inr configuration, P)
      | None \<Rightarrow>
          (let P' = P\<lparr> configurationsCreated := configurationsCreated P + 1 \<rparr>
           in case bindE (new_TSDocConfiguration (configurationsCreated P)) registerCustomDocNodes of
                Inl e \<Rightarrow> (Inl e, P')
              | Inr configuration \<Rightarrow>
                  (Inr configuration, P'\<lparr> CustomDocNodes_configuration := Some configuration \<rparr>)))"

text \<open>A number of accesses in a row: their results, and the state after the last.\<close>

fun accesses :: "nat \<Rightarrow> Process \<Rightarrow> (Error + TSDocConfiguration) list \<times> Process" where
  "accesses 0 P = ([], P)"
| "accesses (Suc n) P =
     (let (r, P') = configuration_get P; (rs, P'') = accesses n P' in (r # rs, P''))"

text \<open>
  Names for the proofs about the registry: the kinds registered so far, the definition a
  registration creates, the effect of allowing children below one kind, and the
  configuration the getter's registrations arrive at.
\<close>

definition registeredKinds :: "TSDocConfiguration \<Rightarrow> DocNodeKind list" where
  "registeredKinds C = map docNodeKind (docNodeDefinitions C)"

definition newDefinition :: "string \<Rightarrow> DocNodeKind \<Rightarrow> DocNodeDefinition" where
  "newDefinition pkg k = \<lparr> docNodeKind = k, packageName = pkg, allowedChildKinds = {} \<rparr>"

definition allowChildren :: "DocNodeKind \<Rightarrow> DocNodeKind list \<Rightarrow> DocNodeDefinition \<Rightarrow> DocNodeDefinition" where
  "allowChildren p cs d =
     (if docNodeKind d = p then d\<lparr> allowedChildKinds := allowedChildKinds d \<union> set cs \<rparr> else d)"

definition customConfiguration :: "nat \<Rightarrow> TSDocConfiguration" where
  "customConfiguration i =
     \<lparr> objectId = i,
       docNodeDefinitions =
         map (allowChildren Paragraph [EmphasisSpan])
          (map (allowChildren Section [Heading, NoteBox, Table])
            (map (allowChildren EmphasisSpan [PlainText, SoftBreak])
              (map (allowChildren Paragraph
                   [BlockTag, CodeSpan, ErrorText, EscapedText, HtmlStartTag,
                    HtmlEndTag, InlineTag, LinkTag, PlainText, SoftBreak])
                (map (allowChildren Section [FencedCode, Paragraph, HtmlStartTag, HtmlEndTag])
                  (map (newDefinition ''@microsoft/tsdoc'') builtInDocNodeKinds))
               @ map (newDefinition ''@micrososft/api-documenter'')
                   [EmphasisSpan, Heading, NoteBox, Table, TableCell, TableRow]))) \<rparr>"

section \<open>The documenter\<close>

text \<open>
  The newline conventions of \<^verbatim>\<open>FileSystem.writeFile\<close>, the documenter's configuration
  file as far as the documenter reads it (with the plugin feature the plugin loader
  finds for it, if any: its hook \<^verbatim>\<open>onBeforeWritePage\<close> gets the item, the output file
  name and the page content, and returns the page content to write), the result of
  \<^verbatim>\<open>findMembersWithInheritance\<close>, and the front matter of a page.
\<close>

datatype NewlineKind = CrLf | Lf | OsDefault

record DocumenterConfig =
  newlineKind :: NewlineKind
  showInheritedMembers :: bool
  markdownDocumenterFeature :: "(ItemRef \<Rightarrow> string \<Rightarrow> string \<Rightarrow> string) option"

record IFindApiItemsResult =
  items :: "ItemRef list"
  messages :: "string list"
  maybeIncompleteResult :: bool

record FrontMatter =
  title :: string
  menuMainWeight :: "nat option"

text \<open>
  What the documenter calls outside itself: the naming helpers,
  \<^verbatim>\<open>resolveDeclarationReference\<close> of the API model (its resolved item, if any),
  \<^verbatim>\<open>findMembersWithInheritance\<close> of a class or interface, the markdown emitter (given
  the page body, the front matter, the item of the page and the link function; it may
  throw), and \<^verbatim>\<open>path.join\<close> and \<^verbatim>\<open>path.dirname\<close>. The documenter itself adds its
  fields: the TSDoc configuration, the configuration file if one was given, and the
  output folder.
\<close>

record Modules =
  naming :: Naming
  resolveDeclarationReference :: "string \<Rightarrow> ItemRef option"
  findMembersWithInheritance :: "ItemRef \<Rightarrow> IFindApiItemsResult"
  emitWithFrontMatter ::
    "DocNode list \<Rightarrow> FrontMatter \<Rightarrow> ItemRef \<Rightarrow> (ItemRef \<Rightarrow> Error + string) \<Rightarrow> Error + string"
  path_join :: "string \<Rightarrow> string \<Rightarrow> string"
  path_dirname :: "string \<Rightarrow> string"

record Documenter = Modules +
  tsdocConfiguration :: TSDocConfiguration
  documenterConfig :: "DocumenterConfig option"
  outputFolder :: string

subsection \<open>Building nodes\<close>

text \<open>
  \<^verbatim>\<open>appendNode\<close> of a node container (a section, a paragraph or an emphasis span, given
  by its kind and the nodes it holds): the child must be allowed below the container.
\<close>

definition appendNode :: "TSDocConfiguration \<Rightarrow> DocNodeKind \<Rightarrow> DocNode list \<Rightarrow> DocNode \<Rightarrow> Error + DocNode list" where
  "appendNode C containerKind nodes docNode =
     bindE (isAllowedChild C containerKind (nodeKind docNode)) (\<lambda>allowed.
       if allowed then Inr (nodes @ [docNode])
       else Inl (StructureError containerKind (nodeKind docNode)))"

fun appendNodes :: "TSDocConfiguration \<Rightarrow> DocNodeKind \<Rightarrow> DocNode list \<Rightarrow> DocNode list \<Rightarrow> Error + DocNode list" where
  "appendNodes C containerKind nodes [] = Inr nodes"
| "appendNodes C containerKind nodes (docNode # docNodes) =
     bindE (appendNode C containerKind nodes docNode) (\<lambda>nodes.
       appendNodes C containerKind nodes docNodes)"

text \<open>The constructors of the containers, given child nodes.\<close>

definition new_DocParagraph :: "TSDocConfiguration \<Rightarrow> DocNode list \<Rightarrow> Error + DocNode" where
  "new_DocParagraph C childNodes =
     bindE (appendNodes C Paragraph [] childNodes) (\<lambda>nodes. Inr (DocParagraph nodes))"

definition new_DocEmphasisSpan :: "TSDocConfiguration \<Rightarrow> bool \<Rightarrow> bool \<Rightarrow> DocNode list \<Rightarrow> Error + DocNode" where
  "new_DocEmphasisSpan C bold italic childNodes =
     bindE (appendNodes C EmphasisSpan [] childNodes) (\<lambda>nodes.
       Inr (DocEmphasisSpan bold italic nodes))"

definition new_DocNoteBox :: "TSDocConfiguration \<Rightarrow> DocNode list \<Rightarrow> Error + DocNode" where
  "new_DocNoteBox C sectionChildNodes =
     bindE (appendNodes C Section [] sectionChildNodes) (\<lambda>nodes. Inr (DocNoteBox nodes))"

definition new_DocTableCell :: "TSDocConfiguration \<Rightarrow> DocNode list \<Rightarrow> Error + DocTableCell" where
  "new_DocTableCell C sectionChildNodes =
     bindE (appendNodes C Section [] sectionChildNodes) (\<lambda>nodes. Inr (DocTableCell nodes))"

text \<open>
  \<^verbatim>\<open>appendNodeInParagraph\<close> of a section: into the last node if that is a paragraph,
  into a new paragraph otherwise; and \<^verbatim>\<open>appendNodesInParagraph\<close>.
\<close>

definition appendNodeInParagraph :: "TSDocConfiguration \<Rightarrow> DocNode list \<Rightarrow> DocNode \<Rightarrow> Error + DocNode list" where
  "appendNodeInParagraph C nodes docNode =
     (case (if nodes = [] then None
            else (case last nodes of DocParagraph children \<Rightarrow> Some children | _ \<Rightarrow> None)) of
        Some children \<Rightarrow>
          bindE (appendNode C Paragraph children docNode) (\<lambda>children.
            Inr (butlast nodes @ [DocParagraph children]))
      | None \<Rightarrow>
          bindE (appendNode C Section nodes (DocParagraph [])) (\<lambda>nodes.
          bindE (appendNode C Paragraph [] docNode) (\<lambda>children.
            Inr (butlast nodes @ [DocParagraph children]))))"

fun appendNodesInParagraph :: "TSDocConfiguration \<Rightarrow> DocNode list \<Rightarrow> DocNode list \<Rightarrow> Error + DocNode list" where
  "appendNodesInParagraph C nodes [] = Inr nodes"
| "appendNodesInParagraph C nodes (docNode # docNodes) =
     bindE (appendNodeInParagraph C nodes docNode) (\<lambda>nodes.
       appendNodesInParagraph C nodes docNodes)"

text \<open>A bold paragraph label such as \<^verbatim>\<open>Signature:\<close>, as the code builds it.\<close>

definition boldLabel :: "TSDocConfiguration \<Rightarrow> string \<Rightarrow> Error + DocNode list" where
  "boldLabel C label =
     bindE (new_DocEmphasisSpan C True False [DocPlainText label]) (\<lambda>span.
       appendNodes C Paragraph [] [span])"

subsection \<open>Excerpts with hyperlinks\<close>

text \<open>
  \<^verbatim>\<open>token.text.replace(/[\r\n]+/g, ' ')\<close>: every run of carriage returns and line feeds
  becomes one space. \<open>inRun\<close> says that the character before was part of such a run.
\<close>

fun unwrapRuns :: "bool \<Rightarrow> string \<Rightarrow> string" where
  "unwrapRuns inRun [] = []"
| "unwrapRuns inRun (c # cs) =
     (if c = CHR 0x0D \<or> c = CHR 0x0A
      then (if inRun then unwrapRuns True cs else CHR '' '' # unwrapRuns True cs)
      else c # unwrapRuns False cs)"

definition unwrappedText :: "string \<Rightarrow> string" where
  "unwrappedText t = unwrapRuns False t"

text \<open>
  \<^verbatim>\<open>_appendExcerptTokenWithHyperlinks\<close>, on a container given by its kind and nodes.
\<close>

definition appendExcerptTokenWithHyperlinks :: "Documenter \<Rightarrow> DocNodeKind \<Rightarrow> DocNode list \<Rightarrow> ExcerptToken \<Rightarrow> Error + DocNode list" where
  "appendExcerptTokenWithHyperlinks D containerKind nodes token =
     (let unwrappedTokenText = unwrappedText (tokenText token);
          resolved =
            (if tokenKind token = Reference
             then (case canonicalReference token of
                     None \<Rightarrow> None
                   | Some reference \<Rightarrow> resolveDeclarationReference D reference)
             else None)
      in case resolved of
           Some resolvedApiItem \<Rightarrow>
             bindE (linkOfRef (naming D) resolvedApiItem) (\<lambda>urlDestination.
               appendNode (tsdocConfiguration D) containerKind nodes
                 (DocLinkTag unwrappedTokenText urlDestination))
         | None \<Rightarrow>
             appendNode (tsdocConfiguration D) containerKind nodes (DocPlainText unwrappedTokenText))"

text \<open>\<^verbatim>\<open>_appendExcerptWithHyperlinks\<close>: every token of the excerpt in turn.\<close>

fun appendExcerptWithHyperlinks :: "Documenter \<Rightarrow> DocNodeKind \<Rightarrow> DocNode list \<Rightarrow> Excerpt \<Rightarrow> Error + DocNode list" where
  "appendExcerptWithHyperlinks D containerKind nodes [] = Inr nodes"
| "appendExcerptWithHyperlinks D containerKind nodes (token # tokens) =
     bindE (appendExcerptTokenWithHyperlinks D containerKind nodes token) (\<lambda>nodes.
       appendExcerptWithHyperlinks D containerKind nodes tokens)"

subsection \<open>Heritage types\<close>

text \<open>
  The loop over the implemented types of a class and over the extended types of an
  interface: the excerpts, separated by commas, into the paragraph.
\<close>

fun heritageLoop :: "Documenter \<Rightarrow> bool \<Rightarrow> DocNode list \<Rightarrow> Excerpt list \<Rightarrow> Error + DocNode list" where
  "heritageLoop D needsComma paragraph [] = Inr paragraph"
| "heritageLoop D needsComma paragraph (excerpt # excerpts) =
     bindE (if needsComma
            then appendNode (tsdocConfiguration D) Paragraph paragraph (DocPlainText '', '')
            else Inr paragraph) (\<lambda>paragraph.
     bindE (appendExcerptWithHyperlinks D Paragraph paragraph excerpt) (\<lambda>paragraph.
       heritageLoop D True paragraph excerpts))"

text \<open>
  The filter of the type alias branch: the reference tokens whose canonical reference
  resolves to an item of the model.
\<close>

definition resolvesToItem :: "Documenter \<Rightarrow> ExcerptToken \<Rightarrow> bool" where
  "resolvesToItem D token =
     (tokenKind token = Reference
      \<and> (case canonicalReference token of
            None \<Rightarrow> False
          | Some reference \<Rightarrow> resolveDeclarationReference D reference \<noteq> None))"

text \<open>
  The loop over the references of a type alias, with the set of the texts visited so far.
\<close>

fun referencesLoop :: "Documenter \<Rightarrow> bool \<Rightarrow> string set \<Rightarrow> DocNode list \<Rightarrow> ExcerptToken list \<Rightarrow> Error + DocNode list" where
  "referencesLoop D needsComma visited paragraph [] = Inr paragraph"
| "referencesLoop D needsComma visited paragraph (ref # refs) =
     (if tokenText ref \<in> visited then referencesLoop D needsComma visited paragraph refs
      else
        bindE (if needsComma
               then appendNode (tsdocConfiguration D) Paragraph paragraph (DocPlainText '', '')
               else Inr paragraph) (\<lambda>paragraph.
        bindE (appendExcerptTokenWithHyperlinks D Paragraph paragraph ref) (\<lambda>paragraph.
          referencesLoop D True (insert (tokenText ref) visited) paragraph refs)))"

text \<open>\<^verbatim>\<open>_writeHeritageTypes\<close>: the new nodes of the page body \<open>output\<close>.\<close>

definition writeHeritageTypes :: "Documenter \<Rightarrow> DocNode list \<Rightarrow> ApiItemData \<Rightarrow> Error + DocNode list" where
  "writeHeritageTypes D output apiItem =
     (let C = tsdocConfiguration D in
      bindE (if kind apiItem = Class
             then
               bindE (case extendsType apiItem of
                        None \<Rightarrow> Inr output
                      | Some excerpt \<Rightarrow>
                          bindE (boldLabel C ''Extends: '') (\<lambda>extendsParagraph.
                          bindE (appendExcerptWithHyperlinks D Paragraph extendsParagraph excerpt)
                            (\<lambda>extendsParagraph.
                            appendNode C Section output (DocParagraph extendsParagraph)))) (\<lambda>output.
               if length (implementsTypes apiItem) > 0
               then
                 bindE (boldLabel C ''Implements: '') (\<lambda>implementsParagraph.
                 bindE (heritageLoop D False implementsParagraph (implementsTypes apiItem))
                   (\<lambda>implementsParagraph.
                   appendNode C Section output (DocParagraph implementsParagraph)))
               else Inr output)
             else Inr output) (\<lambda>output.
      bindE (if kind apiItem = Interface \<and> length (extendsTypes apiItem) > 0
             then
               bindE (boldLabel C ''Extends: '') (\<lambda>extendsParagraph.
               bindE (heritageLoop D False extendsParagraph (extendsTypes apiItem))
                 (\<lambda>extendsParagraph.
                 appendNode C Section output (DocParagraph extendsParagraph)))
             else Inr output) (\<lambda>output.
      if kind apiItem = TypeAlias
      then
        (let refs = filter (resolvesToItem D) (excerptTokens apiItem)
         in if length refs > 0
            then
              bindE (boldLabel C ''References: '') (\<lambda>referencesParagraph.
              bindE (referencesLoop D False {} referencesParagraph refs) (\<lambda>referencesParagraph.
                appendNode C Section output (DocParagraph referencesParagraph)))
            else Inr output)
      else Inr output)))"

subsection \<open>Definitions for the statements about the page content\<close>

text \<open>
  For stating what the excerpt functions append: the node of one token (a link when the
  token resolves, unless the file name of the resolved item cannot be built; plain text
  otherwise), the nodes of a list of tokens, and nodes separated by commas.
\<close>

definition excerptTokenNode :: "Documenter \<Rightarrow> ExcerptToken \<Rightarrow> Error + DocNode" where
  "excerptTokenNode D token =
     (case (if tokenKind token = Reference
            then (case canonicalReference token of
                    None \<Rightarrow> None
                  | Some reference \<Rightarrow> resolveDeclarationReference D reference)
            else None) of
        Some resolvedApiItem \<Rightarrow>
          bindE (linkOfRef (naming D) resolvedApiItem) (\<lambda>urlDestination.
            Inr (DocLinkTag (unwrappedText (tokenText token)) urlDestination))
      | None \<Rightarrow> Inr (DocPlainText (unwrappedText (tokenText token))))"


text \<open>
  The list of references as the specification words it: de-duplicated by text, in the
  order of first occurrence.
\<close>

fun firstOccurrences :: "ExcerptToken list \<Rightarrow> ExcerptToken list" where
  "firstOccurrences [] = []"
| "firstOccurrences (t # ts) =
     t # firstOccurrences (filter (\<lambda>u. tokenText u \<noteq> tokenText t) ts)"



subsection \<open>Sections of a comment\<close>

text \<open>\<^verbatim>\<open>_appendSection\<close>: every node of the comment section is appended to the page body.\<close>

definition appendSection :: "TSDocConfiguration \<Rightarrow> DocNode list \<Rightarrow> DocNode list \<Rightarrow> Error + DocNode list" where
  "appendSection C output docSection = appendNodes C Section output docSection"

fun getChildNodes :: "DocNode \<Rightarrow> DocNode list" where
  "getChildNodes (DocParagraph nodes) = nodes"
| "getChildNodes (DocSection nodes) = nodes"
| "getChildNodes (DocEmphasisSpan bold italic nodes) = nodes"
| "getChildNodes docNode = []"

text \<open>
  \<^verbatim>\<open>_appendAndMergeSection\<close>: the children of a leading paragraph go into the last
  paragraph of the output, the other nodes are appended.
\<close>

fun appendAndMergeLoop :: "TSDocConfiguration \<Rightarrow> bool \<Rightarrow> DocNode list \<Rightarrow> DocNode list \<Rightarrow> Error + DocNode list" where
  "appendAndMergeLoop C firstNode output [] = Inr output"
| "appendAndMergeLoop C firstNode output (node # nodes) =
     (if firstNode \<and> nodeKind node = Paragraph
      then bindE (appendNodesInParagraph C output (getChildNodes node)) (\<lambda>output.
             appendAndMergeLoop C False output nodes)
      else bindE (appendNode C Section output node) (\<lambda>output.
             appendAndMergeLoop C False output nodes))"

definition appendAndMergeSection :: "TSDocConfiguration \<Rightarrow> DocNode list \<Rightarrow> DocNode list \<Rightarrow> Error + DocNode list" where
  "appendAndMergeSection C output docSection = appendAndMergeLoop C True output docSection"

subsection \<open>Table cells\<close>

text \<open>
  \<^verbatim>\<open>!excerpt.text.trim()\<close>: the text is empty once the white space and the line
  terminators at its ends are removed, that is, it consists of them only. A character of
  a string stands for a code unit below 256; of these, \<^verbatim>\<open>trim\<close> removes the tab, the
  line feed, the vertical tab, the form feed, the carriage return, the space and the
  no-break space.
\<close>

definition isWhiteSpace :: "char \<Rightarrow> bool" where
  "isWhiteSpace c =
     (c = CHR 0x09 \<or> c = CHR 0x0A \<or> c = CHR 0x0B \<or> c = CHR 0x0C \<or> c = CHR 0x0D \<or> c = CHR '' ''
      \<or> c = CHR 0xA0)"

definition trimIsEmpty :: "string \<Rightarrow> bool" where
  "trimIsEmpty s = list_all isWhiteSpace s"

definition createParagraphForTypeExcerpt :: "Documenter \<Rightarrow> Excerpt \<Rightarrow> Error + DocNode" where
  "createParagraphForTypeExcerpt D excerpt =
     bindE (if trimIsEmpty (excerptText excerpt)
            then appendNode (tsdocConfiguration D) Paragraph [] (DocPlainText ''(not declared)'')
            else appendExcerptWithHyperlinks D Paragraph [] excerpt) (\<lambda>paragraph.
       Inr (DocParagraph paragraph))"

definition createTitleCell :: "Documenter \<Rightarrow> ItemRef \<Rightarrow> Error + DocTableCell" where
  "createTitleCell D apiItem =
     (let C = tsdocConfiguration D;
          linkText = conciseSignature (refData apiItem);
          linkText = (if isOptional (refData apiItem) = Some True then linkText @ ''?'' else linkText)
      in bindE (linkOfRef (naming D) apiItem) (\<lambda>urlDestination.
         bindE (new_DocParagraph C [DocLinkTag linkText urlDestination]) (\<lambda>p.
           new_DocTableCell C [p])))"

definition optionalMarker :: "TSDocConfiguration \<Rightarrow> DocNode list \<Rightarrow> Error + DocNode list" where
  "optionalMarker C section =
     bindE (new_DocEmphasisSpan C False True [DocPlainText ''(Optional)'']) (\<lambda>span.
       appendNodesInParagraph C section [span, DocPlainText '' ''])"

definition createDescriptionCell :: "Documenter \<Rightarrow> ItemRef \<Rightarrow> bool \<Rightarrow> Error + DocTableCell" where
  "createDescriptionCell D apiItem isInherited =
     (let C = tsdocConfiguration D; d = refData apiItem in
      bindE (if releaseTag d = Some Alpha \<or> releaseTag d = Some Beta
             then bindE (new_DocEmphasisSpan C True True
                           [DocPlainText (if releaseTag d = Some Alpha then ''(ALPHA)'' else ''(BETA)'')])
                    (\<lambda>span. appendNodesInParagraph C [] [span, DocPlainText '' ''])
             else Inr []) (\<lambda>section.
      bindE (if isOptional d = Some True then optionalMarker C section else Inr section) (\<lambda>section.
      bindE (if isApiDocumentedItem (kind d)
             then (case tsdocComment d of
                     None \<Rightarrow> Inr section
                   | Some comment \<Rightarrow> appendAndMergeSection C section (summarySection comment))
             else Inr section) (\<lambda>section.
      bindE (if isInherited
             then (case parentOf apiItem of
                     None \<Rightarrow> Inr section
                   | Some parent \<Rightarrow>
                       bindE (linkOfParent (naming D) apiItem) (\<lambda>urlDestination.
                       bindE (new_DocParagraph C
                                [DocPlainText ''(Inherited from '',
                                 DocLinkTag (displayName parent) urlDestination,
                                 DocPlainText '')'']) (\<lambda>p.
                         appendNode C Section section p)))
             else Inr section) (\<lambda>section.
        new_DocTableCell C section)))))"

definition modifierParagraph :: "TSDocConfiguration \<Rightarrow> bool option \<Rightarrow> string \<Rightarrow> DocNode list \<Rightarrow> Error + DocNode list" where
  "modifierParagraph C flag code section =
     (if flag = Some True
      then bindE (new_DocParagraph C [DocCodeSpan code]) (\<lambda>p. appendNode C Section section p)
      else Inr section)"

definition createModifiersCell :: "Documenter \<Rightarrow> ItemRef \<Rightarrow> Error + DocTableCell" where
  "createModifiersCell D apiItem =
     (let C = tsdocConfiguration D; d = refData apiItem in
      bindE (modifierParagraph C (isProtected d) ''protected'' []) (\<lambda>section.
      bindE (modifierParagraph C (isStatic d) ''static'' section) (\<lambda>section.
      bindE (modifierParagraph C (isAbstract d) ''abstract'' section) (\<lambda>section.
      bindE (modifierParagraph C (isReadonly d) ''readonly'' section) (\<lambda>section.
        new_DocTableCell C section)))))"

definition createPropertyTypeCell :: "Documenter \<Rightarrow> ItemRef \<Rightarrow> Error + DocTableCell" where
  "createPropertyTypeCell D apiItem =
     (let C = tsdocConfiguration D; d = refData apiItem in
      bindE (if kind d = Property \<or> kind d = PropertySignature
             then bindE (createParagraphForTypeExcerpt D (propertyTypeExcerpt d)) (\<lambda>p.
                    appendNode C Section [] p)
             else Inr []) (\<lambda>section.
        new_DocTableCell C section))"

definition createInitializerCell :: "Documenter \<Rightarrow> ItemRef \<Rightarrow> Error + DocTableCell" where
  "createInitializerCell D apiItem =
     (let C = tsdocConfiguration D in
      bindE (case initializerExcerpt (refData apiItem) of
               None \<Rightarrow> Inr []
             | Some excerpt \<Rightarrow> appendNodeInParagraph C [] (DocCodeSpan (excerptText excerpt)))
        (\<lambda>section. new_DocTableCell C section))"

text \<open>The rows of the tables, as the loops build them: the cells from left to right.\<close>

definition titleDescriptionRow :: "Documenter \<Rightarrow> ItemRef \<Rightarrow> bool \<Rightarrow> Error + DocTableRow" where
  "titleDescriptionRow D apiMember isInherited =
     bindE (createTitleCell D apiMember) (\<lambda>c1.
     bindE (createDescriptionCell D apiMember isInherited) (\<lambda>c2.
       Inr (DocTableRow [c1, c2])))"

definition titleModifiersDescriptionRow :: "Documenter \<Rightarrow> ItemRef \<Rightarrow> bool \<Rightarrow> Error + DocTableRow" where
  "titleModifiersDescriptionRow D apiMember isInherited =
     bindE (createTitleCell D apiMember) (\<lambda>c1.
     bindE (createModifiersCell D apiMember) (\<lambda>c2.
     bindE (createDescriptionCell D apiMember isInherited) (\<lambda>c3.
       Inr (DocTableRow [c1, c2, c3]))))"

definition propertyRow :: "Documenter \<Rightarrow> ItemRef \<Rightarrow> bool \<Rightarrow> Error + DocTableRow" where
  "propertyRow D apiMember isInherited =
     bindE (createTitleCell D apiMember) (\<lambda>c1.
     bindE (createModifiersCell D apiMember) (\<lambda>c2.
     bindE (createPropertyTypeCell D apiMember) (\<lambda>c3.
     bindE (createDescriptionCell D apiMember isInherited) (\<lambda>c4.
       Inr (DocTableRow [c1, c2, c3, c4])))))"

text \<open>A heading and its table, appended to the page body.\<close>

definition appendHeadingAndTable :: "TSDocConfiguration \<Rightarrow> DocNode list \<Rightarrow> string \<Rightarrow> string list \<Rightarrow> DocTableRow list \<Rightarrow> Error + DocNode list" where
  "appendHeadingAndTable C output heading headerTitles rows =
     bindE (appendNode C Section output (DocHeading heading)) (\<lambda>output.
       appendNode C Section output (DocTable headerTitles rows))"

subsection \<open>Remarks, examples, exceptions and warnings\<close>

text \<open>
  The loop over the example blocks in \<^verbatim>\<open>_writeRemarksSection\<close>: the headings are
  numbered only when there is more than one example.
\<close>

fun exampleLoop :: "TSDocConfiguration \<Rightarrow> nat \<Rightarrow> nat \<Rightarrow> DocNode list \<Rightarrow> (string \<times> DocNode list) list \<Rightarrow> Error + DocNode list" where
  "exampleLoop C exampleCount exampleNumber output [] = Inr output"
| "exampleLoop C exampleCount exampleNumber output (exampleBlock # exampleBlocks) =
     (let heading = (if exampleCount > 1 then ''Example '' @ decimal exampleNumber else ''Example'')
      in bindE (appendNode C Section output (DocHeading heading)) (\<lambda>output.
         bindE (appendSection C output (snd exampleBlock)) (\<lambda>output.
           exampleLoop C exampleCount (exampleNumber + 1) output exampleBlocks)))"

definition writeRemarksSection :: "Documenter \<Rightarrow> DocNode list \<Rightarrow> ApiItemData \<Rightarrow> Error + DocNode list" where
  "writeRemarksSection D output apiItem =
     (let C = tsdocConfiguration D in
      if isApiDocumentedItem (kind apiItem)
      then (case tsdocComment apiItem of
              None \<Rightarrow> Inr output
            | Some comment \<Rightarrow>
                bindE (case remarksBlock comment of
                         None \<Rightarrow> Inr output
                       | Some content \<Rightarrow>
                           bindE (appendNode C Section output (DocHeading ''Remarks'')) (\<lambda>output.
                             appendSection C output content)) (\<lambda>output.
                  (let exampleBlocks = filter (\<lambda>x. fst x = ''@EXAMPLE'') (customBlocks comment)
                   in exampleLoop C (length exampleBlocks) 1 output exampleBlocks)))
      else Inr output)"

fun throwsLoop :: "TSDocConfiguration \<Rightarrow> DocNode list \<Rightarrow> (string \<times> DocNode list) list \<Rightarrow> Error + DocNode list" where
  "throwsLoop C output [] = Inr output"
| "throwsLoop C output (throwsBlock # throwsBlocks) =
     bindE (appendSection C output (snd throwsBlock)) (\<lambda>output.
       throwsLoop C output throwsBlocks)"

definition writeThrowsSection :: "Documenter \<Rightarrow> DocNode list \<Rightarrow> ApiItemData \<Rightarrow> Error + DocNode list" where
  "writeThrowsSection D output apiItem =
     (let C = tsdocConfiguration D in
      if isApiDocumentedItem (kind apiItem)
      then (case tsdocComment apiItem of
              None \<Rightarrow> Inr output
            | Some comment \<Rightarrow>
                (let throwsBlocks = filter (\<lambda>x. fst x = ''@THROWS'') (customBlocks comment)
                 in if length throwsBlocks > 0
                    then bindE (appendNode C Section output (DocHeading ''Exceptions'')) (\<lambda>output.
                           throwsLoop C output throwsBlocks)
                    else Inr output))
      else Inr output)"

definition noteBoxWithText :: "TSDocConfiguration \<Rightarrow> DocNode list \<Rightarrow> string \<Rightarrow> Error + DocNode list" where
  "noteBoxWithText C output warning =
     bindE (new_DocParagraph C [DocPlainText warning]) (\<lambda>p.
     bindE (new_DocNoteBox C [p]) (\<lambda>box.
       appendNode C Section output box))"

definition writeAlphaWarning :: "Documenter \<Rightarrow> DocNode list \<Rightarrow> Error + DocNode list" where
  "writeAlphaWarning D output =
     noteBoxWithText (tsdocConfiguration D) output
       (''This API is provided as an alpha preview for developers and may change''
        @ '' based on feedback that we receive.  Do not use this API in a production environment.'')"

definition writeBetaWarning :: "Documenter \<Rightarrow> DocNode list \<Rightarrow> Error + DocNode list" where
  "writeBetaWarning D output =
     noteBoxWithText (tsdocConfiguration D) output
       (''This API is provided as a beta preview for developers and may change''
        @ '' based on feedback that we receive.  Do not use this API in a production environment.'')"

subsection \<open>The tables of an enumeration and of a function-like item\<close>

fun enumLoop :: "Documenter \<Rightarrow> DocTableRow list \<Rightarrow> ItemRef list \<Rightarrow> Error + DocTableRow list" where
  "enumLoop D rows [] = Inr rows"
| "enumLoop D rows (apiEnumMember # apiEnumMembers) =
     (let C = tsdocConfiguration D in
      bindE (new_DocParagraph C [DocPlainText (conciseSignature (refData apiEnumMember))]) (\<lambda>p.
      bindE (new_DocTableCell C [p]) (\<lambda>c1.
      bindE (createInitializerCell D apiEnumMember) (\<lambda>c2.
      bindE (createDescriptionCell D apiEnumMember False) (\<lambda>c3.
        enumLoop D (rows @ [DocTableRow [c1, c2, c3]]) apiEnumMembers)))))"

definition writeEnumTables :: "Documenter \<Rightarrow> DocNode list \<Rightarrow> ItemRef \<Rightarrow> Error + DocNode list" where
  "writeEnumTables D output apiEnum =
     bindE (enumLoop D [] (memberRefs apiEnum)) (\<lambda>enumMembersTable.
       if length enumMembersTable > 0
       then appendHeadingAndTable (tsdocConfiguration D) output ''Enumeration Members''
              [''Member'', ''Value'', ''Description''] enumMembersTable
       else Inr output)"

fun parameterLoop :: "Documenter \<Rightarrow> DocTableRow list \<Rightarrow> Parameter list \<Rightarrow> Error + DocTableRow list" where
  "parameterLoop D rows [] = Inr rows"
| "parameterLoop D rows (apiParameter # apiParameters) =
     (let C = tsdocConfiguration D in
      bindE (if parameterIsOptional apiParameter then optionalMarker C [] else Inr [])
        (\<lambda>parameterDescription.
      bindE (case tsdocParamBlock apiParameter of
               None \<Rightarrow> Inr parameterDescription
             | Some content \<Rightarrow> appendAndMergeSection C parameterDescription content)
        (\<lambda>parameterDescription.
      bindE (new_DocParagraph C [DocPlainText (parameterName apiParameter)]) (\<lambda>p.
      bindE (new_DocTableCell C [p]) (\<lambda>c1.
      bindE (createParagraphForTypeExcerpt D (parameterTypeExcerpt apiParameter)) (\<lambda>t.
      bindE (new_DocTableCell C [t]) (\<lambda>c2.
      bindE (new_DocTableCell C parameterDescription) (\<lambda>c3.
        parameterLoop D (rows @ [DocTableRow [c1, c2, c3]]) apiParameters))))))))"

definition writeParameterTables :: "Documenter \<Rightarrow> DocNode list \<Rightarrow> ApiItemData \<Rightarrow> Error + DocNode list" where
  "writeParameterTables D output apiParameterListMixin =
     (let C = tsdocConfiguration D in
      bindE (parameterLoop D [] (parameters apiParameterListMixin)) (\<lambda>parametersTable.
      bindE (if length parametersTable > 0
             then appendHeadingAndTable C output ''Parameters''
                    [''Parameter'', ''Type'', ''Description''] parametersTable
             else Inr output) (\<lambda>output.
      if ApiReturnTypeMixin_isBaseClassOf (kind apiParameterListMixin)
      then
        bindE (appendNode C Section output (DocParagraph [])) (\<lambda>output.
        bindE (boldLabel C ''Returns:'') (\<lambda>label.
        bindE (appendNode C Section output (DocParagraph label)) (\<lambda>output.
        bindE (createParagraphForTypeExcerpt D (returnTypeExcerpt apiParameterListMixin)) (\<lambda>t.
        bindE (appendNode C Section output t) (\<lambda>output.
          if isApiDocumentedItem (kind apiParameterListMixin)
          then (case tsdocComment apiParameterListMixin of
                  None \<Rightarrow> Inr output
                | Some comment \<Rightarrow>
                    (case returnsBlock comment of
                       None \<Rightarrow> Inr output
                     | Some content \<Rightarrow> appendSection C output content))
          else Inr output)))))
      else Inr output)))"

subsection \<open>The state of a run\<close>

text \<open>
  What a run does to the outside: the lines it logs to the console, and its calls of the
  file system (\<^verbatim>\<open>ensureEmptyFolder\<close>, \<^verbatim>\<open>ensureFolder\<close>, and \<^verbatim>\<open>writeFile\<close> with the file
  name, the contents and the option \<^verbatim>\<open>convertLineEndings\<close>), in order.
\<close>

datatype FileSystemCall =
    EnsureEmptyFolder string
  | EnsureFolder string
  | WriteFile string string NewlineKind

record RunState =
  consoleLog :: "string list"
  fileSystemCalls :: "FileSystemCall list"

subsection \<open>The members of a class or interface\<close>

text \<open>
  \<^verbatim>\<open>_getMembersAndWriteIncompleteWarning\<close>: the members to list, the page body and the
  state after it.
\<close>

definition getMembersAndWriteIncompleteWarning :: "Documenter \<Rightarrow> ItemRef \<Rightarrow> DocNode list \<Rightarrow> RunState \<Rightarrow> Error + (ItemRef list \<times> DocNode list \<times> RunState)" where
  "getMembersAndWriteIncompleteWarning D apiClassOrInterface output st =
     (let C = tsdocConfiguration D;
          showInherited =
            (case documenterConfig D of None \<Rightarrow> False | Some config \<Rightarrow> showInheritedMembers config)
      in if \<not> showInherited then Inr (memberRefs apiClassOrInterface, output, st)
         else
           (let result = findMembersWithInheritance D apiClassOrInterface in
            bindE (if maybeIncompleteResult result
                   then
                     bindE (new_DocEmphasisSpan C False True
                              [DocPlainText (''(Some inherited members may not be shown because they are''
                                 @ '' not represented in the documentation.)'')]) (\<lambda>span.
                     bindE (new_DocParagraph C [span]) (\<lambda>p.
                       appendNode C Section output p))
                   else Inr output) (\<lambda>output.
              Inr (items result, output,
                   st\<lparr> consoleLog := consoleLog st
                         @ map (\<lambda>message. ''Diagnostic message for findMembersWithInheritance: '' @ message)
                             (messages result) \<rparr>))))"

subsection \<open>The tables of the containers\<close>

text \<open>
  The tables of members are built in loops that also write the page of each member they
  list, by a call of \<^verbatim>\<open>_writeApiItemPage\<close>. That call is the argument
  \<open>writeApiItemPage\<close> of the functions below; the recursion is closed further down.
\<close>

type_synonym PageWriter = "ItemRef \<Rightarrow> RunState \<Rightarrow> Error + RunState"

text \<open>\<^verbatim>\<open>_writeModelTable\<close>.\<close>

fun modelLoop :: "Documenter \<Rightarrow> PageWriter \<Rightarrow> DocTableRow list \<Rightarrow> ItemRef list \<Rightarrow> RunState \<Rightarrow> Error + (DocTableRow list \<times> RunState)" where
  "modelLoop D writeApiItemPage packagesTable [] st = Inr (packagesTable, st)"
| "modelLoop D writeApiItemPage packagesTable (apiMember # apiMembers) st =
     bindE (titleDescriptionRow D apiMember False) (\<lambda>row.
       if kind (refData apiMember) = Package
       then bindE (writeApiItemPage apiMember st) (\<lambda>st.
              modelLoop D writeApiItemPage (packagesTable @ [row]) apiMembers st)
       else modelLoop D writeApiItemPage packagesTable apiMembers st)"

definition writeModelTable :: "Documenter \<Rightarrow> PageWriter \<Rightarrow> DocNode list \<Rightarrow> ItemRef \<Rightarrow> RunState \<Rightarrow> Error + (DocNode list \<times> RunState)" where
  "writeModelTable D writeApiItemPage output apiModel st =
     bindE (modelLoop D writeApiItemPage [] (memberRefs apiModel) st) (\<lambda>(packagesTable, st).
     bindE (if length packagesTable > 0
            then appendHeadingAndTable (tsdocConfiguration D) output ''Packages''
                   [''Package'', ''Description''] packagesTable
            else Inr output) (\<lambda>output.
       Inr (output, st)))"

text \<open>\<^verbatim>\<open>_writePackageOrNamespaceTables\<close>: the loop over the entry points of a package.\<close>

fun entrypointsLoop :: "Documenter \<Rightarrow> PageWriter \<Rightarrow> ItemRef \<Rightarrow> DocTableRow list \<Rightarrow> ItemRef list \<Rightarrow> RunState \<Rightarrow> Error + (DocTableRow list \<times> RunState)" where
  "entrypointsLoop D writeApiItemPage apiContainer entrypointsTable [] st =
     Inr (entrypointsTable, st)"
| "entrypointsLoop D writeApiItemPage apiContainer entrypointsTable (entrypoint # entryPoints) st =
     (let C = tsdocConfiguration D;
          importPath = name (refData entrypoint);
          linkText = name (refData apiContainer)
                     @ (if importPath = [] then [] else ''/'' @ importPath)
      in bindE (linkOfRef (naming D) entrypoint) (\<lambda>urlDestination.
         bindE (new_DocParagraph C [DocLinkTag linkText urlDestination]) (\<lambda>p.
         bindE (new_DocTableCell C [p]) (\<lambda>path.
         bindE (writeApiItemPage entrypoint st) (\<lambda>st.
           entrypointsLoop D writeApiItemPage apiContainer
             (entrypointsTable @ [DocTableRow [path]]) entryPoints st)))))"

record ContainerTables =
  abstractClassesTable :: "DocTableRow list"
  classesTable :: "DocTableRow list"
  enumerationsTable :: "DocTableRow list"
  functionsTable :: "DocTableRow list"
  interfacesTable :: "DocTableRow list"
  namespacesTable :: "DocTableRow list"
  variablesTable :: "DocTableRow list"
  typeAliasesTable :: "DocTableRow list"

definition emptyContainerTables :: ContainerTables where
  "emptyContainerTables =
     \<lparr> abstractClassesTable = [], classesTable = [], enumerationsTable = [],
       functionsTable = [], interfacesTable = [], namespacesTable = [],
       variablesTable = [], typeAliasesTable = [] \<rparr>"

text \<open>The table a member of a package or namespace is listed in, if any.\<close>

definition addContainerRow :: "ApiItemData \<Rightarrow> DocTableRow \<Rightarrow> ContainerTables \<Rightarrow> ContainerTables option" where
  "addContainerRow apiMember row T =
     (case kind apiMember of
        Class \<Rightarrow>
          (if isAbstract apiMember = Some True
           then Some (T\<lparr> abstractClassesTable := abstractClassesTable T @ [row] \<rparr>)
           else Some (T\<lparr> classesTable := classesTable T @ [row] \<rparr>))
      | Enum \<Rightarrow> Some (T\<lparr> enumerationsTable := enumerationsTable T @ [row] \<rparr>)
      | Interface \<Rightarrow> Some (T\<lparr> interfacesTable := interfacesTable T @ [row] \<rparr>)
      | Namespace \<Rightarrow> Some (T\<lparr> namespacesTable := namespacesTable T @ [row] \<rparr>)
      | Function \<Rightarrow> Some (T\<lparr> functionsTable := functionsTable T @ [row] \<rparr>)
      | TypeAlias \<Rightarrow> Some (T\<lparr> typeAliasesTable := typeAliasesTable T @ [row] \<rparr>)
      | Variable \<Rightarrow> Some (T\<lparr> variablesTable := variablesTable T @ [row] \<rparr>)
      | _ \<Rightarrow> None)"

fun containerLoop :: "Documenter \<Rightarrow> PageWriter \<Rightarrow> ContainerTables \<Rightarrow> ItemRef list \<Rightarrow> RunState \<Rightarrow> Error + (ContainerTables \<times> RunState)" where
  "containerLoop D writeApiItemPage T [] st = Inr (T, st)"
| "containerLoop D writeApiItemPage T (apiMember # apiMembers) st =
     bindE (titleDescriptionRow D apiMember False) (\<lambda>row.
       case addContainerRow (refData apiMember) row T of
         Some T' \<Rightarrow>
           bindE (writeApiItemPage apiMember st) (\<lambda>st.
             containerLoop D writeApiItemPage T' apiMembers st)
       | None \<Rightarrow> containerLoop D writeApiItemPage T apiMembers st)"

definition appendContainerTables :: "TSDocConfiguration \<Rightarrow> DocNode list \<Rightarrow> ContainerTables \<Rightarrow> Error + DocNode list" where
  "appendContainerTables C output T =
     bindE (if length (classesTable T) > 0
            then appendHeadingAndTable C output ''Classes'' [''Class'', ''Description'']
                   (classesTable T)
            else Inr output) (\<lambda>output.
     bindE (if length (abstractClassesTable T) > 0
            then appendHeadingAndTable C output ''Abstract Classes''
                   [''Abstract Class'', ''Description''] (abstractClassesTable T)
            else Inr output) (\<lambda>output.
     bindE (if length (enumerationsTable T) > 0
            then appendHeadingAndTable C output ''Enumerations''
                   [''Enumeration'', ''Description''] (enumerationsTable T)
            else Inr output) (\<lambda>output.
     bindE (if length (functionsTable T) > 0
            then appendHeadingAndTable C output ''Functions'' [''Function'', ''Description'']
                   (functionsTable T)
            else Inr output) (\<lambda>output.
     bindE (if length (interfacesTable T) > 0
            then appendHeadingAndTable C output ''Interfaces'' [''Interface'', ''Description'']
                   (interfacesTable T)
            else Inr output) (\<lambda>output.
     bindE (if length (namespacesTable T) > 0
            then appendHeadingAndTable C output ''Namespaces'' [''Namespace'', ''Description'']
                   (namespacesTable T)
            else Inr output) (\<lambda>output.
     bindE (if length (variablesTable T) > 0
            then appendHeadingAndTable C output ''Variables'' [''Variable'', ''Description'']
                   (variablesTable T)
            else Inr output) (\<lambda>output.
       if length (typeAliasesTable T) > 0
       then appendHeadingAndTable C output ''Type Aliases'' [''Type Alias'', ''Description'']
              (typeAliasesTable T)
       else Inr output)))))))"

definition writePackageOrNamespaceTables :: "Documenter \<Rightarrow> PageWriter \<Rightarrow> DocNode list \<Rightarrow> ItemRef \<Rightarrow> RunState \<Rightarrow> Error + (DocNode list \<times> RunState)" where
  "writePackageOrNamespaceTables D writeApiItemPage output apiContainer st =
     (let C = tsdocConfiguration D in
      bindE (if kind (refData apiContainer) = Package
             then
               bindE (entrypointsLoop D writeApiItemPage apiContainer []
                        (memberRefs apiContainer) st) (\<lambda>(entrypointsTable, st).
               bindE (if length entrypointsTable > 1
                      then appendHeadingAndTable C output ''Entrypoints'' [''Path''] entrypointsTable
                      else Inr output) (\<lambda>output.
                 Inr (output, st)))
             else Inr (output, st)) (\<lambda>(output, st).
      (let apiMembers =
             (if kind (refData apiContainer) = Package
              then concat (map memberRefs (memberRefs apiContainer))
              else memberRefs apiContainer)
       in bindE (containerLoop D writeApiItemPage emptyContainerTables apiMembers st) (\<lambda>(T, st).
          bindE (appendContainerTables C output T) (\<lambda>output.
            Inr (output, st))))))"

subsection \<open>The tables of a class and of an interface\<close>

record MemberTables =
  eventsTable :: "DocTableRow list"
  constructorsTable :: "DocTableRow list"
  propertiesTable :: "DocTableRow list"
  methodsTable :: "DocTableRow list"

definition emptyMemberTables :: MemberTables where
  "emptyMemberTables =
     \<lparr> eventsTable = [], constructorsTable = [], propertiesTable = [], methodsTable = [] \<rparr>"

text \<open>\<^verbatim>\<open>apiMember.parent !== apiClass\<close>.\<close>

definition isInheritedFrom :: "ItemRef \<Rightarrow> ItemRef \<Rightarrow> bool" where
  "isInheritedFrom apiMember apiClass =
     (case parentOf apiMember of
        None \<Rightarrow> True
      | Some parent \<Rightarrow> uid parent \<noteq> uid (refData apiClass))"

definition addPropertyRow :: "ApiItemData \<Rightarrow> DocTableRow \<Rightarrow> MemberTables \<Rightarrow> MemberTables" where
  "addPropertyRow apiMember row T =
     (if isEventProperty apiMember then T\<lparr> eventsTable := eventsTable T @ [row] \<rparr>
      else T\<lparr> propertiesTable := propertiesTable T @ [row] \<rparr>)"

fun classLoop :: "Documenter \<Rightarrow> PageWriter \<Rightarrow> ItemRef \<Rightarrow> MemberTables \<Rightarrow> ItemRef list \<Rightarrow> RunState \<Rightarrow> Error + (MemberTables \<times> RunState)" where
  "classLoop D writeApiItemPage apiClass T [] st = Inr (T, st)"
| "classLoop D writeApiItemPage apiClass T (apiMember # apiMembers) st =
     (let isInherited = isInheritedFrom apiMember apiClass in
      case kind (refData apiMember) of
        Constructor \<Rightarrow>
          bindE (titleModifiersDescriptionRow D apiMember isInherited) (\<lambda>row.
          bindE (writeApiItemPage apiMember st) (\<lambda>st.
            classLoop D writeApiItemPage apiClass
              (T\<lparr> constructorsTable := constructorsTable T @ [row] \<rparr>) apiMembers st))
      | Method \<Rightarrow>
          bindE (titleModifiersDescriptionRow D apiMember isInherited) (\<lambda>row.
          bindE (writeApiItemPage apiMember st) (\<lambda>st.
            classLoop D writeApiItemPage apiClass
              (T\<lparr> methodsTable := methodsTable T @ [row] \<rparr>) apiMembers st))
      | Property \<Rightarrow>
          bindE (propertyRow D apiMember isInherited) (\<lambda>row.
          bindE (writeApiItemPage apiMember st) (\<lambda>st.
            classLoop D writeApiItemPage apiClass
              (addPropertyRow (refData apiMember) row T) apiMembers st))
      | _ \<Rightarrow> classLoop D writeApiItemPage apiClass T apiMembers st)"

text \<open>The tables of a class that have rows, each under its heading.\<close>

definition appendClassTables :: "TSDocConfiguration \<Rightarrow> DocNode list \<Rightarrow> MemberTables \<Rightarrow> Error + DocNode list" where
  "appendClassTables C output T =
     bindE (if length (eventsTable T) > 0
            then appendHeadingAndTable C output ''Events''
                   [''Property'', ''Modifiers'', ''Type'', ''Description''] (eventsTable T)
            else Inr output) (\<lambda>output.
     bindE (if length (constructorsTable T) > 0
            then appendHeadingAndTable C output ''Constructors''
                   [''Constructor'', ''Modifiers'', ''Description''] (constructorsTable T)
            else Inr output) (\<lambda>output.
     bindE (if length (propertiesTable T) > 0
            then appendHeadingAndTable C output ''Properties''
                   [''Property'', ''Modifiers'', ''Type'', ''Description''] (propertiesTable T)
            else Inr output) (\<lambda>output.
       if length (methodsTable T) > 0
       then appendHeadingAndTable C output ''Methods''
              [''Method'', ''Modifiers'', ''Description''] (methodsTable T)
       else Inr output)))"

text \<open>\<^verbatim>\<open>_writeClassTables\<close>.\<close>

definition writeClassTables :: "Documenter \<Rightarrow> PageWriter \<Rightarrow> DocNode list \<Rightarrow> ItemRef \<Rightarrow> RunState \<Rightarrow> Error + (DocNode list \<times> RunState)" where
  "writeClassTables D writeApiItemPage output apiClass st =
     bindE (getMembersAndWriteIncompleteWarning D apiClass output st)
       (\<lambda>(apiMembers, output, st).
     bindE (classLoop D writeApiItemPage apiClass emptyMemberTables apiMembers st) (\<lambda>(T, st).
     bindE (appendClassTables (tsdocConfiguration D) output T) (\<lambda>output.
       Inr (output, st))))"

fun interfaceLoop :: "Documenter \<Rightarrow> PageWriter \<Rightarrow> ItemRef \<Rightarrow> MemberTables \<Rightarrow> ItemRef list \<Rightarrow> RunState \<Rightarrow> Error + (MemberTables \<times> RunState)" where
  "interfaceLoop D writeApiItemPage apiInterface T [] st = Inr (T, st)"
| "interfaceLoop D writeApiItemPage apiInterface T (apiMember # apiMembers) st =
     (let isInherited = isInheritedFrom apiMember apiInterface in
      if kind (refData apiMember) = ConstructSignature \<or> kind (refData apiMember) = MethodSignature
      then
        bindE (titleDescriptionRow D apiMember isInherited) (\<lambda>row.
        bindE (writeApiItemPage apiMember st) (\<lambda>st.
          interfaceLoop D writeApiItemPage apiInterface
            (T\<lparr> methodsTable := methodsTable T @ [row] \<rparr>) apiMembers st))
      else if kind (refData apiMember) = PropertySignature
      then
        bindE (propertyRow D apiMember isInherited) (\<lambda>row.
        bindE (writeApiItemPage apiMember st) (\<lambda>st.
          interfaceLoop D writeApiItemPage apiInterface
            (addPropertyRow (refData apiMember) row T) apiMembers st))
      else interfaceLoop D writeApiItemPage apiInterface T apiMembers st)"

text \<open>The tables of an interface that have rows, each under its heading.\<close>

definition appendInterfaceTables :: "TSDocConfiguration \<Rightarrow> DocNode list \<Rightarrow> MemberTables \<Rightarrow> Error + DocNode list" where
  "appendInterfaceTables C output T =
     bindE (if length (eventsTable T) > 0
            then appendHeadingAndTable C output ''Events''
                   [''Property'', ''Modifiers'', ''Type'', ''Description''] (eventsTable T)
            else Inr output) (\<lambda>output.
     bindE (if length (propertiesTable T) > 0
            then appendHeadingAndTable C output ''Properties''
                   [''Property'', ''Modifiers'', ''Type'', ''Description''] (propertiesTable T)
            else Inr output) (\<lambda>output.
       if length (methodsTable T) > 0
       then appendHeadingAndTable C output ''Methods'' [''Method'', ''Description'']
              (methodsTable T)
       else Inr output))"

text \<open>\<^verbatim>\<open>_writeInterfaceTables\<close>.\<close>

definition writeInterfaceTables :: "Documenter \<Rightarrow> PageWriter \<Rightarrow> DocNode list \<Rightarrow> ItemRef \<Rightarrow> RunState \<Rightarrow> Error + (DocNode list \<times> RunState)" where
  "writeInterfaceTables D writeApiItemPage output apiInterface st =
     bindE (getMembersAndWriteIncompleteWarning D apiInterface output st)
       (\<lambda>(apiMembers, output, st).
     bindE (interfaceLoop D writeApiItemPage apiInterface emptyMemberTables apiMembers st)
       (\<lambda>(T, st).
     bindE (appendInterfaceTables (tsdocConfiguration D) output T) (\<lambda>output.
       Inr (output, st))))"

subsection \<open>The page of an item\<close>

text \<open>
  The first switch of \<^verbatim>\<open>_writeApiItemPage\<close>: the front matter of the page, or nothing
  for the default entry point (whose page the package writes); a package is logged.
\<close>

definition titled :: "string \<Rightarrow> FrontMatter" where
  "titled t = \<lparr> title = t, menuMainWeight = None \<rparr>"

definition pageFrontMatter :: "Documenter \<Rightarrow> ItemRef \<Rightarrow> RunState \<Rightarrow> Error + (FrontMatter option \<times> RunState)" where
  "pageFrontMatter D apiItem st =
     (let d = refData apiItem; scopedName = scopedNameWithinPackage d in
      case kind d of
        Class \<Rightarrow> Inr (Some (titled (scopedName @ '' class'')), st)
      | EntryPoint \<Rightarrow>
          (if name d = [] then Inr (None, st)
           else (case parentOf apiItem of
                   None \<Rightarrow> Inl TypeError
                 | Some parent \<Rightarrow>
                     bindE (getUnscopedName (naming D) (displayName parent))
                       (\<lambda>unscopedPackageName.
                         Inr (Some (titled (unscopedPackageName @ ''/'' @ displayName d
                                             @ '' entrypoint'')), st))))
      | Enum \<Rightarrow> Inr (Some (titled (scopedName @ '' enum'')), st)
      | Interface \<Rightarrow> Inr (Some (titled (scopedName @ '' interface'')), st)
      | Constructor \<Rightarrow> Inr (Some (titled scopedName), st)
      | ConstructSignature \<Rightarrow> Inr (Some (titled scopedName), st)
      | Method \<Rightarrow> Inr (Some (titled (scopedName @ '' method'')), st)
      | MethodSignature \<Rightarrow> Inr (Some (titled (scopedName @ '' method'')), st)
      | Function \<Rightarrow> Inr (Some (titled (scopedName @ '' function'')), st)
      | Model \<Rightarrow> Inr (Some \<lparr> title = ''API Reference'', menuMainWeight = Some 20 \<rparr>, st)
      | Namespace \<Rightarrow> Inr (Some (titled (scopedName @ '' namespace'')), st)
      | Package \<Rightarrow>
          (let st = st\<lparr> consoleLog := consoleLog st @ [''Writing '' @ displayName d @ '' package''] \<rparr>
           in bindE (getUnscopedName (naming D) (displayName d)) (\<lambda>unscopedPackageName.
                Inr (Some (titled (unscopedPackageName @ '' package'')), st)))
      | Property \<Rightarrow> Inr (Some (titled (scopedName @ '' property'')), st)
      | PropertySignature \<Rightarrow> Inr (Some (titled (scopedName @ '' property'')), st)
      | TypeAlias \<Rightarrow> Inr (Some (titled (scopedName @ '' type'')), st)
      | Variable \<Rightarrow> Inr (Some (titled (scopedName @ '' variable'')), st)
      | _ \<Rightarrow> Inl (UnsupportedKindError (kind d)))"

text \<open>
  The part of the page body that every kind has, up to the decorators: the warning of an
  alpha or beta item, the deprecation note and the summary, the signature and the
  heritage types, and the decorator blocks.
\<close>

definition writeCommonStart :: "Documenter \<Rightarrow> ApiItemData \<Rightarrow> Error + DocNode list" where
  "writeCommonStart D d =
     (let C = tsdocConfiguration D;
          comment = (if isApiDocumentedItem (kind d) then tsdocComment d else None);
          decoratorBlocks =
            (case comment of
               None \<Rightarrow> []
             | Some c \<Rightarrow> filter (\<lambda>block. fst block = ''@DECORATOR'') (customBlocks c))
      in
      bindE (if releaseTag d = Some Alpha then writeAlphaWarning D []
             else if releaseTag d = Some Beta then writeBetaWarning D []
             else Inr []) (\<lambda>output.
      bindE (case comment of
               None \<Rightarrow> Inr output
             | Some c \<Rightarrow>
                 bindE (case deprecatedBlock c of
                          None \<Rightarrow> Inr output
                        | Some content \<Rightarrow>
                            bindE (new_DocParagraph C
                                     [DocPlainText ''Warning: This API is now obsolete. '']) (\<lambda>p.
                            bindE (new_DocNoteBox C (p # content)) (\<lambda>box.
                              appendNode C Section output box))) (\<lambda>output.
                   appendSection C output (summarySection c))) (\<lambda>output.
      bindE (if isApiDeclaredItem (kind d)
             then
               bindE (if length (excerptText (excerptTokens d)) > 0
                      then
                        bindE (boldLabel C ''Signature:'') (\<lambda>label.
                        bindE (appendNode C Section output (DocParagraph label)) (\<lambda>output.
                          appendNode C Section output
                            (DocFencedCode (excerptWithModifiers d) ''typescript'')))
                      else Inr output) (\<lambda>output.
                 writeHeritageTypes D output d)
             else Inr output) (\<lambda>output.
      if length decoratorBlocks > 0
      then
        bindE (boldLabel C ''Decorators:'') (\<lambda>label.
        bindE (appendNode C Section output (DocParagraph label)) (\<lambda>output.
          appendNodes C Section output (concat (map snd decoratorBlocks))))
      else Inr output))))"

text \<open>
  The second switch of \<^verbatim>\<open>_writeApiItemPage\<close>: the content of the item's kind, appended
  to the body.
\<close>

definition writeKindTables :: "Documenter \<Rightarrow> PageWriter \<Rightarrow> DocNode list \<Rightarrow> ItemRef \<Rightarrow> RunState \<Rightarrow> Error + (DocNode list \<times> RunState)" where
  "writeKindTables D writeApiItemPage output apiItem st =
     (let C = tsdocConfiguration D; d = refData apiItem;
          functionLike =
            bindE (writeParameterTables D output d) (\<lambda>output.
            bindE (writeThrowsSection D output d) (\<lambda>output. Inr (output, st)))
      in case kind d of
        Class \<Rightarrow> writeClassTables D writeApiItemPage output apiItem st
      | Enum \<Rightarrow> bindE (writeEnumTables D output apiItem) (\<lambda>output. Inr (output, st))
      | Interface \<Rightarrow> writeInterfaceTables D writeApiItemPage output apiItem st
      | Constructor \<Rightarrow> functionLike
      | ConstructSignature \<Rightarrow> functionLike
      | Method \<Rightarrow> functionLike
      | MethodSignature \<Rightarrow> functionLike
      | Function \<Rightarrow> functionLike
      | Namespace \<Rightarrow> writePackageOrNamespaceTables D writeApiItemPage output apiItem st
      | Model \<Rightarrow> writeModelTable D writeApiItemPage output apiItem st
      | EntryPoint \<Rightarrow>
          bindE (appendNodeInParagraph C output
                   (DocPlainText (''TODO: Please reference the root entrypoint which contains''
                      @ '' links to elements from all entrypoints''))) (\<lambda>output.
            Inr (output, st))
      | Package \<Rightarrow> writePackageOrNamespaceTables D writeApiItemPage output apiItem st
      | Property \<Rightarrow> Inr (output, st)
      | PropertySignature \<Rightarrow> Inr (output, st)
      | TypeAlias \<Rightarrow> Inr (output, st)
      | Variable \<Rightarrow> Inr (output, st)
      | _ \<Rightarrow> Inl (UnsupportedKindError (kind d)))"

text \<open>
  The kinds whose remarks and examples come before the content of the kind (the switch
  that sets \<^verbatim>\<open>appendRemarks\<close> to false).
\<close>

definition remarksFirst :: "ApiItemKind \<Rightarrow> bool" where
  "remarksFirst k = (k = Class \<or> k = Interface \<or> k = Namespace \<or> k = Package)"

text \<open>
  \<^verbatim>\<open>_writeApiItemPage\<close> up to the page body: nothing for the default entry point,
  otherwise the front matter and the body of the page, with the state after the pages of
  the listed members have been written.
\<close>

datatype PageOutcome = Skipped | Page FrontMatter "DocNode list"

definition buildApiItemPage :: "Documenter \<Rightarrow> PageWriter \<Rightarrow> ItemRef \<Rightarrow> RunState \<Rightarrow> Error + (PageOutcome \<times> RunState)" where
  "buildApiItemPage D writeApiItemPage apiItem st =
     bindE (pageFrontMatter D apiItem st) (\<lambda>(frontMatter, st).
       case frontMatter of
         None \<Rightarrow> Inr (Skipped, st)
       | Some frontMatter \<Rightarrow>
           bindE (writeCommonStart D (refData apiItem)) (\<lambda>output.
           bindE (if remarksFirst (kind (refData apiItem))
                  then writeRemarksSection D output (refData apiItem)
                  else Inr output) (\<lambda>output.
           bindE (writeKindTables D writeApiItemPage output apiItem st) (\<lambda>(output, st).
           bindE (if \<not> remarksFirst (kind (refData apiItem))
                  then writeRemarksSection D output (refData apiItem)
                  else Inr output) (\<lambda>output.
             Inr (Page frontMatter output, st))))))"

subsection \<open>Writing the pages\<close>


text \<open>
  The rest of \<^verbatim>\<open>_writeApiItemPage\<close>: the page is emitted, handed to the plugin if there
  is one, and written with the line endings of the configuration file, or with CRLF when
  there is no configuration file.
\<close>

definition writePage :: "Documenter \<Rightarrow> ItemRef \<Rightarrow> FrontMatter \<Rightarrow> DocNode list \<Rightarrow> RunState \<Rightarrow> Error + RunState" where
  "writePage D apiItem frontMatter output st =
     bindE (getFilenameForApiItem (naming D) (fst apiItem) (refData apiItem)) (\<lambda>itemFilename.
     (let filename = path_join D (outputFolder D) itemFilename
      in bindE (emitWithFrontMatter D output frontMatter apiItem (linkOfRef (naming D)))
           (\<lambda>pageContent.
             (let feature = (case documenterConfig D of
                               None \<Rightarrow> None
                             | Some config \<Rightarrow> markdownDocumenterFeature config);
                  pageContent = (case feature of
                                   None \<Rightarrow> pageContent
                                 | Some onBeforeWritePage \<Rightarrow>
                                     onBeforeWritePage apiItem filename pageContent)
              in Inr (st\<lparr> fileSystemCalls := fileSystemCalls st
                           @ [EnsureFolder (path_dirname D filename),
                              WriteFile filename pageContent
                                (case documenterConfig D of
                                   None \<Rightarrow> CrLf
                                 | Some config \<Rightarrow> newlineKind config)] \<rparr>)))))"

text \<open>
  The members a class or interface page lists, and the items whose pages are written
  from within the page of an item.
\<close>

definition listedMembers :: "Documenter \<Rightarrow> ItemRef \<Rightarrow> ItemRef list" where
  "listedMembers D r =
     (if (case documenterConfig D of None \<Rightarrow> False | Some config \<Rightarrow> showInheritedMembers config)
      then items (findMembersWithInheritance D r) else memberRefs r)"

definition listedInContainer :: "ApiItemKind \<Rightarrow> bool" where
  "listedInContainer k =
     (k = Class \<or> k = Enum \<or> k = Interface \<or> k = Namespace \<or> k = Function
      \<or> k = TypeAlias \<or> k = Variable)"

definition pageCallees :: "Documenter \<Rightarrow> ItemRef \<Rightarrow> ItemRef list" where
  "pageCallees D r =
     (case kind (refData r) of
        Class \<Rightarrow>
          filter (\<lambda>m. kind (refData m) = Constructor \<or> kind (refData m) = Method
                      \<or> kind (refData m) = Property) (listedMembers D r)
      | Interface \<Rightarrow>
          filter (\<lambda>m. kind (refData m) = ConstructSignature \<or> kind (refData m) = MethodSignature
                      \<or> kind (refData m) = PropertySignature) (listedMembers D r)
      | Namespace \<Rightarrow> filter (\<lambda>m. listedInContainer (kind (refData m))) (memberRefs r)
      | Package \<Rightarrow>
          memberRefs r
          @ filter (\<lambda>m. listedInContainer (kind (refData m))) (concat (map memberRefs (memberRefs r)))
      | Model \<Rightarrow> filter (\<lambda>m. kind (refData m) = Package) (memberRefs r)
      | _ \<Rightarrow> [])"

text \<open>
  The loops call the page writer only on the members they list; these facts let the
  recursion of the page writer be defined and shown to end.
\<close>

lemma bindE_cong:
  "m = m' \<Longrightarrow> (\<And>x. m' = Inr x \<Longrightarrow> f x = g x) \<Longrightarrow> bindE m f = bindE m' g"
  by (cases m') auto

lemma modelLoop_cong:
  "(\<And>m s. m \<in> set ms \<Longrightarrow> kind (refData m) = Package \<Longrightarrow> wr m s = wr' m s) \<Longrightarrow>
   modelLoop D wr rows ms st = modelLoop D wr' rows ms st"
proof (induction ms arbitrary: rows st)
  case Nil
  then show ?case by simp
next
  case (Cons m ms)
  have rest: "modelLoop D wr X ms = modelLoop D wr' X ms" for X
    by (rule ext, rule Cons.IH) (simp add: Cons.prems)
  have first: "wr m s = wr' m s" if "kind (refData m) = Package" for s
    using that by (simp add: Cons.prems)
  show ?case by (simp add: rest first cong: bindE_cong if_cong)
qed

lemma entrypointsLoop_cong:
  "(\<And>m s. m \<in> set ms \<Longrightarrow> wr m s = wr' m s) \<Longrightarrow>
   entrypointsLoop D wr c rows ms st = entrypointsLoop D wr' c rows ms st"
proof (induction ms arbitrary: rows st)
  case Nil
  then show ?case by simp
next
  case (Cons m ms)
  have rest: "entrypointsLoop D wr c X ms = entrypointsLoop D wr' c X ms" for X
    by (rule ext, rule Cons.IH) (simp add: Cons.prems)
  have first: "wr m s = wr' m s" for s
    by (simp add: Cons.prems)
  show ?case by (simp add: rest first Let_def cong: bindE_cong)
qed

lemma addContainerRow_Some:
  "addContainerRow d row T = Some T' \<Longrightarrow> listedInContainer (kind d)"
  by (cases "kind d") (auto simp: addContainerRow_def listedInContainer_def)

lemma containerLoop_cong:
  "(\<And>m s. m \<in> set ms \<Longrightarrow> listedInContainer (kind (refData m)) \<Longrightarrow> wr m s = wr' m s) \<Longrightarrow>
   containerLoop D wr T ms st = containerLoop D wr' T ms st"
proof (induction ms arbitrary: T st)
  case Nil
  then show ?case by simp
next
  case (Cons m ms)
  have rest: "containerLoop D wr X ms = containerLoop D wr' X ms" for X
    by (rule ext, rule Cons.IH) (simp add: Cons.prems)
  have first: "wr m s = wr' m s" if "addContainerRow (refData m) row T = Some T'" for s row T'
    using addContainerRow_Some [OF that] by (simp add: Cons.prems)
  show ?case by (simp add: rest first cong: bindE_cong option.case_cong)
qed

lemma classLoop_cong:
  "(\<And>m s. m \<in> set ms \<Longrightarrow>
      kind (refData m) = Constructor \<or> kind (refData m) = Method \<or> kind (refData m) = Property \<Longrightarrow>
      wr m s = wr' m s) \<Longrightarrow>
   classLoop D wr c T ms st = classLoop D wr' c T ms st"
proof (induction ms arbitrary: T st)
  case Nil
  then show ?case by simp
next
  case (Cons m ms)
  have rest: "classLoop D wr c X ms = classLoop D wr' c X ms" for X
    by (rule ext, rule Cons.IH) (simp add: Cons.prems)
  have first: "wr m s = wr' m s"
    if "kind (refData m) = Constructor \<or> kind (refData m) = Method \<or> kind (refData m) = Property"
    for s
    using that by (simp add: Cons.prems)
  show ?case by (cases "kind (refData m)") (simp_all add: rest first Let_def)
qed

lemma interfaceLoop_cong:
  "(\<And>m s. m \<in> set ms \<Longrightarrow>
      kind (refData m) = ConstructSignature \<or> kind (refData m) = MethodSignature
        \<or> kind (refData m) = PropertySignature \<Longrightarrow>
      wr m s = wr' m s) \<Longrightarrow>
   interfaceLoop D wr c T ms st = interfaceLoop D wr' c T ms st"
proof (induction ms arbitrary: T st)
  case Nil
  then show ?case by simp
next
  case (Cons m ms)
  have rest: "interfaceLoop D wr c X ms = interfaceLoop D wr' c X ms" for X
    by (rule ext, rule Cons.IH) (simp add: Cons.prems)
  have first: "wr m s = wr' m s"
    if "kind (refData m) = ConstructSignature \<or> kind (refData m) = MethodSignature
        \<or> kind (refData m) = PropertySignature"
    for s
    using that by (simp add: Cons.prems)
  show ?case by (simp add: rest first Let_def cong: if_cong)
qed

lemma getMembers_listed:
  "getMembersAndWriteIncompleteWarning D r output st = Inr (ms, output', st') \<Longrightarrow>
   ms = listedMembers D r"
  by (auto simp: getMembersAndWriteIncompleteWarning_def listedMembers_def Let_def
        split: if_splits option.splits sum.splits elim!: bindE.elims)

lemma writeKindTables_cong:
  assumes "\<And>m s. m \<in> set (pageCallees D r) \<Longrightarrow> wr m s = wr' m s"
  shows "writeKindTables D wr output r st = writeKindTables D wr' output r st"
proof (cases "kind (refData r)")
  case Class
  have "classLoop D wr r T (listedMembers D r) s = classLoop D wr' r T (listedMembers D r) s" for T s
    by (rule classLoop_cong) (use assms Class in \<open>simp add: pageCallees_def\<close>)
  with Class show ?thesis
    unfolding writeKindTables_def writeClassTables_def
    by (auto simp: Let_def dest!: getMembers_listed intro!: bindE_cong)
next
  case Interface
  have "interfaceLoop D wr r T (listedMembers D r) s = interfaceLoop D wr' r T (listedMembers D r) s"
    for T s
    by (rule interfaceLoop_cong) (use assms Interface in \<open>simp add: pageCallees_def\<close>)
  with Interface show ?thesis
    unfolding writeKindTables_def writeInterfaceTables_def
    by (auto simp: Let_def dest!: getMembers_listed intro!: bindE_cong)
next
  case Namespace
  have "containerLoop D wr T (memberRefs r) s = containerLoop D wr' T (memberRefs r) s" for T s
    by (rule containerLoop_cong) (use assms Namespace in \<open>simp add: pageCallees_def\<close>)
  with Namespace show ?thesis
    by (simp add: writeKindTables_def writePackageOrNamespaceTables_def Let_def)
next
  case Package
  have 1: "entrypointsLoop D wr r X (memberRefs r) s = entrypointsLoop D wr' r X (memberRefs r) s"
    for X s
    by (rule entrypointsLoop_cong) (use assms Package in \<open>simp add: pageCallees_def\<close>)
  have 2: "containerLoop D wr T (concat (map memberRefs (memberRefs r))) s
         = containerLoop D wr' T (concat (map memberRefs (memberRefs r))) s" for T s
    by (rule containerLoop_cong) (use assms Package in \<open>simp add: pageCallees_def\<close>)
  from Package show ?thesis
    by (simp add: writeKindTables_def writePackageOrNamespaceTables_def Let_def 1 2)
next
  case Model
  have "modelLoop D wr X (memberRefs r) s = modelLoop D wr' X (memberRefs r) s" for X s
    by (rule modelLoop_cong) (use assms Model in \<open>simp add: pageCallees_def\<close>)
  with Model show ?thesis
    by (simp add: writeKindTables_def writeModelTable_def)
qed (simp_all add: writeKindTables_def)

lemma buildApiItemPage_cong [fundef_cong]:
  assumes "D = D'" "r = r'" "st = st'"
    and "\<And>m s. m \<in> set (pageCallees D' r') \<Longrightarrow> wr m s = wr' m s"
  shows "buildApiItemPage D wr r st = buildApiItemPage D' wr' r' st'"
proof -
  have eq: "writeKindTables D' wr out r' s = writeKindTables D' wr' out r' s" for out s
    by (rule writeKindTables_cong) (rule assms(4))
  show ?thesis
    unfolding assms(1-3) buildApiItemPage_def by (simp only: eq)
qed

text \<open>
  The recursion ends: the pages written from a model, package or namespace page are
  those of items further down the tree, and the pages written from a class or interface
  page (of members, own or inherited) write no further pages.
\<close>

definition pageMeasure :: "ItemRef \<Rightarrow> nat" where
  "pageMeasure r =
     (if kind (refData r) = Class \<or> kind (refData r) = Interface \<or> kind (refData r) = Namespace
         \<or> kind (refData r) = Package \<or> kind (refData r) = Model
      then Suc (size (snd r)) else 0)"

lemma member_size: "x \<in> set (members a) \<Longrightarrow> size x < size a"
  by (cases a) (auto simp: less_Suc_eq_le dest: size_list_estimation' [where f = size, OF _ order_refl])

lemma memberRefs_size: "m \<in> set (memberRefs r) \<Longrightarrow> size (snd m) < size (snd r)"
  by (auto simp: memberRefs_def member_size)

lemma pageCallees_measure: "m \<in> set (pageCallees D r) \<Longrightarrow> pageMeasure m < pageMeasure r"
proof (cases "kind (refData r)")
  case Class
  assume "m \<in> set (pageCallees D r)"
  with Class show ?thesis by (auto simp: pageCallees_def pageMeasure_def)
next
  case Interface
  assume "m \<in> set (pageCallees D r)"
  with Interface show ?thesis by (auto simp: pageCallees_def pageMeasure_def)
next
  case Namespace
  assume "m \<in> set (pageCallees D r)"
  with Namespace have "m \<in> set (memberRefs r)" by (simp add: pageCallees_def)
  from memberRefs_size [OF this] Namespace show ?thesis by (simp add: pageMeasure_def)
next
  case Package
  assume "m \<in> set (pageCallees D r)"
  with Package have "m \<in> set (memberRefs r) \<or> (\<exists>e \<in> set (memberRefs r). m \<in> set (memberRefs e))"
    by (auto simp: pageCallees_def)
  then have "size (snd m) < size (snd r)"
  proof
    assume "m \<in> set (memberRefs r)"
    then show ?thesis by (rule memberRefs_size)
  next
    assume "\<exists>e \<in> set (memberRefs r). m \<in> set (memberRefs e)"
    then obtain e where "e \<in> set (memberRefs r)" "m \<in> set (memberRefs e)" ..
    then have "size (snd m) < size (snd e)" "size (snd e) < size (snd r)"
      by (simp_all add: memberRefs_size)
    then show ?thesis by simp
  qed
  with Package show ?thesis by (simp add: pageMeasure_def)
next
  case Model
  assume "m \<in> set (pageCallees D r)"
  with Model have "m \<in> set (memberRefs r)" by (simp add: pageCallees_def)
  from memberRefs_size [OF this] Model show ?thesis by (simp add: pageMeasure_def)
qed (simp_all add: pageCallees_def)

text \<open>\<^verbatim>\<open>_writeApiItemPage\<close>.\<close>

function writeApiItemPage :: "Documenter \<Rightarrow> ItemRef \<Rightarrow> RunState \<Rightarrow> Error + RunState" where
  "writeApiItemPage D apiItem st =
     bindE (buildApiItemPage D (\<lambda>apiMember st. writeApiItemPage D apiMember st) apiItem st)
       (\<lambda>(outcome, st).
         case outcome of
           Skipped \<Rightarrow> Inr st
         | Page frontMatter output \<Rightarrow> writePage D apiItem frontMatter output st)"
  by pat_completeness auto

termination
  by (relation "measure (\<lambda>(D, r, st). pageMeasure r)") (simp_all add: pageCallees_measure)

declare writeApiItemPage.simps [simp del]

text \<open>
  \<^verbatim>\<open>generateFiles\<close>, on the API model of the documenter: an empty line and a line about
  the old output are logged, the output folder is emptied, and the page of the model is
  written (and with it every other page).
\<close>

definition generateFiles :: "Documenter \<Rightarrow> ItemRef \<Rightarrow> RunState \<Rightarrow> Error + RunState" where
  "generateFiles D apiModel st =
     (let st = st\<lparr> consoleLog := consoleLog st @ [[]] \<rparr>;
          st = st\<lparr> consoleLog := consoleLog st @ [''Deleting old output from '' @ outputFolder D],
                   fileSystemCalls := fileSystemCalls st @ [EnsureEmptyFolder (outputFolder D)] \<rparr>
      in writeApiItemPage D apiModel st)"

subsection \<open>The command line actions\<close>

text \<open>
  The options the two actions construct their documenter with, from the API model and
  the output folder they built: no configuration file in either.
\<close>

record IMarkdownDocumenterOptions =
  options_apiModel :: ItemRef
  options_documenterConfig :: "DocumenterConfig option"
  options_outputFolder :: string

definition HugoAction_options :: "ItemRef \<Rightarrow> string \<Rightarrow> IMarkdownDocumenterOptions" where
  "HugoAction_options apiModel folder =
     \<lparr> options_apiModel = apiModel, options_documenterConfig = None,
       options_outputFolder = folder \<rparr>"

definition MarkdownAction_options :: "ItemRef \<Rightarrow> string \<Rightarrow> IMarkdownDocumenterOptions" where
  "MarkdownAction_options apiModel folder =
     \<lparr> options_apiModel = apiModel, options_documenterConfig = None,
       options_outputFolder = folder \<rparr>"

text \<open>
  The constructor of the documenter, given the configuration the getter
  \<^verbatim>\<open>CustomDocNodes.configuration\<close> returned.
\<close>

definition new_HugoDocumenter :: "Modules \<Rightarrow> TSDocConfiguration \<Rightarrow> IMarkdownDocumenterOptions \<Rightarrow> Documenter" where
  "new_HugoDocumenter M C options =
     Modules.extend M
       \<lparr> tsdocConfiguration = C,
         documenterConfig = options_documenterConfig options,
         outputFolder = options_outputFolder options \<rparr>"

text \<open>\<^verbatim>\<open>HugoAction.onExecute\<close>: the result of the run, and the process state after it.\<close>

definition HugoAction_onExecute :: "Modules \<Rightarrow> ItemRef \<Rightarrow> string \<Rightarrow> Process \<Rightarrow> RunState \<Rightarrow> (Error + RunState) \<times> Process" where
  "HugoAction_onExecute M apiModel folder P st =
     (let options = HugoAction_options apiModel folder;
          (configuration, P) = configuration_get P
      in case configuration of
           Inl e \<Rightarrow> (Inl e, P)
         | Inr C \<Rightarrow>
             (generateFiles (new_HugoDocumenter M C options) (options_apiModel options) st, P))"

subsection \<open>Line endings\<close>

text \<open>
  What \<^verbatim>\<open>FileSystem.writeFile\<close> does with the option \<^verbatim>\<open>convertLineEndings\<close>: every
  line break of the contents (CR LF, LF CR, CR or LF) becomes the newline of the chosen
  kind, which for \<^verbatim>\<open>OsDefault\<close> is the newline of the platform.
\<close>

fun convertTo :: "string \<Rightarrow> string \<Rightarrow> string" where
  "convertTo newline [] = []"
| "convertTo newline [c] = (if c = CHR 0x0D \<or> c = CHR 0x0A then newline else [c])"
| "convertTo newline (c # d # cs) =
     (if (c = CHR 0x0D \<and> d = CHR 0x0A) \<or> (c = CHR 0x0A \<and> d = CHR 0x0D)
      then newline @ convertTo newline cs
      else if c = CHR 0x0D \<or> c = CHR 0x0A then newline @ convertTo newline (d # cs)
      else c # convertTo newline (d # cs))"

definition getNewline :: "string \<Rightarrow> NewlineKind \<Rightarrow> string" where
  "getNewline osEOL k =
     (case k of CrLf \<Rightarrow> [CHR 0x0D, CHR 0x0A] | Lf \<Rightarrow> [CHR 0x0A] | OsDefault \<Rightarrow> osEOL)"

text \<open>The contents a call of the file system leaves in a file, on a platform with the given newline.\<close>

definition writtenContents :: "string \<Rightarrow> FileSystemCall \<Rightarrow> string option" where
  "writtenContents osEOL call =
     (case call of
        WriteFile filename contents k \<Rightarrow> Some (convertTo (getNewline osEOL k) contents)
      | _ \<Rightarrow> None)"

subsection \<open>Definitions for the statements about a run\<close>

text \<open>
  For stating what is in a written file. A text whose line breaks are all CR LF: outside
  the pairs CR LF it holds neither a carriage return nor a line feed. The text without its
  carriage returns and line feeds. The number of line breaks \<^verbatim>\<open>writeFile\<close> finds in a text
  (CR LF, LF CR, CR or LF, from left to right).
\<close>

fun lineBreaksAreCrLf :: "string \<Rightarrow> bool" where
  "lineBreaksAreCrLf [] = True"
| "lineBreaksAreCrLf [c] = (c \<noteq> CHR 0x0D \<and> c \<noteq> CHR 0x0A)"
| "lineBreaksAreCrLf (c # d # cs) =
     (if c = CHR 0x0D then d = CHR 0x0A \<and> lineBreaksAreCrLf cs
      else c \<noteq> CHR 0x0A \<and> lineBreaksAreCrLf (d # cs))"

definition withoutLineBreaks :: "string \<Rightarrow> string" where
  "withoutLineBreaks s = filter (\<lambda>c. c \<noteq> CHR 0x0D \<and> c \<noteq> CHR 0x0A) s"

fun lineBreaks :: "string \<Rightarrow> nat" where
  "lineBreaks [] = 0"
| "lineBreaks [c] = (if c = CHR 0x0D \<or> c = CHR 0x0A then 1 else 0)"
| "lineBreaks (c # d # cs) =
     (if (c = CHR 0x0D \<and> d = CHR 0x0A) \<or> (c = CHR 0x0A \<and> d = CHR 0x0D)
      then 1 + lineBreaks cs
      else if c = CHR 0x0D \<or> c = CHR 0x0A then 1 + lineBreaks (d # cs)
      else lineBreaks (d # cs))"

text \<open>
  A text as a file holds it with CR LF line endings: every line break is CR LF, there are
  as many of them as the text has line breaks, and the rest of the text is unchanged.
\<close>

definition isCrLfFormOf :: "string \<Rightarrow> string \<Rightarrow> bool" where
  "isCrLfFormOf written contents =
     (lineBreaksAreCrLf written
      \<and> withoutLineBreaks written = withoutLineBreaks contents
      \<and> length (filter (\<lambda>c. c = CHR 0x0A) written) = lineBreaks contents)"

text \<open>
  For stating what a run does to the file system. A call made for a page, on a platform
  with the given newline: \<^verbatim>\<open>ensureFolder\<close>, or \<^verbatim>\<open>writeFile\<close> with the option
  \<^verbatim>\<open>NewlineKind.CrLf\<close>, which leaves the contents with CR LF line endings in the
  file. Then a list of calls that grows by calls of a given kind only; a page writer that
  makes only such calls for an item; the calls of a run: the output folder is emptied,
  and the calls after that are calls for pages; a run that has not done anything yet;
  and the files a run has written.
\<close>

definition isCrLfPageCall :: "string \<Rightarrow> FileSystemCall \<Rightarrow> bool" where
  "isCrLfPageCall osEOL call =
     (case call of
        EnsureEmptyFolder folder \<Rightarrow> False
      | EnsureFolder folder \<Rightarrow> True
      | WriteFile filename contents k \<Rightarrow>
          k = CrLf
          \<and> (case writtenContents osEOL call of
                None \<Rightarrow> False
              | Some written \<Rightarrow> isCrLfFormOf written contents))"

definition growsBy :: "(FileSystemCall \<Rightarrow> bool) \<Rightarrow> FileSystemCall list \<Rightarrow> FileSystemCall list \<Rightarrow> bool" where
  "growsBy Q calls calls' = (take (length calls) calls' = calls \<and> list_all Q (drop (length calls) calls'))"

definition keeps :: "(FileSystemCall \<Rightarrow> bool) \<Rightarrow> PageWriter \<Rightarrow> ItemRef \<Rightarrow> bool" where
  "keeps Q wr m = (\<forall>s s'. wr m s = Inr s' \<longrightarrow> growsBy Q (fileSystemCalls s) (fileSystemCalls s'))"

definition isCrLfRun :: "string \<Rightarrow> string \<Rightarrow> FileSystemCall list \<Rightarrow> FileSystemCall list \<Rightarrow> bool" where
  "isCrLfRun osEOL folder calls calls' =
     (take (length calls) calls' = calls
      \<and> (case drop (length calls) calls' of
            [] \<Rightarrow> False
          | call # pageCalls \<Rightarrow>
              call = EnsureEmptyFolder folder \<and> list_all (isCrLfPageCall osEOL) pageCalls))"

definition emptyRun :: RunState where
  "emptyRun = \<lparr> consoleLog = [], fileSystemCalls = [] \<rparr>"

definition writtenFiles :: "RunState \<Rightarrow> string list" where
  "writtenFiles st =
     concat (map (\<lambda>call. case call of WriteFile filename contents k \<Rightarrow> [filename] | _ \<Rightarrow> [])
               (fileSystemCalls st))"
subsection \<open>Definitions for the statements about a page body\<close>

text \<open>
  For stating what a page body holds: a node that is not a table without rows; the nodes
  of a documentation comment that can reach the body, and a property of all of them; and
  a writer that leaves the body it is given as it is and appends nodes with a given
  property to it, either alone or together with the state of the run.
\<close>

fun tableHasRows :: "DocNode \<Rightarrow> bool" where
  "tableHasRows (DocTable headerTitles rows) = (rows \<noteq> [])"
| "tableHasRows docNode = True"

definition commentNodes :: "DocComment \<Rightarrow> DocNode list" where
  "commentNodes c =
     summarySection c
     @ (case remarksBlock c of None \<Rightarrow> [] | Some content \<Rightarrow> content)
     @ (case deprecatedBlock c of None \<Rightarrow> [] | Some content \<Rightarrow> content)
     @ (case returnsBlock c of None \<Rightarrow> [] | Some content \<Rightarrow> content)
     @ concat (map snd (customBlocks c))"

definition commentAll :: "(DocNode \<Rightarrow> bool) \<Rightarrow> ApiItemData \<Rightarrow> bool" where
  "commentAll P d =
     (case tsdocComment d of None \<Rightarrow> True | Some c \<Rightarrow> list_all P (commentNodes c))"

fun prefixed :: "DocNode list \<Rightarrow> Error + DocNode list \<Rightarrow> Error + DocNode list" where
  "prefixed ns (Inl e) = Inl e"
| "prefixed ns (Inr x) = Inr (ns @ x)"

definition appends :: "(DocNode \<Rightarrow> bool) \<Rightarrow> (DocNode list \<Rightarrow> Error + DocNode list) \<Rightarrow> bool" where
  "appends P f =
     ((\<forall>ns. f ns = prefixed ns (f [])) \<and> (\<forall>x. f [] = Inr x \<longrightarrow> list_all P x))"

fun prefixedS :: "DocNode list \<Rightarrow> Error + (DocNode list \<times> 's) \<Rightarrow> Error + (DocNode list \<times> 's)" where
  "prefixedS ns (Inl e) = Inl e"
| "prefixedS ns (Inr (x, s)) = Inr (ns @ x, s)"

definition appendsS :: "(DocNode \<Rightarrow> bool) \<Rightarrow> (DocNode list \<Rightarrow> Error + (DocNode list \<times> 's)) \<Rightarrow> bool" where
  "appendsS P f =
     ((\<forall>ns. f ns = prefixedS ns (f [])) \<and> (\<forall>x s. f [] = Inr (x, s) \<longrightarrow> list_all P x))"

text \<open>
  What the guard \<^verbatim>\<open>rows.length > 0\<close> before \<^verbatim>\<open>appendNode\<close> of a heading and of its table
  leaves of the rows collected for the table: nothing when there are none, and otherwise
  the heading and the table.
\<close>

definition headedTable :: "string \<Rightarrow> string list \<Rightarrow> DocTableRow list \<Rightarrow> DocNode list" where
  "headedTable headingTitle headerTitles rows =
     (if rows = [] then [] else [DocHeading headingTitle, DocTable headerTitles rows])"

text \<open>The paragraph that \<^verbatim>\<open>_getMembersAndWriteIncompleteWarning\<close> appends.\<close>

definition incompleteWarning :: DocNode where
  "incompleteWarning =
     DocParagraph
       [DocEmphasisSpan False True
          [DocPlainText (''(Some inherited members may not be shown because they are''
             @ '' not represented in the documentation.)'')]]"

section \<open>A small model for the examples\<close>

text \<open>
  A naming in the manner of the two helpers. The safe form of a name has every character
  other than a letter, a digit, \<^verbatim>\<open>_\<close>, \<^verbatim>\<open>-\<close> and \<^verbatim>\<open>.\<close> replaced by \<^verbatim>\<open>_\<close> and is in lower
  case, as \<^verbatim>\<open>Utilities.getSafeFilenameForName\<close> of API Documenter makes it. The unscoped
  name is what follows the scope of a name \<^verbatim>\<open>@scope/name\<close>; a name is refused when what
  remains is empty, starts with \<^verbatim>\<open>.\<close> or \<^verbatim>\<open>_\<close>, or holds a character other than a letter,
  a digit, \<^verbatim>\<open>-\<close>, \<^verbatim>\<open>_\<close> and \<^verbatim>\<open>.\<close>, as \<^verbatim>\<open>PackageName.getUnscopedName\<close> refuses it. Then an
  item with nothing but an identity, a kind and a name; and the package
  \<^verbatim>\<open>@scope/widgets\<close> with its default entry point, a second entry point \<^verbatim>\<open>extras\<close>, an
  entry point \<^verbatim>\<open>sub/path\<close>, a class \<^verbatim>\<open>Widget\<close> and its constructors.
\<close>

definition toLowerCase :: "char \<Rightarrow> char" where
  "toLowerCase c =
     (case map_of (zip ''ABCDEFGHIJKLMNOPQRSTUVWXYZ'' ''abcdefghijklmnopqrstuvwxyz'') c of
        Some l \<Rightarrow> l
      | None \<Rightarrow> c)"

definition isNameCharacter :: "char \<Rightarrow> bool" where
  "isNameCharacter c =
     (c \<in> set (''abcdefghijklmnopqrstuvwxyz'' @ ''ABCDEFGHIJKLMNOPQRSTUVWXYZ''
                @ ''0123456789'' @ ''_-.''))"

definition safeFilename :: "string \<Rightarrow> string" where
  "safeFilename s = map (\<lambda>c. if isNameCharacter c then toLowerCase c else CHR ''_'') s"

definition stripScope :: "string \<Rightarrow> string" where
  "stripScope s =
     (if s \<noteq> [] \<and> hd s = CHR ''@'' \<and> CHR ''/'' \<in> set s
      then tl (dropWhile (\<lambda>c. c \<noteq> CHR ''/'') s) else s)"

definition unscopedName :: "string \<Rightarrow> Error + string" where
  "unscopedName s =
     (let u = stripScope s
      in if u = [] \<or> hd u = CHR ''.'' \<or> hd u = CHR ''_'' \<or> \<not> list_all isNameCharacter u
         then Inl (PackageNameError s) else Inr u)"

definition exNaming :: Naming where
  "exNaming = \<lparr> getSafeFilenameForName = safeFilename, getUnscopedName = unscopedName \<rparr>"

definition blankItem :: "nat \<Rightarrow> ApiItemKind \<Rightarrow> string \<Rightarrow> ApiItemData" where
  "blankItem i k n =
     \<lparr> uid = i, kind = k, displayName = n, name = n, overloadIndex = 1,
       scopedNameWithinPackage = n, conciseSignature = n, releaseTag = None,
       isOptional = None, isStatic = None, isProtected = None, isAbstract = None,
       isReadonly = None, isEventProperty = False, tsdocComment = None,
       excerptTokens = [], excerptWithModifiers = [], extendsType = None,
       implementsTypes = [], extendsTypes = [], parameters = [],
       returnTypeExcerpt = [], propertyTypeExcerpt = [], initializerExcerpt = None \<rparr>"

definition exModel :: ApiItemData where "exModel = blankItem 0 Model []"
definition exPackage :: ApiItemData where "exPackage = blankItem 1 Package ''@scope/widgets''"
definition exRootEntry :: ApiItemData where "exRootEntry = blankItem 2 EntryPoint []"
definition exWidget :: ApiItemData where "exWidget = blankItem 3 Class ''Widget''"
definition exCtor :: "nat \<Rightarrow> string \<Rightarrow> nat \<Rightarrow> ApiItemData" where
  "exCtor i c n = (blankItem i Constructor c)\<lparr> overloadIndex := n \<rparr>"
definition exExtrasEntry :: ApiItemData where "exExtrasEntry = blankItem 6 EntryPoint ''extras''"
definition exSubPathEntry :: ApiItemData where "exSubPathEntry = blankItem 16 EntryPoint ''sub/path''"


text \<open>
  A documenter for the examples: the class \<^verbatim>\<open>Widget\<close> is the one item references
  resolve to, no configuration file is given, and the emitter renders one line with the
  title, ended by a line feed.
\<close>

definition exResolve :: "string \<Rightarrow> ItemRef option" where
  "exResolve reference =
     (if reference = ''@scope/widgets!Widget:class''
      then Some ([exModel, exPackage, exRootEntry], ApiItem exWidget []) else None)"

definition exModules :: Modules where
  "exModules =
     \<lparr> naming = exNaming,
       resolveDeclarationReference = exResolve,
       findMembersWithInheritance =
         (\<lambda>r. \<lparr> items = memberRefs r, messages = [], maybeIncompleteResult = False \<rparr>),
       emitWithFrontMatter =
         (\<lambda>output frontMatter apiItem link. Inr (''title: '' @ title frontMatter @ [CHR 0x0A])),
       path_join = (\<lambda>a b. a @ ''/'' @ b),
       path_dirname = (\<lambda>p. rev (tl (dropWhile (\<lambda>c. c \<noteq> CHR ''/'') (rev p)))) \<rparr>"

definition exDocumenter :: Documenter where
  "exDocumenter =
     Modules.extend exModules
       \<lparr> tsdocConfiguration = customConfiguration 0, documenterConfig = None,
         outputFolder = ''out'' \<rparr>"

text \<open>
  Two reference tokens: one to a class of another library, with a line break in its
  text, and one to \<^verbatim>\<open>Widget\<close>; and a type alias whose excerpt names \<^verbatim>\<open>Widget\<close> twice.
\<close>

definition exMissingToken :: ExcerptToken where
  "exMissingToken =
     \<lparr> tokenKind = Reference, tokenText = ''Gadget<'' @ [CHR 0x0D, CHR 0x0A] @ ''  T>'',
       canonicalReference = Some ''other-lib!Gadget:class'' \<rparr>"

definition exWidgetToken :: ExcerptToken where
  "exWidgetToken =
     \<lparr> tokenKind = Reference, tokenText = ''Widget'',
       canonicalReference = Some ''@scope/widgets!Widget:class'' \<rparr>"


text \<open>
  An interface \<^verbatim>\<open>Widget\<close> merged with the class of that name, the model of the package
  \<^verbatim>\<open>@scope/widgets\<close> with both, and a run that has not done anything yet.
\<close>

definition exWidgetInterface :: ApiItemData where
  "exWidgetInterface = blankItem 9 Interface ''Widget''"

definition exWidgetTree :: ApiItem where
  "exWidgetTree =
     ApiItem exWidget [ApiItem (exCtor 4 ''constructor'' 1) [], ApiItem (exCtor 5 ''constructor'' 2) []]"

definition exTree :: ApiItem where
  "exTree =
     ApiItem exModel
       [ApiItem exPackage
          [ApiItem exRootEntry [exWidgetTree, ApiItem exWidgetInterface []]]]"

definition exRunResult :: RunState where
  "exRunResult =
     \<lparr> consoleLog = [[], ''Deleting old output from out'', ''Writing @scope/widgets package''],
       fileSystemCalls =
         [EnsureEmptyFolder ''out'',
          EnsureFolder ''out/widgets/_root/widget/constructor'',
          WriteFile ''out/widgets/_root/widget/constructor/_index.md''
            (''title: constructor'' @ [CHR 0x0A]) CrLf,
          EnsureFolder ''out/widgets/_root/widget/constructor_1'',
          WriteFile ''out/widgets/_root/widget/constructor_1/_index.md''
            (''title: constructor'' @ [CHR 0x0A]) CrLf,
          EnsureFolder ''out/widgets/_root/widget'',
          WriteFile ''out/widgets/_root/widget/_index.md''
            (''title: Widget class'' @ [CHR 0x0A]) CrLf,
          EnsureFolder ''out/widgets/_root/widget'',
          WriteFile ''out/widgets/_root/widget/_index.md''
            (''title: Widget interface'' @ [CHR 0x0A]) CrLf,
          EnsureFolder ''out/widgets/_root'',
          WriteFile ''out/widgets/_root/_index.md''
            (''title: widgets package'' @ [CHR 0x0A]) CrLf,
          EnsureFolder ''out'',
          WriteFile ''out/_index.md'' (''title: API Reference'' @ [CHR 0x0A]) CrLf] \<rparr>"

text \<open>
  A documentation comment with a summary, remarks and one example; a class \<^verbatim>\<open>Gadget\<close>
  and a function \<^verbatim>\<open>measure\<close> that carry it; and a class \<^verbatim>\<open>Derived\<close> with a signature,
  built by a documenter whose configuration file asks for the inherited members and whose
  inheritance query reports an incomplete result with one message.
\<close>

definition exRemarks :: DocComment where
  "exRemarks =
     \<lparr> summarySection = [DocParagraph [DocPlainText ''A gadget.'']],
       remarksBlock = Some [DocParagraph [DocPlainText ''Handle with care.'']],
       deprecatedBlock = None, returnsBlock = None,
       customBlocks = [(''@EXAMPLE'', [DocFencedCode ''gadget()'' ''ts''])] \<rparr>"

definition exGadget :: ApiItemData where
  "exGadget = (blankItem 11 Class ''Gadget'') \<lparr> tsdocComment := Some exRemarks \<rparr>"

definition exGadgetTree :: ApiItem where
  "exGadgetTree = ApiItem exGadget [ApiItem (exCtor 12 ''(constructor)'' 1) []]"

definition exMeasure :: ApiItemData where
  "exMeasure = (blankItem 13 Function ''measure'') \<lparr> tsdocComment := Some exRemarks \<rparr>"

definition exDerived :: ApiItemData where
  "exDerived =
     (blankItem 14 Class ''Derived'')
       \<lparr> excerptTokens :=
           [\<lparr> tokenKind = Content, tokenText = ''export declare class Derived extends Base '',
              canonicalReference = None \<rparr>],
         excerptWithModifiers := ''export declare class Derived extends Base'' \<rparr>"

definition exInheritingDocumenter :: Documenter where
  "exInheritingDocumenter =
     exDocumenter
       \<lparr> findMembersWithInheritance :=
           (\<lambda>r. \<lparr> items = memberRefs r, messages = [''Unable to analyze base class Base''],
                  maybeIncompleteResult = True \<rparr>),
         documenterConfig :=
           Some \<lparr> newlineKind = CrLf, showInheritedMembers = True,
                  markdownDocumenterFeature = None \<rparr> \<rparr>"

definition exDerivedTree :: ApiItem where
  "exDerivedTree = ApiItem exDerived [ApiItem (exCtor 15 ''(constructor)'' 1) []]"


section \<open>Properties of the file names\<close>

lemmas ex_defs = exModel_def exPackage_def exRootEntry_def exWidget_def exCtor_def exExtrasEntry_def
  exSubPathEntry_def blankItem_def

lemma decimal_nonempty: "decimal n \<noteq> []"
  by (subst decimal.simps) simp

lemma digit_char_inj:
  assumes "a < 10" "b < 10" "digit_char a = digit_char b"
  shows "a = b"
proof -
  have "distinct ''0123456789''" by simp
  moreover have "a < length ''0123456789''" "b < length ''0123456789''"
    using assms by simp_all
  ultimately show ?thesis
    using assms(3) unfolding digit_char_def by (simp only: nth_eq_iff_index_eq)
qed

lemma decimal_1: "decimal (Suc 0) = ''1''"
  by (simp add: decimal.simps digit_char_def)

lemma decimal_inj: "decimal n = decimal m \<Longrightarrow> n = m"
proof (induction n arbitrary: m rule: decimal.induct)
  case (1 n)
  show ?case
  proof (cases "n < 10")
    case small: True
    show ?thesis
    proof (cases "m < 10")
      case True
      with small 1(2) show ?thesis
        by (simp add: decimal.simps [of n] decimal.simps [of m] digit_char_inj)
    next
      case False
      with small 1(2) decimal_nonempty [of "m div 10"] show ?thesis
        by (simp add: decimal.simps [of n] decimal.simps [of m])
    qed
  next
    case large: False
    show ?thesis
    proof (cases "m < 10")
      case True
      with large 1(2) decimal_nonempty [of "n div 10"] show ?thesis
        by (simp add: decimal.simps [of n] decimal.simps [of m])
    next
      case False
      with large 1(2) have eq: "decimal (n div 10) = decimal (m div 10)"
        and d: "digit_char (n mod 10) = digit_char (m mod 10)"
        by (simp_all add: decimal.simps [of n] decimal.simps [of m])
      from 1(1) [OF large eq] have "n div 10 = m div 10" .
      moreover from d have "n mod 10 = m mod 10"
        by (intro digit_char_inj) simp_all
      ultimately show ?thesis
        by (metis div_mult_mod_eq)
    qed
  qed
qed

text \<open>The example naming on the names of the examples.\<close>

lemma exNaming_sel [simp]:
  "getSafeFilenameForName exNaming = safeFilename" "getUnscopedName exNaming = unscopedName"
  by (simp_all add: exNaming_def)

lemma safeFilename_examples:
  "safeFilename ''widgets'' = ''widgets''" "safeFilename ''Widget'' = ''widget''"
  "safeFilename ''constructor'' = ''constructor''" "safeFilename ''(constructor)'' = ''_constructor_''"
  "safeFilename ''limit'' = ''limit''" "safeFilename ''extras'' = ''extras''"
  "safeFilename ''widgets/extras'' = ''widgets_extras''"
  "safeFilename ''Gadget'' = ''gadget''" "safeFilename ''Derived'' = ''derived''"
  "safeFilename ''measure'' = ''measure''" "safeFilename ''WidgetOrGadget'' = ''widgetorgadget''"
  by (simp_all add: safeFilename_def isNameCharacter_def toLowerCase_def)

lemma unscopedName_examples:
  "unscopedName ''@scope/widgets'' = Inr ''widgets''" "unscopedName ''extras'' = Inr ''extras''"
  "unscopedName ''sub/path'' = Inl (PackageNameError ''sub/path'')"
  by (simp_all add: unscopedName_def stripScope_def isNameCharacter_def)

lemmas naming_examples = safeFilename_examples unscopedName_examples

text \<open>The loop over the hierarchy.\<close>

lemma hierarchyStep_default:
  "kind h \<notin> {Model, EnumMember, EntryPoint, Package} \<Longrightarrow>
   hierarchyStep N a base h = Inr (base @ ''/'' @ qualifiedNameOf N h)"
  by (cases "kind h") (simp_all add: hierarchyStep_def)

lemma hierarchyLoop_append:
  "hierarchyLoop N a base (xs @ ys)
     = bindE (hierarchyLoop N a base xs) (\<lambda>base. hierarchyLoop N a base ys)"
proof (induction xs arbitrary: base)
  case Nil
  then show ?case by simp
next
  case (Cons x xs)
  then show ?case by (cases "hierarchyStep N a base x") simp_all
qed

lemma hierarchyStep_other:
  "uid h \<noteq> uid a \<Longrightarrow> uid h \<noteq> uid b \<Longrightarrow> hierarchyStep N a base h = hierarchyStep N b base h"
  by (cases "kind h") (simp_all add: hierarchyStep_def)

lemma hierarchyLoop_other:
  "uid a \<notin> set (map uid xs) \<Longrightarrow> uid b \<notin> set (map uid xs) \<Longrightarrow>
   hierarchyLoop N a base xs = hierarchyLoop N b base xs"
proof (induction xs arbitrary: base)
  case Nil
  then show ?case by simp
next
  case (Cons h xs)
  then have "hierarchyStep N a base h = hierarchyStep N b base h"
    by (intro hierarchyStep_other) auto
  with Cons show ?case by (cases "hierarchyStep N b base h") simp_all
qed

lemma hierarchyLoop_default:
  "list_all (\<lambda>h. kind h \<notin> {Model, EnumMember, EntryPoint, Package}) hs \<Longrightarrow>
   hierarchyLoop N a base hs = Inr (base @ concat (map (\<lambda>h. ''/'' @ qualifiedNameOf N h) hs))"
  by (induction hs arbitrary: base) (simp_all add: hierarchyStep_default)

lemma filename_default:
  "kind a \<notin> {Model, EnumMember, EntryPoint, Package} \<Longrightarrow>
   getFilenameForApiItem N ancestors a =
     bindE (hierarchyLoop N a [] ancestors) (\<lambda>base.
       Inr (base @ ''/'' @ qualifiedNameOf N a @ ''/_index.md''))"
  by (cases "hierarchyLoop N a [] ancestors")
     (simp_all add: getFilenameForApiItem_def hierarchyLoop_append hierarchyStep_default)

text \<open>
  Claim C2, as the code has it. An item with a parameter list whose overload index
  \<open>n\<close> exceeds 1 contributes its safe display name followed by \<open>_\<close> and \<open>n - 1\<close>; a
  variable contributes \<open>var_\<close> followed by its safe display name. For the package
  \<^verbatim>\<open>@scope/widgets\<close> with the default entry point and a class \<^verbatim>\<open>Widget\<close> with two
  constructors of display name \<open>c\<close>, the three pages lie under the directory \<^verbatim>\<open>_root\<close> of
  the entry point: the class at \<^verbatim>\<open><package>/_root/<Widget>/_index.md\<close>, its first
  constructor at \<^verbatim>\<open><package>/_root/<Widget>/<c>/_index.md\<close> and the second overload at
  \<^verbatim>\<open><package>/_root/<Widget>/<c>_1/_index.md\<close>, each name in its safe form, whenever the
  name of the package has an unscoped form (and no file name is built when it has none).
\<close>

theorem overload_suffix_and_var_prefix:
  "(ApiParameterListMixin_isBaseClassOf (kind h) \<and> overloadIndex h > 1 \<longrightarrow>
      hierarchyStep N a base h =
        Inr (base @ ''/'' @ getSafeFilenameForName N (displayName h) @ ''_''
               @ decimal (overloadIndex h - 1)))
   \<and> (kind h = Variable \<longrightarrow>
      hierarchyStep N a base h = Inr (base @ ''/var_'' @ getSafeFilenameForName N (displayName h)))
   \<and> getFilenameForApiItem N [exModel, exPackage, exRootEntry] exWidget =
        bindE (getUnscopedName N ''@scope/widgets'') (\<lambda>unscoped.
          Inr (getSafeFilenameForName N unscoped @ ''/_root/''
                 @ getSafeFilenameForName N ''Widget'' @ ''/_index.md''))
   \<and> getFilenameForApiItem N [exModel, exPackage, exRootEntry, exWidget] (exCtor 4 c 1) =
        bindE (getUnscopedName N ''@scope/widgets'') (\<lambda>unscoped.
          Inr (getSafeFilenameForName N unscoped @ ''/_root/''
                 @ getSafeFilenameForName N ''Widget'' @ ''/'' @ getSafeFilenameForName N c
                 @ ''/_index.md''))
   \<and> getFilenameForApiItem N [exModel, exPackage, exRootEntry, exWidget] (exCtor 5 c 2) =
        bindE (getUnscopedName N ''@scope/widgets'') (\<lambda>unscoped.
          Inr (getSafeFilenameForName N unscoped @ ''/_root/''
                 @ getSafeFilenameForName N ''Widget'' @ ''/'' @ getSafeFilenameForName N c
                 @ ''_1/_index.md''))"
proof (intro conjI impI)
  assume h: "ApiParameterListMixin_isBaseClassOf (kind h) \<and> overloadIndex h > 1"
  then have "kind h \<notin> {Model, EnumMember, EntryPoint, Package}" "kind h \<noteq> Variable"
    by (auto simp: ApiParameterListMixin_isBaseClassOf_def)
  with h show "hierarchyStep N a base h =
        Inr (base @ ''/'' @ getSafeFilenameForName N (displayName h) @ ''_''
               @ decimal (overloadIndex h - 1))"
    by (simp add: hierarchyStep_default qualifiedNameOf_def)
next
  assume "kind h = Variable"
  then show "hierarchyStep N a base h = Inr (base @ ''/var_'' @ getSafeFilenameForName N (displayName h))"
    by (simp add: hierarchyStep_def qualifiedNameOf_def ApiParameterListMixin_isBaseClassOf_def)
qed (cases "getUnscopedName N ''@scope/widgets''";
     simp add: getFilenameForApiItem_def hierarchyStep_def qualifiedNameOf_def
      ApiParameterListMixin_isBaseClassOf_def exModel_def exPackage_def exRootEntry_def
      exWidget_def exCtor_def blankItem_def decimal_1)+

text \<open>
  The same at a second overload of a constructor and at a variable \<^verbatim>\<open>limit\<close>, and the
  three pages of the class \<^verbatim>\<open>Widget\<close>.
\<close>

theorem overload_suffix_and_var_prefix_witness:
  "hierarchyStep exNaming (exCtor 5 ''constructor'' 2) ''widgets/_root/widget'' (exCtor 5 ''constructor'' 2)
     = Inr ''widgets/_root/widget/constructor_1''
   \<and> hierarchyStep exNaming (blankItem 7 Variable ''limit'') ''widgets/_root'' (blankItem 7 Variable ''limit'')
     = Inr ''widgets/_root/var_limit''
   \<and> getFilenameForApiItem exNaming [exModel, exPackage, exRootEntry] exWidget
     = Inr ''widgets/_root/widget/_index.md''
   \<and> getFilenameForApiItem exNaming [exModel, exPackage, exRootEntry, exWidget] (exCtor 4 ''constructor'' 1)
     = Inr ''widgets/_root/widget/constructor/_index.md''
   \<and> getFilenameForApiItem exNaming [exModel, exPackage, exRootEntry, exWidget] (exCtor 5 ''constructor'' 2)
     = Inr ''widgets/_root/widget/constructor_1/_index.md''"
  using overload_suffix_and_var_prefix [of "exCtor 5 ''constructor'' 2" exNaming
          "exCtor 5 ''constructor'' 2" "''widgets/_root/widget''" "''constructor''"]
        overload_suffix_and_var_prefix [of "blankItem 7 Variable ''limit''" exNaming
          "blankItem 7 Variable ''limit''" "''widgets/_root''" "''constructor''"]
  by (simp add: ex_defs ApiParameterListMixin_isBaseClassOf_def decimal_1 naming_examples)

text \<open>
  Claim C2 as stated gives the pages without the entry point's directory. The class page is
  \<^verbatim>\<open>widgets/_root/widget/_index.md\<close>, and none of the three pages is where the claim puts
  it, in the letter case of the claim or in lower case.
\<close>

theorem widget_pages_counterexample:
  "getFilenameForApiItem exNaming [exModel, exPackage, exRootEntry] exWidget
      = Inr ''widgets/_root/widget/_index.md''
   \<and> getFilenameForApiItem exNaming [exModel, exPackage, exRootEntry] exWidget
      \<notin> {Inr ''widgets/Widget/_index.md'', Inr ''widgets/widget/_index.md''}
   \<and> getFilenameForApiItem exNaming [exModel, exPackage, exRootEntry, exWidget] (exCtor 4 ''constructor'' 1)
      \<notin> {Inr ''widgets/Widget/constructor/_index.md'', Inr ''widgets/widget/constructor/_index.md''}
   \<and> getFilenameForApiItem exNaming [exModel, exPackage, exRootEntry, exWidget] (exCtor 5 ''constructor'' 2)
      \<notin> {Inr ''widgets/Widget/constructor_1/_index.md'',
           Inr ''widgets/widget/constructor_1/_index.md''}"
  by (simp add: getFilenameForApiItem_def hierarchyStep_def qualifiedNameOf_def
      ApiParameterListMixin_isBaseClassOf_def ex_defs decimal_1 naming_examples)



text \<open>
  Claim C3, as the code has it. For an item below an entry point of a package, the file
  name starts with the safe unscoped name of the package; then comes the segment of the
  entry point, which is \<^verbatim>\<open>_root\<close> when the name of the entry point (its import path) is
  empty and otherwise the safe form of the unscoped form of that name alone; then the
  names of the items below the entry point. The same holds for the page of the entry
  point itself. When the import path is refused as the name of a package, no file name is
  built: the call fails.
\<close>

theorem entry_point_segment:
  assumes "kind m = Model" and "kind p = Package" and "kind e = EntryPoint"
    and "list_all (\<lambda>h. kind h \<notin> {Model, EnumMember, EntryPoint, Package}) (below @ [a])"
    and "uid a \<noteq> uid p" and "uid e \<noteq> uid p"
  shows "getFilenameForApiItem N ([m, p, e] @ below) a =
           bindE (getUnscopedName N (displayName p)) (\<lambda>packageName.
           bindE (if name e = [] then Inr ''_root''
                  else bindE (getUnscopedName N (name e)) (\<lambda>importPath.
                         Inr (getSafeFilenameForName N importPath))) (\<lambda>segment.
             Inr (getSafeFilenameForName N packageName @ ''/'' @ segment
                    @ concat (map (\<lambda>h. ''/'' @ qualifiedNameOf N h) (below @ [a]))
                    @ ''/_index.md'')))
       \<and> getFilenameForApiItem N [m, p] e =
           bindE (getUnscopedName N (displayName p)) (\<lambda>packageName.
           bindE (if name e = [] then Inr ''_root''
                  else bindE (getUnscopedName N (name e)) (\<lambda>importPath.
                         Inr (getSafeFilenameForName N importPath))) (\<lambda>segment.
             Inr (getSafeFilenameForName N packageName @ ''/'' @ segment @ ''/_index.md'')))"
proof
  have a: "kind a \<noteq> Model" and below: "list_all (\<lambda>h. kind h \<notin> {Model, EnumMember, EntryPoint, Package}) (below @ [a])"
    using assms(4) by auto
  have loop: "hierarchyLoop N a base (below @ [a])
                = Inr (base @ concat (map (\<lambda>h. ''/'' @ qualifiedNameOf N h) (below @ [a])))" for base
    by (rule hierarchyLoop_default [OF below])
  show "getFilenameForApiItem N ([m, p, e] @ below) a =
           bindE (getUnscopedName N (displayName p)) (\<lambda>packageName.
           bindE (if name e = [] then Inr ''_root''
                  else bindE (getUnscopedName N (name e)) (\<lambda>importPath.
                         Inr (getSafeFilenameForName N importPath))) (\<lambda>segment.
             Inr (getSafeFilenameForName N packageName @ ''/'' @ segment
                    @ concat (map (\<lambda>h. ''/'' @ qualifiedNameOf N h) (below @ [a]))
                    @ ''/_index.md'')))"
    using assms(1-3,5) a
    by (cases "getUnscopedName N (displayName p)"; cases "getUnscopedName N (name e)")
       (simp_all add: getFilenameForApiItem_def hierarchyStep_def loop
          del: hierarchyLoop.simps(2) map_append
          add: hierarchyLoop.simps(2) [of N a _ m] hierarchyLoop.simps(2) [of N a _ p]
               hierarchyLoop.simps(2) [of N a _ e])
  show "getFilenameForApiItem N [m, p] e =
           bindE (getUnscopedName N (displayName p)) (\<lambda>packageName.
           bindE (if name e = [] then Inr ''_root''
                  else bindE (getUnscopedName N (name e)) (\<lambda>importPath.
                         Inr (getSafeFilenameForName N importPath))) (\<lambda>segment.
             Inr (getSafeFilenameForName N packageName @ ''/'' @ segment @ ''/_index.md'')))"
    using assms(1-3,6)
    by (cases "getUnscopedName N (displayName p)"; cases "getUnscopedName N (name e)")
       (simp_all add: getFilenameForApiItem_def hierarchyStep_def)
qed

text \<open>
  The class \<^verbatim>\<open>Widget\<close> below the default entry point and below the entry point \<^verbatim>\<open>extras\<close>
  of \<^verbatim>\<open>@scope/widgets\<close>, the pages of the entry point \<^verbatim>\<open>extras\<close> and of the entry point
  \<^verbatim>\<open>sub/path\<close>, whose name is no name of a package.
\<close>

theorem entry_point_segment_witness:
  "getFilenameForApiItem exNaming [exModel, exPackage, exRootEntry] exWidget
     = Inr ''widgets/_root/widget/_index.md''
   \<and> getFilenameForApiItem exNaming [exModel, exPackage, exExtrasEntry] exWidget
     = Inr ''widgets/extras/widget/_index.md''
   \<and> getFilenameForApiItem exNaming [exModel, exPackage] exExtrasEntry
     = Inr ''widgets/extras/_index.md''
   \<and> getFilenameForApiItem exNaming [exModel, exPackage, exSubPathEntry] exWidget
     = Inl (PackageNameError ''sub/path'')
   \<and> getFilenameForApiItem exNaming [exModel, exPackage] exSubPathEntry
     = Inl (PackageNameError ''sub/path'')"
  using entry_point_segment [of exModel exPackage exRootEntry "[]" exWidget exNaming]
        entry_point_segment [of exModel exPackage exExtrasEntry "[]" exWidget exNaming]
        entry_point_segment [of exModel exPackage exSubPathEntry "[]" exWidget exNaming]
  by (simp add: ex_defs qualifiedNameOf_def ApiParameterListMixin_isBaseClassOf_def
        naming_examples)

text \<open>
  Claim C3 as stated makes the segment of a named entry point the safe form of
  \<^verbatim>\<open><unscoped package name>/<import path>\<close>, which for the entry point \<^verbatim>\<open>extras\<close> of
  \<^verbatim>\<open>@scope/widgets\<close> is \<^verbatim>\<open>widgets_extras\<close>. The page of that entry point is
  \<^verbatim>\<open>widgets/extras/_index.md\<close>: the package directory followed by the import path alone,
  and neither that segment after the package directory nor that segment alone. For the
  entry point \<^verbatim>\<open>sub/path\<close> no segment is contributed at all.
\<close>

theorem entry_point_segment_counterexample:
  "getSafeFilenameForName exNaming (''widgets'' @ ''/'' @ name exExtrasEntry) = ''widgets_extras''
   \<and> getFilenameForApiItem exNaming [exModel, exPackage] exExtrasEntry = Inr ''widgets/extras/_index.md''
   \<and> getFilenameForApiItem exNaming [exModel, exPackage] exExtrasEntry
      \<notin> {Inr ''widgets/widgets_extras/_index.md'', Inr ''widgets_extras/_index.md''}
   \<and> getFilenameForApiItem exNaming [exModel, exPackage, exExtrasEntry] exWidget
      \<notin> {Inr ''widgets/widgets_extras/widget/_index.md'', Inr ''widgets_extras/widget/_index.md''}
   \<and> getFilenameForApiItem exNaming [exModel, exPackage] exSubPathEntry
      = Inl (PackageNameError ''sub/path'')"
  by (simp add: getFilenameForApiItem_def hierarchyStep_def qualifiedNameOf_def
        ApiParameterListMixin_isBaseClassOf_def ex_defs naming_examples)

section \<open>Properties of the configuration of the custom nodes\<close>

lemma registerDocNodes_fresh:
  "distinct ks \<Longrightarrow> set ks \<inter> set (registeredKinds C) = {} \<Longrightarrow>
   registerDocNodes pkg ks C =
     Inr (C\<lparr> docNodeDefinitions := docNodeDefinitions C @ map (newDefinition pkg) ks \<rparr>)"
proof (induction ks arbitrary: C)
  case Nil
  then show ?case by simp
next
  case (Cons k ks)
  let ?C = "C\<lparr> docNodeDefinitions := docNodeDefinitions C @ [newDefinition pkg k] \<rparr>"
  from Cons.prems have none: "find (\<lambda>d. docNodeKind d = k) (docNodeDefinitions C) = None"
    by (auto simp: find_None_iff registeredKinds_def)
  from Cons.prems have "distinct ks" "set ks \<inter> set (registeredKinds ?C) = {}"
    by (auto simp: registeredKinds_def newDefinition_def)
  from Cons.IH [OF this] none show ?case
    by (simp add: newDefinition_def)
qed

lemma docNodeKind_newDefinition [simp]: "docNodeKind (newDefinition pkg k) = k"
  by (simp add: newDefinition_def)

lemma docNodeKind_allowChildren [simp]: "docNodeKind (allowChildren p cs d) = docNodeKind d"
  by (simp add: allowChildren_def)

lemma allowChildren_Cons:
  "allowChildren p cs (addAllowedChild p c d) = allowChildren p (c # cs) d"
  by (simp add: allowChildren_def addAllowedChild_def)

lemma getDefinition_registered:
  "k \<in> set (registeredKinds C) \<Longrightarrow> \<exists>d. getDefinition C k = Inr d"
  by (cases "find (\<lambda>d. docNodeKind d = k) (docNodeDefinitions C)")
     (auto simp: getDefinition_def registeredKinds_def find_None_iff)

lemma registerAllowableChildren_registered:
  "p \<in> set (registeredKinds C) \<Longrightarrow> set cs \<subseteq> set (registeredKinds C) \<Longrightarrow>
   registerAllowableChildren p cs C =
     Inr (C\<lparr> docNodeDefinitions := map (allowChildren p cs) (docNodeDefinitions C) \<rparr>)"
proof (induction cs arbitrary: C)
  case Nil
  from getDefinition_registered [OF Nil(1)] obtain d where "getDefinition C p = Inr d" ..
  moreover have "map (allowChildren p []) (docNodeDefinitions C) = docNodeDefinitions C"
    by (induction "docNodeDefinitions C") (simp_all add: allowChildren_def map_idI)
  ultimately show ?case by (simp add: bindE.simps)
next
  case (Cons c cs)
  let ?C = "C\<lparr> docNodeDefinitions := map (addAllowedChild p c) (docNodeDefinitions C) \<rparr>"
  have kinds: "registeredKinds ?C = registeredKinds C"
    by (simp add: registeredKinds_def addAllowedChild_def comp_def)
  from getDefinition_registered [OF Cons.prems(1)] obtain d where d: "getDefinition C p = Inr d" ..
  from Cons.prems(2) have "c \<in> set (registeredKinds C)" by simp
  from getDefinition_registered [OF this] obtain d' where d': "getDefinition C c = Inr d'" ..
  from Cons.prems kinds have "p \<in> set (registeredKinds ?C)" "set cs \<subseteq> set (registeredKinds ?C)"
    by simp_all
  from Cons.IH [OF this] d d' show ?case
    by (simp add: bindE.simps allowChildren_Cons comp_def)
qed

lemma registeredKinds_simps [simp]:
  "registeredKinds (C\<lparr> docNodeDefinitions := ds \<rparr>) = map docNodeKind ds"
  "registeredKinds \<lparr> objectId = i, docNodeDefinitions = ds \<rparr> = map docNodeKind ds"
  by (simp_all add: registeredKinds_def)

lemma map_kind_new [simp]: "map docNodeKind (map (newDefinition pkg) ks) = ks"
  by (simp add: comp_def newDefinition_def map_idI)

lemma map_kind_allow [simp]: "map docNodeKind (map (allowChildren p cs) ds) = map docNodeKind ds"
  by (simp add: comp_def)

lemma distinct_builtIn: "distinct builtInDocNodeKinds"
  by (simp add: builtInDocNodeKinds_def)

lemma new_TSDocConfiguration_eq:
  "new_TSDocConfiguration i =
     Inr \<lparr> objectId = i,
           docNodeDefinitions =
             map (allowChildren Paragraph
                   [BlockTag, CodeSpan, ErrorText, EscapedText, HtmlStartTag,
                    HtmlEndTag, InlineTag, LinkTag, PlainText, SoftBreak])
               (map (allowChildren Section [FencedCode, Paragraph, HtmlStartTag, HtmlEndTag])
                 (map (newDefinition ''@microsoft/tsdoc'') builtInDocNodeKinds)) \<rparr>"
proof -
  let ?C = "\<lambda>ds. \<lparr> objectId = i, docNodeDefinitions = ds \<rparr>"
  let ?D1 = "map (newDefinition ''@microsoft/tsdoc'') builtInDocNodeKinds"
  let ?cs2 = "[FencedCode, Paragraph, HtmlStartTag, HtmlEndTag]"
  let ?D2 = "map (allowChildren Section ?cs2) ?D1"
  let ?cs3 = "[BlockTag, CodeSpan, ErrorText, EscapedText, HtmlStartTag,
              HtmlEndTag, InlineTag, LinkTag, PlainText, SoftBreak]"
  let ?D3 = "map (allowChildren Paragraph ?cs3) ?D2"
  have "set builtInDocNodeKinds \<inter> set (registeredKinds (?C [])) = {}"
    by simp
  from registerDocNodes_fresh [OF distinct_builtIn this]
  have 1: "registerDocNodes ''@microsoft/tsdoc'' builtInDocNodeKinds (?C []) = Inr (?C ?D1)"
    by simp
  have "Section \<in> set (registeredKinds (?C ?D1))" "set ?cs2 \<subseteq> set (registeredKinds (?C ?D1))"
    by (simp_all add: builtInDocNodeKinds_def)
  from registerAllowableChildren_registered [OF this]
  have 2: "registerAllowableChildren Section ?cs2 (?C ?D1) = Inr (?C ?D2)"
    by simp
  have "Paragraph \<in> set (registeredKinds (?C ?D2))" "set ?cs3 \<subseteq> set (registeredKinds (?C ?D2))"
    by (simp_all add: builtInDocNodeKinds_def)
  from registerAllowableChildren_registered [OF this]
  have 3: "registerAllowableChildren Paragraph ?cs3 (?C ?D2) = Inr (?C ?D3)"
    by simp
  show ?thesis
    unfolding new_TSDocConfiguration_def BuiltInDocNodes_register_def
    by (simp only: bindE.simps 1 2 3)
qed

lemma registerCustomDocNodes_eq:
  "bindE (new_TSDocConfiguration i) registerCustomDocNodes = Inr (customConfiguration i)"
proof -
  let ?B = "map (allowChildren Paragraph
                   [BlockTag, CodeSpan, ErrorText, EscapedText, HtmlStartTag,
                    HtmlEndTag, InlineTag, LinkTag, PlainText, SoftBreak])
               (map (allowChildren Section [FencedCode, Paragraph, HtmlStartTag, HtmlEndTag])
                 (map (newDefinition ''@microsoft/tsdoc'') builtInDocNodeKinds))"
  let ?custom = "[EmphasisSpan, Heading, NoteBox, Table, TableCell, TableRow]"
  let ?D1 = "?B @ map (newDefinition ''@micrososft/api-documenter'') ?custom"
  let ?D2 = "map (allowChildren EmphasisSpan [PlainText, SoftBreak]) ?D1"
  let ?D3 = "map (allowChildren Section [Heading, NoteBox, Table]) ?D2"
  let ?D4 = "map (allowChildren Paragraph [EmphasisSpan]) ?D3"
  let ?C = "\<lambda>ds. \<lparr> objectId = i, docNodeDefinitions = ds \<rparr>"
  have "distinct ?custom" "set ?custom \<inter> set (registeredKinds (?C ?B)) = {}"
    by (simp_all add: builtInDocNodeKinds_def)
  from registerDocNodes_fresh [OF this]
  have 1: "registerDocNodes ''@micrososft/api-documenter'' ?custom (?C ?B) = Inr (?C ?D1)"
    by simp
  have "EmphasisSpan \<in> set (registeredKinds (?C ?D1))"
       "set [PlainText, SoftBreak] \<subseteq> set (registeredKinds (?C ?D1))"
    by (simp_all add: builtInDocNodeKinds_def)
  from registerAllowableChildren_registered [OF this]
  have 2: "registerAllowableChildren EmphasisSpan [PlainText, SoftBreak] (?C ?D1) = Inr (?C ?D2)"
    by simp
  have "Section \<in> set (registeredKinds (?C ?D2))"
       "set [Heading, NoteBox, Table] \<subseteq> set (registeredKinds (?C ?D2))"
    by (simp_all add: builtInDocNodeKinds_def)
  from registerAllowableChildren_registered [OF this]
  have 3: "registerAllowableChildren Section [Heading, NoteBox, Table] (?C ?D2) = Inr (?C ?D3)"
    by simp
  have "Paragraph \<in> set (registeredKinds (?C ?D3))"
       "set [EmphasisSpan] \<subseteq> set (registeredKinds (?C ?D3))"
    by (simp_all add: builtInDocNodeKinds_def)
  from registerAllowableChildren_registered [OF this]
  have 4: "registerAllowableChildren Paragraph [EmphasisSpan] (?C ?D3) = Inr (?C ?D4)"
    by simp
  show ?thesis
    unfolding new_TSDocConfiguration_eq registerCustomDocNodes_def customConfiguration_def
    by (simp only: bindE.simps 1 2 3 4)
qed

lemma find_kind_new:
  "find (\<lambda>d. docNodeKind d = k) (map (newDefinition pkg) ks) =
     (if k \<in> set ks then Some (newDefinition pkg k) else None)"
  by (induction ks) auto

lemma find_kind_allow:
  "find (\<lambda>d. docNodeKind d = k) (map (allowChildren p cs) ds) =
     map_option (allowChildren p cs) (find (\<lambda>d. docNodeKind d = k) ds)"
  by (induction ds) auto

lemma find_kind_append:
  "find P (xs @ ys) = (case find P xs of None \<Rightarrow> find P ys | Some x \<Rightarrow> Some x)"
  by (induction xs) auto

lemma allowedChildKinds_allowChildren:
  "allowedChildKinds (allowChildren p cs d) =
     (if docNodeKind d = p then allowedChildKinds d \<union> set cs else allowedChildKinds d)"
  by (simp add: allowChildren_def)

lemma allowedChildKinds_newDefinition [simp]: "allowedChildKinds (newDefinition pkg k) = {}"
  by (simp add: newDefinition_def)

lemma isAllowedChild_Section:
  "isAllowedChild (customConfiguration i) Section k =
     Inr (k \<in> {FencedCode, Paragraph, HtmlStartTag, HtmlEndTag, Heading, NoteBox, Table})"
  by (auto simp: isAllowedChild_def getDefinition_def customConfiguration_def bindE.simps
        find_kind_new find_kind_allow find_kind_append allowedChildKinds_allowChildren
        builtInDocNodeKinds_def)

lemma isAllowedChild_Paragraph:
  "isAllowedChild (customConfiguration i) Paragraph k =
     Inr (k \<in> {BlockTag, CodeSpan, ErrorText, EscapedText, HtmlStartTag, HtmlEndTag,
                InlineTag, LinkTag, PlainText, SoftBreak, EmphasisSpan})"
  by (auto simp: isAllowedChild_def getDefinition_def customConfiguration_def bindE.simps
        find_kind_new find_kind_allow find_kind_append allowedChildKinds_allowChildren
        builtInDocNodeKinds_def)

lemma isAllowedChild_EmphasisSpan:
  "isAllowedChild (customConfiguration i) EmphasisSpan k = Inr (k \<in> {PlainText, SoftBreak})"
  by (auto simp: isAllowedChild_def getDefinition_def customConfiguration_def bindE.simps
        find_kind_new find_kind_allow find_kind_append allowedChildKinds_allowChildren
        builtInDocNodeKinds_def)

lemma customKinds_once:
  "map (\<lambda>k. length (filter (\<lambda>d. docNodeKind d = k) (docNodeDefinitions (customConfiguration i))))
     [EmphasisSpan, Heading, NoteBox, Table, TableCell, TableRow] = [1, 1, 1, 1, 1, 1]"
  by (simp add: customConfiguration_def builtInDocNodeKinds_def)

lemma configuration_get_cached:
  "CustomDocNodes_configuration P = Some c \<Longrightarrow> configuration_get P = (Inr c, P)"
  by (simp add: configuration_get_def)

lemma configuration_get_first:
  "CustomDocNodes_configuration P = None \<Longrightarrow>
   configuration_get P =
     (Inr (customConfiguration (configurationsCreated P)),
      P\<lparr> configurationsCreated := configurationsCreated P + 1,
         CustomDocNodes_configuration := Some (customConfiguration (configurationsCreated P)) \<rparr>)"
  by (simp add: configuration_get_def registerCustomDocNodes_eq Let_def)

lemma accesses_cached:
  "CustomDocNodes_configuration P = Some c \<Longrightarrow> accesses n P = (replicate n (Inr c), P)"
  by (induction n) (simp_all add: configuration_get_cached)

text \<open>
  Claim C9. From the start of the process, any number of accesses (at least one) all
  return one and the same configuration, none fails, and a single configuration object
  has been created and stored when they are done: the registrations ran once. In that
  configuration each of the six custom kinds is registered exactly once; a section allows
  the built-in children and headings, note boxes and tables; a paragraph allows the
  built-in children and emphasis spans; an emphasis span allows plain text and soft
  breaks.
\<close>

theorem configuration_memoized:
  "\<exists>c. accesses (Suc n) initialProcess =
          (replicate (Suc n) (Inr c),
           \<lparr> CustomDocNodes_configuration = Some c, configurationsCreated = 1 \<rparr>)
      \<and> map (\<lambda>k. length (filter (\<lambda>d. docNodeKind d = k) (docNodeDefinitions c)))
           [EmphasisSpan, Heading, NoteBox, Table, TableCell, TableRow] = [1, 1, 1, 1, 1, 1]
      \<and> (\<forall>k. isAllowedChild c Section k =
             Inr (k \<in> {FencedCode, Paragraph, HtmlStartTag, HtmlEndTag, Heading, NoteBox, Table}))
      \<and> (\<forall>k. isAllowedChild c Paragraph k =
             Inr (k \<in> {BlockTag, CodeSpan, ErrorText, EscapedText, HtmlStartTag, HtmlEndTag,
                        InlineTag, LinkTag, PlainText, SoftBreak, EmphasisSpan}))
      \<and> (\<forall>k. isAllowedChild c EmphasisSpan k = Inr (k \<in> {PlainText, SoftBreak}))"
proof -
  let ?c = "customConfiguration 0"
  let ?P = "\<lparr> CustomDocNodes_configuration = Some ?c, configurationsCreated = 1 \<rparr>"
  have first: "configuration_get initialProcess = (Inr ?c, ?P)"
    using configuration_get_first [of initialProcess] by (simp add: initialProcess_def)
  have "accesses n ?P = (replicate n (Inr ?c), ?P)"
    by (rule accesses_cached) simp
  with first have "accesses (Suc n) initialProcess = (replicate (Suc n) (Inr ?c), ?P)"
    by simp
  then show ?thesis
    by (intro exI [of _ ?c] conjI allI)
       (simp_all only: customKinds_once isAllowedChild_Section isAllowedChild_Paragraph
          isAllowedChild_EmphasisSpan)
qed

section \<open>Properties of the page content\<close>

lemma appendNode_Section:
  "appendNode (customConfiguration i) Section nodes n =
     (if nodeKind n \<in> {FencedCode, Paragraph, HtmlStartTag, HtmlEndTag, Heading, NoteBox, Table}
      then Inr (nodes @ [n]) else Inl (StructureError Section (nodeKind n)))"
  by (simp add: appendNode_def isAllowedChild_Section)

lemma appendNode_Paragraph:
  "appendNode (customConfiguration i) Paragraph nodes n =
     (if nodeKind n \<in> {BlockTag, CodeSpan, ErrorText, EscapedText, HtmlStartTag, HtmlEndTag,
                InlineTag, LinkTag, PlainText, SoftBreak, EmphasisSpan}
      then Inr (nodes @ [n]) else Inl (StructureError Paragraph (nodeKind n)))"
  by (simp add: appendNode_def isAllowedChild_Paragraph)

lemma appendNode_EmphasisSpan:
  "appendNode (customConfiguration i) EmphasisSpan nodes n =
     (if nodeKind n \<in> {PlainText, SoftBreak}
      then Inr (nodes @ [n]) else Inl (StructureError EmphasisSpan (nodeKind n)))"
  by (simp add: appendNode_def isAllowedChild_EmphasisSpan)

lemma bindE_Inr_iff: "bindE m f = Inr y \<longleftrightarrow> (\<exists>x. m = Inr x \<and> f x = Inr y)"
  by (cases m) simp_all

lemma nodeKind_excerptTokenNode:
  "excerptTokenNode D t = Inr n \<Longrightarrow> nodeKind n \<in> {PlainText, LinkTag}"
  by (auto simp: excerptTokenNode_def bindE_Inr_iff split: option.splits if_splits)

lemma appendExcerptToken_custom:
  "tsdocConfiguration D = customConfiguration i \<Longrightarrow>
   appendExcerptTokenWithHyperlinks D Paragraph nodes t
     = bindE (excerptTokenNode D t) (\<lambda>n. Inr (nodes @ [n]))"
  by (cases "linkOfRef (naming D) (the (resolveDeclarationReference D (the (canonicalReference t))))")
     (auto simp: appendExcerptTokenWithHyperlinks_def excerptTokenNode_def appendNode_Paragraph
       Let_def split: option.splits)

lemma unwrapRuns_no_newline:
  "CHR 0x0A \<notin> set (unwrapRuns b s) \<and> CHR 0x0D \<notin> set (unwrapRuns b s)"
  by (induction s arbitrary: b) auto

lemma unwrapRuns_id:
  "CHR 0x0A \<notin> set s \<Longrightarrow> CHR 0x0D \<notin> set s \<Longrightarrow> unwrapRuns b s = s"
  by (induction s arbitrary: b) auto

text \<open>
  Claim C4. In a paragraph of a page, a token that does not resolve to an item of the
  model (so every reference token the model cannot resolve) is appended as plain text,
  its text with every run of carriage returns and line feeds replaced by one space, and
  no error is raised; a token that does resolve is appended as a link with the same
  text. So a link is produced only for a reference token whose canonical reference
  resolves.
\<close>

theorem unresolved_reference_is_plain_text:
  assumes "tsdocConfiguration D = customConfiguration i"
  shows "(\<not> resolvesToItem D t \<longrightarrow>
            appendExcerptTokenWithHyperlinks D Paragraph nodes t =
              Inr (nodes @ [DocPlainText (unwrappedText (tokenText t))]))
       \<and> (resolvesToItem D t \<longrightarrow>
            (\<exists>resolvedApiItem. appendExcerptTokenWithHyperlinks D Paragraph nodes t =
               bindE (linkOfRef (naming D) resolvedApiItem) (\<lambda>url.
                 Inr (nodes @ [DocLinkTag (unwrappedText (tokenText t)) url]))))
       \<and> CHR 0x0A \<notin> set (unwrappedText (tokenText t))
       \<and> CHR 0x0D \<notin> set (unwrappedText (tokenText t))
       \<and> (CHR 0x0A \<notin> set (tokenText t) \<and> CHR 0x0D \<notin> set (tokenText t) \<longrightarrow>
            unwrappedText (tokenText t) = tokenText t)"
proof -
  have "\<exists>resolvedApiItem. bindE (excerptTokenNode D t) (\<lambda>n. Inr (nodes @ [n])) =
               bindE (linkOfRef (naming D) resolvedApiItem) (\<lambda>url.
                 Inr (nodes @ [DocLinkTag (unwrappedText (tokenText t)) url]))"
    if "resolvesToItem D t"
  proof -
    from that obtain r where "excerptTokenNode D t
        = bindE (linkOfRef (naming D) r) (\<lambda>url. Inr (DocLinkTag (unwrappedText (tokenText t)) url))"
      by (auto simp: resolvesToItem_def excerptTokenNode_def split: option.splits)
    then have "bindE (excerptTokenNode D t) (\<lambda>n. Inr (nodes @ [n])) =
               bindE (linkOfRef (naming D) r) (\<lambda>url.
                 Inr (nodes @ [DocLinkTag (unwrappedText (tokenText t)) url]))"
      by (cases "linkOfRef (naming D) r") simp_all
    then show ?thesis ..
  qed
  moreover have "\<not> resolvesToItem D t \<Longrightarrow>
      excerptTokenNode D t = Inr (DocPlainText (unwrappedText (tokenText t)))"
    by (auto simp: resolvesToItem_def excerptTokenNode_def split: option.splits)
  ultimately show ?thesis
    using assms
    by (auto simp: appendExcerptToken_custom unwrappedText_def unwrapRuns_no_newline unwrapRuns_id)
qed

text \<open>
  The unresolved token becomes plain text with one space for the line break; the
  resolved one becomes a link to the page of \<^verbatim>\<open>Widget\<close>.
\<close>

theorem unresolved_reference_is_plain_text_witness:
  "appendExcerptTokenWithHyperlinks exDocumenter Paragraph [] exMissingToken
     = Inr [DocPlainText ''Gadget<   T>'']
   \<and> appendExcerptTokenWithHyperlinks exDocumenter Paragraph [] exWidgetToken
     = Inr [DocLinkTag ''Widget'' ''/docs/widgets/_root/widget/_index.md'']"
  using unresolved_reference_is_plain_text [of exDocumenter 0 exMissingToken "[]"]
        unresolved_reference_is_plain_text [of exDocumenter 0 exWidgetToken "[]"]
  by (simp add: exDocumenter_def exModules_def Modules.defs exMissingToken_def exWidgetToken_def exResolve_def
        resolvesToItem_def unwrappedText_def appendExcerptTokenWithHyperlinks_def
        appendNode_Paragraph linkOfRef_def getLinkFilenameForApiItem_def baseUrl_def refData_def
        getFilenameForApiItem_def hierarchyStep_def qualifiedNameOf_def
        ApiParameterListMixin_isBaseClassOf_def ex_defs naming_examples)




lemma boldLabel_custom:
  "boldLabel (customConfiguration i) label = Inr [DocEmphasisSpan True False [DocPlainText label]]"
  by (simp add: boldLabel_def new_DocEmphasisSpan_def appendNode_EmphasisSpan appendNode_Paragraph)



lemma firstOccurrences_Nil: "firstOccurrences ts = [] \<longleftrightarrow> ts = []"
  by (cases ts) simp_all



section \<open>Properties of a run\<close>

lemma growsBy_refl: "growsBy Q calls calls"
  by (simp add: growsBy_def)

lemma growsBy_iff: "growsBy Q calls calls' \<longleftrightarrow> (\<exists>new. calls' = calls @ new \<and> list_all Q new)"
  unfolding growsBy_def
  by (metis append_eq_conv_conj append_take_drop_id)

lemma growsBy_trans: "growsBy Q a b \<Longrightarrow> growsBy Q b c \<Longrightarrow> growsBy Q a c"
  unfolding growsBy_iff by auto

lemma growsBy_append: "list_all Q new \<Longrightarrow> growsBy Q calls (calls @ new)"
  unfolding growsBy_iff by simp

lemma bindE_Inr: "bindE m f = Inr y \<Longrightarrow> \<exists>x. m = Inr x \<and> f x = Inr y"
  by (cases m) auto

lemma keepsD: "keeps Q wr m \<Longrightarrow> wr m s = Inr s' \<Longrightarrow> growsBy Q (fileSystemCalls s) (fileSystemCalls s')"
  by (simp add: keeps_def)

lemma modelLoop_grows:
  assumes "\<And>m. m \<in> set ms \<Longrightarrow> kind (refData m) = Package \<Longrightarrow> keeps Q wr m"
    and "modelLoop D wr rows ms st = Inr (rows', st')"
  shows "growsBy Q (fileSystemCalls st) (fileSystemCalls st')"
  using assms
proof (induction ms arbitrary: rows st)
  case Nil
  then show ?case by (simp add: growsBy_refl)
next
  case (Cons m ms)
  from Cons.prems(2) obtain row where
    step: "(if kind (refData m) = Package
            then bindE (wr m st) (\<lambda>st. modelLoop D wr (rows @ [row]) ms st)
            else modelLoop D wr rows ms st) = Inr (rows', st')"
    by (auto dest!: bindE_Inr)
  have rest: "growsBy Q (fileSystemCalls s) (fileSystemCalls st')"
    if "modelLoop D wr X ms s = Inr (rows', st')" for X s
    using Cons.IH [OF _ that] Cons.prems(1) by simp
  show ?case
  proof (cases "kind (refData m) = Package")
    case True
    with step obtain s where s: "wr m st = Inr s" "modelLoop D wr (rows @ [row]) ms s = Inr (rows', st')"
      by (auto dest!: bindE_Inr)
    from Cons.prems(1) True have "keeps Q wr m" by simp
    from keepsD [OF this s(1)] rest [OF s(2)] show ?thesis by (rule growsBy_trans)
  next
    case False
    with step rest show ?thesis by simp
  qed
qed

lemma entrypointsLoop_grows:
  assumes "\<And>m. m \<in> set ms \<Longrightarrow> keeps Q wr m"
    and "entrypointsLoop D wr c rows ms st = Inr (rows', st')"
  shows "growsBy Q (fileSystemCalls st) (fileSystemCalls st')"
  using assms
proof (induction ms arbitrary: rows st)
  case Nil
  then show ?case by (simp add: growsBy_refl)
next
  case (Cons m ms)
  from Cons.prems(2) obtain X s where
    s: "wr m st = Inr s" "entrypointsLoop D wr c X ms s = Inr (rows', st')"
    by (auto simp: Let_def dest!: bindE_Inr)
  have "keeps Q wr m" using Cons.prems(1) by simp
  from keepsD [OF this s(1)] Cons.IH [OF _ s(2)] Cons.prems(1) show ?case
    by (auto intro: growsBy_trans)
qed

lemma containerLoop_grows:
  assumes "\<And>m. m \<in> set ms \<Longrightarrow> listedInContainer (kind (refData m)) \<Longrightarrow> keeps Q wr m"
    and "containerLoop D wr T ms st = Inr (T', st')"
  shows "growsBy Q (fileSystemCalls st) (fileSystemCalls st')"
  using assms
proof (induction ms arbitrary: T st)
  case Nil
  then show ?case by (simp add: growsBy_refl)
next
  case (Cons m ms)
  from Cons.prems(2) obtain row where
    step: "(case addContainerRow (refData m) row T of
              Some T' \<Rightarrow> bindE (wr m st) (\<lambda>st. containerLoop D wr T' ms st)
            | None \<Rightarrow> containerLoop D wr T ms st) = Inr (T', st')"
    by (auto dest!: bindE_Inr)
  have rest: "growsBy Q (fileSystemCalls s) (fileSystemCalls st')"
    if "containerLoop D wr X ms s = Inr (T', st')" for X s
    using Cons.IH [OF _ that] Cons.prems(1) by simp
  show ?case
  proof (cases "addContainerRow (refData m) row T")
    case None
    with step rest show ?thesis by simp
  next
    case (Some X)
    with step obtain s where s: "wr m st = Inr s" "containerLoop D wr X ms s = Inr (T', st')"
      by (auto dest!: bindE_Inr)
    from addContainerRow_Some [OF Some] Cons.prems(1) have "keeps Q wr m" by simp
    from keepsD [OF this s(1)] rest [OF s(2)] show ?thesis by (rule growsBy_trans)
  qed
qed

lemma classLoop_grows:
  assumes "\<And>m. m \<in> set ms \<Longrightarrow>
      kind (refData m) = Constructor \<or> kind (refData m) = Method \<or> kind (refData m) = Property \<Longrightarrow>
      keeps Q wr m"
    and "classLoop D wr c T ms st = Inr (T', st')"
  shows "growsBy Q (fileSystemCalls st) (fileSystemCalls st')"
  using assms
proof (induction ms arbitrary: T st)
  case Nil
  then show ?case by (simp add: growsBy_refl)
next
  case (Cons m ms)
  have rest: "growsBy Q (fileSystemCalls s) (fileSystemCalls st')"
    if "classLoop D wr c X ms s = Inr (T', st')" for X s
    using Cons.IH [OF _ that] Cons.prems(1) by simp
  have first: "growsBy Q (fileSystemCalls st) (fileSystemCalls s)"
    if "kind (refData m) = Constructor \<or> kind (refData m) = Method \<or> kind (refData m) = Property"
      and "wr m st = Inr s" for s
    using keepsD [of Q wr m st s] Cons.prems(1) that by simp
  show ?case
  proof (cases "kind (refData m) = Constructor \<or> kind (refData m) = Method \<or> kind (refData m) = Property")
    case True
    with Cons.prems(2) obtain X s where "wr m st = Inr s" "classLoop D wr c X ms s = Inr (T', st')"
      by (auto simp: Let_def dest!: bindE_Inr)
    with first [OF True] rest show ?thesis by (blast intro: growsBy_trans)
  next
    case False
    with Cons.prems(2) have "classLoop D wr c T ms st = Inr (T', st')"
      by (cases "kind (refData m)") (simp_all add: Let_def)
    then show ?thesis by (rule rest)
  qed
qed

lemma interfaceLoop_grows:
  assumes "\<And>m. m \<in> set ms \<Longrightarrow>
      kind (refData m) = ConstructSignature \<or> kind (refData m) = MethodSignature
        \<or> kind (refData m) = PropertySignature \<Longrightarrow>
      keeps Q wr m"
    and "interfaceLoop D wr c T ms st = Inr (T', st')"
  shows "growsBy Q (fileSystemCalls st) (fileSystemCalls st')"
  using assms
proof (induction ms arbitrary: T st)
  case Nil
  then show ?case by (simp add: growsBy_refl)
next
  case (Cons m ms)
  have rest: "growsBy Q (fileSystemCalls s) (fileSystemCalls st')"
    if "interfaceLoop D wr c X ms s = Inr (T', st')" for X s
    using Cons.IH [OF _ that] Cons.prems(1) by simp
  have first: "growsBy Q (fileSystemCalls st) (fileSystemCalls s)"
    if "kind (refData m) = ConstructSignature \<or> kind (refData m) = MethodSignature
        \<or> kind (refData m) = PropertySignature"
      and "wr m st = Inr s" for s
    using keepsD [of Q wr m st s] Cons.prems(1) that by simp
  show ?case
  proof (cases "kind (refData m) = ConstructSignature \<or> kind (refData m) = MethodSignature
        \<or> kind (refData m) = PropertySignature")
    case True
    with Cons.prems(2) obtain X s where "wr m st = Inr s" "interfaceLoop D wr c X ms s = Inr (T', st')"
      by (auto simp: Let_def dest!: bindE_Inr split: if_splits)
    with first [OF True] rest show ?thesis by (blast intro: growsBy_trans)
  next
    case False
    with Cons.prems(2) have "interfaceLoop D wr c T ms st = Inr (T', st')"
      by (simp add: Let_def)
    then show ?thesis by (rule rest)
  qed
qed

lemma getMembers_calls:
  "getMembersAndWriteIncompleteWarning D r out st = Inr (ms, out', st') \<Longrightarrow>
   fileSystemCalls st' = fileSystemCalls st"
  by (auto simp: getMembersAndWriteIncompleteWarning_def Let_def
        split: if_splits dest!: bindE_Inr)

lemma writeKindTables_grows:
  assumes callees: "\<And>m. m \<in> set (pageCallees D r) \<Longrightarrow> keeps Q wr m"
    and run: "writeKindTables D wr out r st = Inr (out', st')"
  shows "growsBy Q (fileSystemCalls st) (fileSystemCalls st')"
proof (cases "kind (refData r)")
  case Class
  with run obtain ms o1 s1 T where
    1: "getMembersAndWriteIncompleteWarning D r out st = Inr (ms, o1, s1)"
    and 2: "classLoop D wr r emptyMemberTables ms s1 = Inr (T, st')"
    by (auto simp: writeKindTables_def writeClassTables_def Let_def dest!: bindE_Inr)
  from getMembers_listed [OF 1] have ms: "ms = listedMembers D r" .
  have "growsBy Q (fileSystemCalls s1) (fileSystemCalls st')"
    by (rule classLoop_grows [OF _ 2]) (use callees Class ms in \<open>simp add: pageCallees_def\<close>)
  with getMembers_calls [OF 1] show ?thesis by simp
next
  case Interface
  with run obtain ms o1 s1 T where
    1: "getMembersAndWriteIncompleteWarning D r out st = Inr (ms, o1, s1)"
    and 2: "interfaceLoop D wr r emptyMemberTables ms s1 = Inr (T, st')"
    by (auto simp: writeKindTables_def writeInterfaceTables_def Let_def dest!: bindE_Inr)
  from getMembers_listed [OF 1] have ms: "ms = listedMembers D r" .
  have "growsBy Q (fileSystemCalls s1) (fileSystemCalls st')"
    by (rule interfaceLoop_grows [OF _ 2]) (use callees Interface ms in \<open>simp add: pageCallees_def\<close>)
  with getMembers_calls [OF 1] show ?thesis by simp
next
  case Namespace
  with run obtain T where
    2: "containerLoop D wr emptyContainerTables (memberRefs r) st = Inr (T, st')"
    by (auto simp: writeKindTables_def writePackageOrNamespaceTables_def Let_def dest!: bindE_Inr)
  show ?thesis
    by (rule containerLoop_grows [OF _ 2]) (use callees Namespace in \<open>simp add: pageCallees_def\<close>)
next
  case Package
  with run obtain rows s1 o1 T where
    1: "entrypointsLoop D wr r [] (memberRefs r) st = Inr (rows, s1)"
    and 2: "containerLoop D wr emptyContainerTables (concat (map memberRefs (memberRefs r))) s1
              = Inr (T, st')"
    by (auto simp: writeKindTables_def writePackageOrNamespaceTables_def Let_def dest!: bindE_Inr)
  have "growsBy Q (fileSystemCalls st) (fileSystemCalls s1)"
    by (rule entrypointsLoop_grows [OF _ 1]) (use callees Package in \<open>simp add: pageCallees_def\<close>)
  moreover have "growsBy Q (fileSystemCalls s1) (fileSystemCalls st')"
    by (rule containerLoop_grows [OF _ 2]) (use callees Package in \<open>simp add: pageCallees_def\<close>)
  ultimately show ?thesis by (rule growsBy_trans)
next
  case Model
  with run obtain rows where
    2: "modelLoop D wr [] (memberRefs r) st = Inr (rows, st')"
    by (auto simp: writeKindTables_def writeModelTable_def Let_def dest!: bindE_Inr)
  show ?thesis
    by (rule modelLoop_grows [OF _ 2]) (use callees Model in \<open>simp add: pageCallees_def\<close>)
qed (use run in \<open>auto simp: writeKindTables_def Let_def growsBy_refl dest!: bindE_Inr\<close>)

lemma pageFrontMatter_calls:
  "pageFrontMatter D r st = Inr (fm, st') \<Longrightarrow> fileSystemCalls st' = fileSystemCalls st"
  by (cases "kind (refData r)")
     (auto simp: pageFrontMatter_def Let_def split: if_splits option.splits dest!: bindE_Inr)

lemma buildApiItemPage_grows:
  assumes callees: "\<And>m. m \<in> set (pageCallees D r) \<Longrightarrow> keeps Q wr m"
    and run: "buildApiItemPage D wr r st = Inr (outcome, st')"
  shows "growsBy Q (fileSystemCalls st) (fileSystemCalls st')"
proof -
  from run obtain fm s1 where 1: "pageFrontMatter D r st = Inr (fm, s1)"
    by (auto simp: buildApiItemPage_def dest!: bindE_Inr)
  show ?thesis
  proof (cases fm)
    case None
    with run 1 have "st' = s1" by (simp add: buildApiItemPage_def)
    with pageFrontMatter_calls [OF 1] show ?thesis by (simp add: growsBy_refl)
  next
    case (Some frontMatter)
    with run 1 obtain o1 o2 where "writeKindTables D wr o1 r s1 = Inr (o2, st')"
      by (auto simp: buildApiItemPage_def dest!: bindE_Inr)
    from writeKindTables_grows [OF callees this] pageFrontMatter_calls [OF 1]
    show ?thesis by simp
  qed
qed

text \<open>What \<^verbatim>\<open>writeFile\<close> leaves in the file when it converts to CR LF.\<close>

lemma lineBreaksAreCrLf_plain:
  "c \<noteq> CHR 0x0D \<Longrightarrow> c \<noteq> CHR 0x0A \<Longrightarrow> lineBreaksAreCrLf (c # cs) = lineBreaksAreCrLf cs"
  by (cases cs) simp_all

lemma lineBreaksAreCrLf_convertTo: "lineBreaksAreCrLf (convertTo [CHR 0x0D, CHR 0x0A] s)"
  by (induction "[CHR 0x0D, CHR 0x0A]" s rule: convertTo.induct)
     (auto simp: lineBreaksAreCrLf_plain)

lemma withoutLineBreaks_convertTo:
  "withoutLineBreaks (convertTo [CHR 0x0D, CHR 0x0A] s) = withoutLineBreaks s"
  by (induction "[CHR 0x0D, CHR 0x0A]" s rule: convertTo.induct)
     (auto simp: withoutLineBreaks_def)

lemma lineBreaks_convertTo:
  "length (filter (\<lambda>c. c = CHR 0x0A) (convertTo [CHR 0x0D, CHR 0x0A] s)) = lineBreaks s"
  by (induction "[CHR 0x0D, CHR 0x0A]" s rule: convertTo.induct) auto

lemma isCrLfFormOf_convertTo: "isCrLfFormOf (convertTo [CHR 0x0D, CHR 0x0A] s) s"
  by (simp add: isCrLfFormOf_def lineBreaksAreCrLf_convertTo withoutLineBreaks_convertTo
        lineBreaks_convertTo)

lemma isCrLfPageCall_WriteFile: "isCrLfPageCall osEOL (WriteFile filename contents CrLf)"
  by (simp add: isCrLfPageCall_def writtenContents_def getNewline_def isCrLfFormOf_convertTo)

lemma writePage_CrLf:
  "documenterConfig D = None \<Longrightarrow> writePage D r fm out st = Inr st' \<Longrightarrow>
   growsBy (isCrLfPageCall osEOL) (fileSystemCalls st) (fileSystemCalls st')"
  by (auto simp: writePage_def Let_def isCrLfPageCall_WriteFile
        simp: isCrLfPageCall_def [of _ "EnsureFolder _"]
        dest!: bindE_Inr intro!: growsBy_append)

lemma writeApiItemPage_CrLf:
  "documenterConfig D = None \<Longrightarrow> writeApiItemPage D r st = Inr st' \<Longrightarrow>
   growsBy (isCrLfPageCall osEOL) (fileSystemCalls st) (fileSystemCalls st')"
proof (induction D r st arbitrary: st' rule: writeApiItemPage.induct)
  case (1 D apiItem st)
  let ?wr = "\<lambda>apiMember st. writeApiItemPage D apiMember st"
  have callees: "keeps (isCrLfPageCall osEOL) ?wr m" if "m \<in> set (pageCallees D apiItem)" for m
    unfolding keeps_def using "1.IH" [OF that "1.prems"(1)] by blast
  from "1.prems"(2) obtain outcome s1 where
    build: "buildApiItemPage D ?wr apiItem st = Inr (outcome, s1)"
    and rest: "(case outcome of Skipped \<Rightarrow> Inr s1
                | Page frontMatter out \<Rightarrow> writePage D apiItem frontMatter out s1) = Inr st'"
    by (subst (asm) writeApiItemPage.simps) (auto dest!: bindE_Inr)
  from buildApiItemPage_grows [OF callees build]
  have 1: "growsBy (isCrLfPageCall osEOL) (fileSystemCalls st) (fileSystemCalls s1)" .
  show ?case
  proof (cases outcome)
    case Skipped
    with rest 1 show ?thesis by simp
  next
    case (Page frontMatter out)
    with rest have "writePage D apiItem frontMatter out s1 = Inr st'" by simp
    from 1 writePage_CrLf [OF "1.prems"(1) this] show ?thesis by (rule growsBy_trans)
  qed
qed

text \<open>The page of the model is the last file of a run.\<close>

lemma writePage_last:
  assumes "documenterConfig D = None" and "writePage D r fm out st = Inr st'"
  shows "\<exists>itemFilename contents.
           getFilenameForApiItem (naming D) (fst r) (refData r) = Inr itemFilename
         \<and> emitWithFrontMatter D out fm r (linkOfRef (naming D)) = Inr contents
         \<and> fileSystemCalls st' = fileSystemCalls st
             @ [EnsureFolder (path_dirname D (path_join D (outputFolder D) itemFilename)),
                WriteFile (path_join D (outputFolder D) itemFilename) contents CrLf]"
  using assms by (auto simp: writePage_def Let_def dest!: bindE_Inr)

lemma writeApiItemPage_Model:
  assumes "documenterConfig D = None" and "kind (refData r) = Model"
    and "writeApiItemPage D r st = Inr st'"
  shows "\<exists>calls contents.
           fileSystemCalls st' = calls
             @ [EnsureFolder (path_dirname D (path_join D (outputFolder D) ''_index.md'')),
                WriteFile (path_join D (outputFolder D) ''_index.md'') contents CrLf]"
proof -
  let ?wr = "\<lambda>apiMember st. writeApiItemPage D apiMember st"
  from assms(3) obtain outcome s1 where
    build: "buildApiItemPage D ?wr r st = Inr (outcome, s1)"
    and rest: "(case outcome of Skipped \<Rightarrow> Inr s1
                | Page frontMatter out \<Rightarrow> writePage D r frontMatter out s1) = Inr st'"
    by (subst (asm) writeApiItemPage.simps) (auto dest!: bindE_Inr)
  from build assms(2) obtain fm out where "outcome = Page fm out"
    by (auto simp: buildApiItemPage_def pageFrontMatter_def dest!: bindE_Inr)
  with rest have "writePage D r fm out s1 = Inr st'" by simp
  from writePage_last [OF assms(1) this] assms(2) show ?thesis
    by (auto simp: getFilenameForApiItem_def)
qed

lemma generateFiles_CrLf:
  assumes "documenterConfig D = None" and "generateFiles D apiModel st = Inr st'"
  shows "isCrLfRun osEOL (outputFolder D) (fileSystemCalls st) (fileSystemCalls st')"
proof -
  let ?s = "st\<lparr> consoleLog := consoleLog st @ [[], ''Deleting old output from '' @ outputFolder D],
                 fileSystemCalls := fileSystemCalls st @ [EnsureEmptyFolder (outputFolder D)] \<rparr>"
  from assms(2) have "writeApiItemPage D apiModel ?s = Inr st'"
    by (simp add: generateFiles_def Let_def)
  from writeApiItemPage_CrLf [OF assms(1) this]
  have "growsBy (isCrLfPageCall osEOL) (fileSystemCalls st @ [EnsureEmptyFolder (outputFolder D)])
          (fileSystemCalls st')"
    by simp
  then obtain pageCalls where "fileSystemCalls st'
      = (fileSystemCalls st @ [EnsureEmptyFolder (outputFolder D)]) @ pageCalls"
    and "list_all (isCrLfPageCall osEOL) pageCalls"
    unfolding growsBy_iff by blast
  then show ?thesis by (simp add: isCrLfRun_def)
qed

lemma generateFiles_Model:
  assumes "documenterConfig D = None" and "kind (refData apiModel) = Model"
    and "generateFiles D apiModel st = Inr st'"
  shows "\<exists>calls contents.
           fileSystemCalls st' = calls
             @ [EnsureFolder (path_dirname D (path_join D (outputFolder D) ''_index.md'')),
                WriteFile (path_join D (outputFolder D) ''_index.md'') contents CrLf]"
proof -
  from assms(3) obtain s where "writeApiItemPage D apiModel s = Inr st'"
    by (simp add: generateFiles_def Let_def)
  from writeApiItemPage_Model [OF assms(1,2) this] show ?thesis .
qed

subsection \<open>The run on the example model\<close>

lemmas page_defs =
  buildApiItemPage_def pageFrontMatter_def writeCommonStart_def writeKindTables_def
  writeRemarksSection_def writeThrowsSection_def writeParameterTables_def writeHeritageTypes_def
  writeClassTables_def writeInterfaceTables_def writePackageOrNamespaceTables_def
  writeModelTable_def writeEnumTables_def appendContainerTables_def appendClassTables_def appendInterfaceTables_def
  getMembersAndWriteIncompleteWarning_def appendHeadingAndTable_def
  titleDescriptionRow_def titleModifiersDescriptionRow_def propertyRow_def
  createTitleCell_def createDescriptionCell_def createModifiersCell_def
  createPropertyTypeCell_def createInitializerCell_def createParagraphForTypeExcerpt_def
  modifierParagraph_def optionalMarker_def noteBoxWithText_def writeAlphaWarning_def
  writeBetaWarning_def boldLabel_def new_DocParagraph_def new_DocEmphasisSpan_def
  new_DocNoteBox_def new_DocTableCell_def appendSection_def appendAndMergeSection_def
  appendNodeInParagraph_def addContainerRow_def addPropertyRow_def isInheritedFrom_def
  emptyContainerTables_def emptyMemberTables_def titled_def remarksFirst_def
  isApiDocumentedItem_def isApiDeclaredItem_def ApiReturnTypeMixin_isBaseClassOf_def
  ApiParameterListMixin_isBaseClassOf_def trimIsEmpty_def excerptText_def
  writePage_def memberRefs_def refData_def parentOf_def linkOfRef_def linkOfParent_def
  getLinkFilenameForApiItem_def getFilenameForApiItem_def hierarchyStep_def qualifiedNameOf_def
  baseUrl_def

lemmas ex_documenter_defs = exDocumenter_def exModules_def Modules.defs

lemma exDocumenter_simps [simp]:
  "tsdocConfiguration exDocumenter = customConfiguration 0"
  "documenterConfig exDocumenter = None"
  "outputFolder exDocumenter = ''out''"
  "naming exDocumenter = exNaming"
  "emitWithFrontMatter exDocumenter
     = (\<lambda>out frontMatter apiItem link. Inr (''title: '' @ title frontMatter @ [CHR 0x0A]))"
  "path_join exDocumenter = (\<lambda>a b. a @ ''/'' @ b)"
  "path_dirname exDocumenter = (\<lambda>p. rev (tl (dropWhile (\<lambda>c. c \<noteq> CHR ''/'') (rev p))))"
  by (simp_all add: ex_documenter_defs)

lemma blankItem_sel [simp]:
  "uid (blankItem i k n) = i" "kind (blankItem i k n) = k" "displayName (blankItem i k n) = n"
  "name (blankItem i k n) = n" "overloadIndex (blankItem i k n) = 1"
  "scopedNameWithinPackage (blankItem i k n) = n" "conciseSignature (blankItem i k n) = n"
  "releaseTag (blankItem i k n) = None" "isOptional (blankItem i k n) = None"
  "isStatic (blankItem i k n) = None" "isProtected (blankItem i k n) = None"
  "isAbstract (blankItem i k n) = None" "isReadonly (blankItem i k n) = None"
  "isEventProperty (blankItem i k n) = False" "tsdocComment (blankItem i k n) = None"
  "excerptTokens (blankItem i k n) = []" "excerptWithModifiers (blankItem i k n) = []"
  "extendsType (blankItem i k n) = None" "implementsTypes (blankItem i k n) = []"
  "extendsTypes (blankItem i k n) = []" "parameters (blankItem i k n) = []"
  "returnTypeExcerpt (blankItem i k n) = []" "propertyTypeExcerpt (blankItem i k n) = []"
  "initializerExcerpt (blankItem i k n) = None"
  by (simp_all add: blankItem_def)

lemmas ex_item_defs = exModel_def exPackage_def exRootEntry_def exWidget_def exCtor_def
  exExtrasEntry_def exWidgetInterface_def

lemma decimal_one: "decimal 1 = ''1''"
  by (simp add: decimal_1)

lemmas eval_simps = page_defs Let_def ex_item_defs decimal_one decimal_1 appendNode_Section
  appendNode_Paragraph appendNode_EmphasisSpan naming_examples

lemma ctor1_page:
  "writeApiItemPage exDocumenter
     ([exModel, exPackage, exRootEntry, exWidget], ApiItem (exCtor 4 ''constructor'' 1) []) st
   = Inr (st\<lparr> fileSystemCalls := fileSystemCalls st
            @ [EnsureFolder ''out/widgets/_root/widget/constructor'',
               WriteFile ''out/widgets/_root/widget/constructor/_index.md''
                 (''title: constructor'' @ [CHR 0x0A]) CrLf] \<rparr>)"
  by (subst writeApiItemPage.simps) (simp add: eval_simps del: One_nat_def)

lemma ctor2_page:
  "writeApiItemPage exDocumenter
     ([exModel, exPackage, exRootEntry, exWidget], ApiItem (exCtor 5 ''constructor'' 2) []) st
   = Inr (st\<lparr> fileSystemCalls := fileSystemCalls st
            @ [EnsureFolder ''out/widgets/_root/widget/constructor_1'',
               WriteFile ''out/widgets/_root/widget/constructor_1/_index.md''
                 (''title: constructor'' @ [CHR 0x0A]) CrLf] \<rparr>)"
  by (subst writeApiItemPage.simps) (simp add: eval_simps del: One_nat_def)

lemma class_page:
  "writeApiItemPage exDocumenter ([exModel, exPackage, exRootEntry], exWidgetTree) st
   = Inr (st\<lparr> fileSystemCalls := fileSystemCalls st
            @ [EnsureFolder ''out/widgets/_root/widget/constructor'',
               WriteFile ''out/widgets/_root/widget/constructor/_index.md''
                 (''title: constructor'' @ [CHR 0x0A]) CrLf,
               EnsureFolder ''out/widgets/_root/widget/constructor_1'',
               WriteFile ''out/widgets/_root/widget/constructor_1/_index.md''
                 (''title: constructor'' @ [CHR 0x0A]) CrLf,
               EnsureFolder ''out/widgets/_root/widget'',
               WriteFile ''out/widgets/_root/widget/_index.md''
                 (''title: Widget class'' @ [CHR 0x0A]) CrLf] \<rparr>)"
  apply (subst writeApiItemPage.simps)
  apply (simp add: eval_simps exWidgetTree_def ctor1_page [unfolded ex_item_defs]
      ctor2_page [unfolded ex_item_defs] del: One_nat_def)
  done

lemma interface_page:
  "writeApiItemPage exDocumenter ([exModel, exPackage, exRootEntry], ApiItem exWidgetInterface []) st
   = Inr (st\<lparr> fileSystemCalls := fileSystemCalls st
            @ [EnsureFolder ''out/widgets/_root/widget'',
               WriteFile ''out/widgets/_root/widget/_index.md''
                 (''title: Widget interface'' @ [CHR 0x0A]) CrLf] \<rparr>)"
  by (subst writeApiItemPage.simps) (simp add: eval_simps del: One_nat_def)

lemma rootEntry_page:
  "writeApiItemPage exDocumenter ([exModel, exPackage], ApiItem exRootEntry ms) st = Inr st"
  by (subst writeApiItemPage.simps) (simp add: eval_simps del: One_nat_def)

lemma package_page:
  "writeApiItemPage exDocumenter
     ([exModel], ApiItem exPackage [ApiItem exRootEntry [exWidgetTree, ApiItem exWidgetInterface []]]) st
   = Inr (st\<lparr> consoleLog := consoleLog st @ [''Writing @scope/widgets package''],
             fileSystemCalls := fileSystemCalls st
            @ [EnsureFolder ''out/widgets/_root/widget/constructor'',
               WriteFile ''out/widgets/_root/widget/constructor/_index.md''
                 (''title: constructor'' @ [CHR 0x0A]) CrLf,
               EnsureFolder ''out/widgets/_root/widget/constructor_1'',
               WriteFile ''out/widgets/_root/widget/constructor_1/_index.md''
                 (''title: constructor'' @ [CHR 0x0A]) CrLf,
               EnsureFolder ''out/widgets/_root/widget'',
               WriteFile ''out/widgets/_root/widget/_index.md''
                 (''title: Widget class'' @ [CHR 0x0A]) CrLf,
               EnsureFolder ''out/widgets/_root/widget'',
               WriteFile ''out/widgets/_root/widget/_index.md''
                 (''title: Widget interface'' @ [CHR 0x0A]) CrLf,
               EnsureFolder ''out/widgets/_root'',
               WriteFile ''out/widgets/_root/_index.md''
                 (''title: widgets package'' @ [CHR 0x0A]) CrLf] \<rparr>)"
  apply (subst writeApiItemPage.simps)
  apply (simp add: eval_simps exWidgetTree_def rootEntry_page [unfolded ex_item_defs]
      class_page [unfolded ex_item_defs exWidgetTree_def] interface_page [unfolded ex_item_defs]
      del: One_nat_def)
  done

lemma model_run:
  "generateFiles exDocumenter ([], exTree) emptyRun
   = Inr \<lparr> consoleLog = [[], ''Deleting old output from out'', ''Writing @scope/widgets package''],
           fileSystemCalls =
             [EnsureEmptyFolder ''out'',
              EnsureFolder ''out/widgets/_root/widget/constructor'',
              WriteFile ''out/widgets/_root/widget/constructor/_index.md''
                 (''title: constructor'' @ [CHR 0x0A]) CrLf,
              EnsureFolder ''out/widgets/_root/widget/constructor_1'',
              WriteFile ''out/widgets/_root/widget/constructor_1/_index.md''
                 (''title: constructor'' @ [CHR 0x0A]) CrLf,
              EnsureFolder ''out/widgets/_root/widget'',
              WriteFile ''out/widgets/_root/widget/_index.md''
                 (''title: Widget class'' @ [CHR 0x0A]) CrLf,
              EnsureFolder ''out/widgets/_root/widget'',
              WriteFile ''out/widgets/_root/widget/_index.md''
                 (''title: Widget interface'' @ [CHR 0x0A]) CrLf,
              EnsureFolder ''out/widgets/_root'',
              WriteFile ''out/widgets/_root/_index.md''
                 (''title: widgets package'' @ [CHR 0x0A]) CrLf,
              EnsureFolder ''out'',
              WriteFile ''out/_index.md''
                 (''title: API Reference'' @ [CHR 0x0A]) CrLf] \<rparr>"
  unfolding generateFiles_def exTree_def Let_def
  apply (subst writeApiItemPage.simps)
  apply (simp add: eval_simps emptyRun_def exWidgetTree_def
      package_page [unfolded ex_item_defs exWidgetTree_def] del: One_nat_def)
  done


lemma new_HugoDocumenter_sel [simp]:
  "documenterConfig (new_HugoDocumenter M C options) = options_documenterConfig options"
  "outputFolder (new_HugoDocumenter M C options) = options_outputFolder options"
  "tsdocConfiguration (new_HugoDocumenter M C options) = C"
  "path_join (new_HugoDocumenter M C options) = path_join M"
  "path_dirname (new_HugoDocumenter M C options) = path_dirname M"
  by (simp_all add: new_HugoDocumenter_def Modules.defs)

lemma onExecute_generateFiles:
  "HugoAction_onExecute M apiModel folder P st = (Inr st', P') \<Longrightarrow>
   \<exists>C. generateFiles (new_HugoDocumenter M C (HugoAction_options apiModel folder)) apiModel st = Inr st'"
  by (auto simp: HugoAction_onExecute_def HugoAction_options_def Let_def
        split: prod.splits sum.splits)

text \<open>
  Claim C10. \<^verbatim>\<open>HugoAction.onExecute\<close> constructs the documenter without a documenter
  configuration (\<^verbatim>\<open>documenterConfig: undefined\<close>), and with no configuration
  \<^verbatim>\<open>_writeApiItemPage\<close> passes \<^verbatim>\<open>NewlineKind.CrLf\<close> to \<^verbatim>\<open>FileSystem.writeFile\<close>. So a
  successful run first empties the output folder, and every call after that is
  \<^verbatim>\<open>ensureFolder\<close> or a \<^verbatim>\<open>writeFile\<close> that leaves the page in the file with CR LF line
  endings, whatever the newline of the platform: every line break of the file is CR LF,
  there is one for each line break of the page, and the rest of the page is unchanged.
  The last file written is the page of the model, \<^verbatim>\<open>_index.md\<close> in the output folder.
  The same holds for the run that \<^verbatim>\<open>HugoAction.onExecute\<close> starts.
\<close>

theorem pages_written_with_CrLf:
  assumes "documenterConfig D = None" and "generateFiles D apiModel st = Inr st'"
  shows "isCrLfRun osEOL (outputFolder D) (fileSystemCalls st) (fileSystemCalls st')
       \<and> (kind (refData apiModel) = Model \<longrightarrow>
            (\<exists>calls contents.
               fileSystemCalls st' = calls
                 @ [EnsureFolder (path_dirname D (path_join D (outputFolder D) ''_index.md'')),
                    WriteFile (path_join D (outputFolder D) ''_index.md'') contents CrLf]))
       \<and> (HugoAction_onExecute M m folder P s = (Inr s', P') \<longrightarrow>
            isCrLfRun osEOL folder (fileSystemCalls s) (fileSystemCalls s')
            \<and> (kind (refData m) = Model \<longrightarrow>
                 (\<exists>calls contents.
                    fileSystemCalls s' = calls
                      @ [EnsureFolder (path_dirname M (path_join M folder ''_index.md'')),
                         WriteFile (path_join M folder ''_index.md'') contents CrLf])))"
proof (intro conjI impI)
  show "isCrLfRun osEOL (outputFolder D) (fileSystemCalls st) (fileSystemCalls st')"
    by (rule generateFiles_CrLf [OF assms])
  show "\<exists>calls contents.
               fileSystemCalls st' = calls
                 @ [EnsureFolder (path_dirname D (path_join D (outputFolder D) ''_index.md'')),
                    WriteFile (path_join D (outputFolder D) ''_index.md'') contents CrLf]"
    if "kind (refData apiModel) = Model"
    by (rule generateFiles_Model [OF assms(1) that assms(2)])
next
  assume "HugoAction_onExecute M m folder P s = (Inr s', P')"
  from onExecute_generateFiles [OF this] obtain C where
    run: "generateFiles (new_HugoDocumenter M C (HugoAction_options m folder)) m s = Inr s'" ..
  have config: "documenterConfig (new_HugoDocumenter M C (HugoAction_options m folder)) = None"
    by (simp add: HugoAction_options_def)
  from generateFiles_CrLf [OF config run]
  show "isCrLfRun osEOL folder (fileSystemCalls s) (fileSystemCalls s')"
    by (simp add: HugoAction_options_def)
  show "\<exists>calls contents.
          fileSystemCalls s' = calls
            @ [EnsureFolder (path_dirname M (path_join M folder ''_index.md'')),
               WriteFile (path_join M folder ''_index.md'') contents CrLf]"
    if "kind (refData m) = Model"
    using generateFiles_Model [OF config that run] by (simp add: HugoAction_options_def)
qed

text \<open>
  The run of \<^verbatim>\<open>HugoAction.onExecute\<close> on the example model, in a process that has not read the
  configuration yet: the calls it makes, and the page of the model as the file holds it
  on a platform whose newline is the line feed.
\<close>

theorem pages_written_with_CrLf_witness:
  "documenterConfig exDocumenter = None
   \<and> generateFiles exDocumenter ([], exTree) emptyRun = Inr exRunResult
   \<and> fst (HugoAction_onExecute exModules ([], exTree) ''out'' initialProcess emptyRun) = Inr exRunResult
   \<and> isCrLfRun [CHR 0x0A] ''out'' (fileSystemCalls emptyRun) (fileSystemCalls exRunResult)
   \<and> last (fileSystemCalls exRunResult)
       = WriteFile ''out/_index.md'' (''title: API Reference'' @ [CHR 0x0A]) CrLf
   \<and> writtenContents [CHR 0x0A] (last (fileSystemCalls exRunResult))
       = Some (''title: API Reference'' @ [CHR 0x0D, CHR 0x0A])"
proof -
  have D: "new_HugoDocumenter exModules (customConfiguration 0) (HugoAction_options ([], exTree) ''out'')
           = exDocumenter"
    by (simp add: new_HugoDocumenter_def HugoAction_options_def exDocumenter_def)
  have action: "HugoAction_onExecute exModules ([], exTree) ''out'' initialProcess emptyRun
        = (Inr exRunResult,
           initialProcess \<lparr> configurationsCreated := 1,
              CustomDocNodes_configuration := Some (customConfiguration 0) \<rparr>)"
    using model_run
    by (simp add: HugoAction_onExecute_def Let_def configuration_get_first initialProcess_def D
          HugoAction_options_def [of "([], exTree)" "''out''", THEN arg_cong [where f = options_apiModel]]
          exRunResult_def)
  from pages_written_with_CrLf [of exDocumenter "([], exTree)" emptyRun exRunResult
      "[CHR 0x0A]" exModules "([], exTree)" "''out''" initialProcess emptyRun exRunResult
      "initialProcess \<lparr> configurationsCreated := 1,
              CustomDocNodes_configuration := Some (customConfiguration 0) \<rparr>"]
    model_run action
  show ?thesis
    by (simp add: exRunResult_def emptyRun_def writtenContents_def getNewline_def)
qed


text \<open>
  Claim C1, as the code has it. The file name of an item is built from the names of its
  ancestors and its own qualified name; the kind of the item enters only through the
  \<^verbatim>\<open>var_\<close> prefix of a variable and the overload suffix of an item with a parameter list.
  Two items of the same display name under the same ancestors therefore never get the
  same file when both have a parameter list and different overload indices (counted from
  1), and when one is a variable and the other is neither a variable nor an item carrying
  an overload suffix; and the file name of the one can be built exactly when that of the
  other can. Nothing more is guaranteed: see the counterexample below.
\<close>

theorem same_named_siblings_have_distinct_files:
  assumes same: "displayName a = displayName b"
    and a: "uid a \<notin> set (map uid ancestors)" and b: "uid b \<notin> set (map uid ancestors)"
  shows "(ApiParameterListMixin_isBaseClassOf (kind a) \<and> ApiParameterListMixin_isBaseClassOf (kind b)
          \<and> 1 \<le> overloadIndex a \<and> 1 \<le> overloadIndex b \<and> overloadIndex a \<noteq> overloadIndex b
          \<longrightarrow> (\<forall>filename. getFilenameForApiItem N ancestors a = Inr filename
                  \<longrightarrow> getFilenameForApiItem N ancestors b \<noteq> Inr filename)
              \<and> isl (getFilenameForApiItem N ancestors a) = isl (getFilenameForApiItem N ancestors b))
       \<and> (kind a = Variable \<and> kind b \<notin> {Variable, Model, EnumMember, EntryPoint, Package}
          \<and> \<not> (ApiParameterListMixin_isBaseClassOf (kind b) \<and> 1 < overloadIndex b)
          \<longrightarrow> (\<forall>filename. getFilenameForApiItem N ancestors a = Inr filename
                  \<longrightarrow> getFilenameForApiItem N ancestors b \<noteq> Inr filename)
              \<and> isl (getFilenameForApiItem N ancestors a) = isl (getFilenameForApiItem N ancestors b))"
proof -
  let ?L = "hierarchyLoop N a [] ancestors"
  let ?s = "getSafeFilenameForName N (displayName b)"
  define overloadSuffix :: "nat \<Rightarrow> string"
    where "overloadSuffix i = (if 1 < i then ''_'' @ decimal (i - 1) else [])" for i
  have overloadSuffix_inj: "i = j" if "1 \<le> i" "1 \<le> j" "overloadSuffix i = overloadSuffix j" for i j
    using that by (auto simp: overloadSuffix_def split: if_splits dest!: decimal_inj)
  have L: "hierarchyLoop N b [] ancestors = ?L"
    using hierarchyLoop_other [OF a b] by simp
  have differ: "(\<forall>filename. getFilenameForApiItem N ancestors a = Inr filename
                  \<longrightarrow> getFilenameForApiItem N ancestors b \<noteq> Inr filename)
              \<and> isl (getFilenameForApiItem N ancestors a) = isl (getFilenameForApiItem N ancestors b)"
    if kinds: "kind a \<notin> {Model, EnumMember, EntryPoint, Package}"
      "kind b \<notin> {Model, EnumMember, EntryPoint, Package}"
      and q: "qualifiedNameOf N a \<noteq> qualifiedNameOf N b"
        "length (qualifiedNameOf N a) = length (qualifiedNameOf N b)
         \<or> (\<exists>p. p \<noteq> [] \<and> qualifiedNameOf N a = p @ qualifiedNameOf N b)"
  proof (cases ?L)
    case (Inl e)
    then show ?thesis
      by (simp add: filename_default [OF kinds(1)] filename_default [OF kinds(2)] L)
  next
    case (Inr base)
    from q(2) have "base @ ''/'' @ qualifiedNameOf N a @ ''/_index.md''
          \<noteq> base @ ''/'' @ qualifiedNameOf N b @ ''/_index.md''"
    proof
      assume "length (qualifiedNameOf N a) = length (qualifiedNameOf N b)"
      with q(1) show ?thesis by simp
    next
      assume "\<exists>p. p \<noteq> [] \<and> qualifiedNameOf N a = p @ qualifiedNameOf N b"
      then have "length (base @ ''/'' @ qualifiedNameOf N a @ ''/_index.md'')
          \<noteq> length (base @ ''/'' @ qualifiedNameOf N b @ ''/_index.md'')"
        by auto
      then show ?thesis by metis
    qed
    with Inr show ?thesis
      by (simp add: filename_default [OF kinds(1)] filename_default [OF kinds(2)] L)
  qed
  show ?thesis
  proof (intro conjI impI)
    assume h: "ApiParameterListMixin_isBaseClassOf (kind a) \<and> ApiParameterListMixin_isBaseClassOf (kind b)
          \<and> 1 \<le> overloadIndex a \<and> 1 \<le> overloadIndex b \<and> overloadIndex a \<noteq> overloadIndex b"
    then have kinds: "kind a \<notin> {Model, EnumMember, EntryPoint, Package}" "kind a \<noteq> Variable"
      "kind b \<notin> {Model, EnumMember, EntryPoint, Package}" "kind b \<noteq> Variable"
      by (auto simp: ApiParameterListMixin_isBaseClassOf_def)
    from h kinds same have qa: "qualifiedNameOf N a = ?s @ overloadSuffix (overloadIndex a)"
      and qb: "qualifiedNameOf N b = ?s @ overloadSuffix (overloadIndex b)"
      by (simp_all add: qualifiedNameOf_def overloadSuffix_def)
    from h have ne: "overloadSuffix (overloadIndex a) \<noteq> overloadSuffix (overloadIndex b)"
      using overloadSuffix_inj by blast
    have "base @ ''/'' @ qualifiedNameOf N a @ ''/_index.md''
          \<noteq> base @ ''/'' @ qualifiedNameOf N b @ ''/_index.md''" for base
      using ne by (simp add: qa qb)
    then have both: "(\<forall>filename. getFilenameForApiItem N ancestors a = Inr filename
                  \<longrightarrow> getFilenameForApiItem N ancestors b \<noteq> Inr filename)
              \<and> isl (getFilenameForApiItem N ancestors a) = isl (getFilenameForApiItem N ancestors b)"
      by (cases ?L) (simp_all add: filename_default [OF kinds(1)] filename_default [OF kinds(3)] L)
    from both show "\<forall>filename. getFilenameForApiItem N ancestors a = Inr filename
                  \<longrightarrow> getFilenameForApiItem N ancestors b \<noteq> Inr filename" ..
    from both show "isl (getFilenameForApiItem N ancestors a) = isl (getFilenameForApiItem N ancestors b)" ..
  next
    assume h: "kind a = Variable \<and> kind b \<notin> {Variable, Model, EnumMember, EntryPoint, Package}
          \<and> \<not> (ApiParameterListMixin_isBaseClassOf (kind b) \<and> 1 < overloadIndex b)"
    then have kinds: "kind a \<notin> {Model, EnumMember, EntryPoint, Package}"
      "kind b \<notin> {Model, EnumMember, EntryPoint, Package}"
      by auto
    from h same have qa: "qualifiedNameOf N a = ''var_'' @ ?s" and qb: "qualifiedNameOf N b = ?s"
      by (auto simp: qualifiedNameOf_def ApiParameterListMixin_isBaseClassOf_def)
    have "qualifiedNameOf N a \<noteq> qualifiedNameOf N b"
      "\<exists>p. p \<noteq> [] \<and> qualifiedNameOf N a = p @ qualifiedNameOf N b"
      unfolding qa qb by (simp, intro exI [of _ "''var_''"], simp)
    with differ [OF kinds] have both: "(\<forall>filename. getFilenameForApiItem N ancestors a = Inr filename
                  \<longrightarrow> getFilenameForApiItem N ancestors b \<noteq> Inr filename)
              \<and> isl (getFilenameForApiItem N ancestors a) = isl (getFilenameForApiItem N ancestors b)"
      by blast
    from both show "\<forall>filename. getFilenameForApiItem N ancestors a = Inr filename
                  \<longrightarrow> getFilenameForApiItem N ancestors b \<noteq> Inr filename" ..
    from both show "isl (getFilenameForApiItem N ancestors a) = isl (getFilenameForApiItem N ancestors b)" ..
  qed
qed

text \<open>
  The two constructors of \<^verbatim>\<open>Widget\<close>, and a variable and an enumeration that are both
  named \<^verbatim>\<open>limit\<close>.
\<close>

theorem same_named_siblings_have_distinct_files_witness:
  "getFilenameForApiItem exNaming [exModel, exPackage, exRootEntry, exWidget] (exCtor 4 ''constructor'' 1)
     = Inr ''widgets/_root/widget/constructor/_index.md''
   \<and> getFilenameForApiItem exNaming [exModel, exPackage, exRootEntry, exWidget] (exCtor 5 ''constructor'' 2)
     = Inr ''widgets/_root/widget/constructor_1/_index.md''
   \<and> getFilenameForApiItem exNaming [exModel, exPackage, exRootEntry] (blankItem 7 Variable ''limit'')
     = Inr ''widgets/_root/var_limit/_index.md''
   \<and> getFilenameForApiItem exNaming [exModel, exPackage, exRootEntry] (blankItem 10 Enum ''limit'')
     = Inr ''widgets/_root/limit/_index.md''"
  using same_named_siblings_have_distinct_files
          [of "exCtor 4 ''constructor'' 1" "exCtor 5 ''constructor'' 2"
              "[exModel, exPackage, exRootEntry, exWidget]" exNaming]
        same_named_siblings_have_distinct_files
          [of "blankItem 7 Variable ''limit''" "blankItem 10 Enum ''limit''"
              "[exModel, exPackage, exRootEntry]" exNaming]
  by (simp add: ex_item_defs ApiParameterListMixin_isBaseClassOf_def getFilenameForApiItem_def
        hierarchyStep_def qualifiedNameOf_def naming_examples decimal_1)

text \<open>
  A class and an interface of the same name in the same entry point, which TypeScript
  allows (declaration merging), get the same file: the run writes
  \<^verbatim>\<open>out/widgets/_root/widget/_index.md\<close> twice, and the second page replaces the first.
\<close>

theorem colliding_pages_counterexample:
  "generateFiles exDocumenter ([], exTree) emptyRun = Inr exRunResult
   \<and> writtenFiles exRunResult =
       [''out/widgets/_root/widget/constructor/_index.md'',
        ''out/widgets/_root/widget/constructor_1/_index.md'',
        ''out/widgets/_root/widget/_index.md'',
        ''out/widgets/_root/widget/_index.md'',
        ''out/widgets/_root/_index.md'',
        ''out/_index.md'']
   \<and> \<not> distinct (writtenFiles exRunResult)
   \<and> uid exWidget \<noteq> uid exWidgetInterface
   \<and> getFilenameForApiItem exNaming [exModel, exPackage, exRootEntry] exWidget
       = Inr ''widgets/_root/widget/_index.md''
   \<and> getFilenameForApiItem exNaming [exModel, exPackage, exRootEntry] exWidgetInterface
       = Inr ''widgets/_root/widget/_index.md''"
  using model_run
  by (simp add: exRunResult_def writtenFiles_def getFilenameForApiItem_def hierarchyStep_def
        qualifiedNameOf_def ApiParameterListMixin_isBaseClassOf_def ex_item_defs naming_examples)

section \<open>The body of a page\<close>

lemma list_all_True [simp]: "list_all (\<lambda>n. True) xs"
  by (induction xs) simp_all

lemma commentAll_True [simp]: "commentAll (\<lambda>n. True) d"
  by (simp add: commentAll_def split: option.splits)

lemma appendsI:
  "(\<And>ns. f ns = prefixed ns (f [])) \<Longrightarrow> (\<And>x. f [] = Inr x \<Longrightarrow> list_all P x) \<Longrightarrow> appends P f"
  unfolding appends_def by blast

lemma appends_prefixed: "appends P f \<Longrightarrow> f ns = prefixed ns (f [])"
  unfolding appends_def by blast

lemma appends_nodes: "appends P f \<Longrightarrow> f [] = Inr x \<Longrightarrow> list_all P x"
  unfolding appends_def by blast

lemma appends_Inr:
  assumes "appends P f" and "f ns = Inr ns'"
  shows "\<exists>x. f [] = Inr x \<and> ns' = ns @ x \<and> list_all P x"
proof -
  from assms have "prefixed ns (f []) = Inr ns'" by (simp add: appends_prefixed [symmetric])
  then obtain x where "f [] = Inr x" "ns' = ns @ x" by (cases "f []") auto
  with appends_nodes [OF assms(1)] show ?thesis by blast
qed

lemma prefixed_prefixed: "prefixed a (prefixed b m) = prefixed (a @ b) m"
  by (cases m) simp_all

lemma prefixed_Nil [simp]: "prefixed [] m = m"
  by (cases m) simp_all

lemma appends_return [intro!, simp]: "appends P Inr"
  by (rule appendsI) simp_all

lemma appends_id [intro!, simp]: "appends P (\<lambda>ns. Inr ns)"
  by (rule appendsI) simp_all

lemma appends_appendNode [intro!]: "P n \<Longrightarrow> appends P (\<lambda>ns. appendNode C k ns n)"
  by (rule appendsI; cases "isAllowedChild C k (nodeKind n)")
     (auto simp: appendNode_def split: if_splits)

lemma appends_bind [intro!]:
  assumes f: "appends P f" and g: "appends P g"
  shows "appends P (\<lambda>ns. bindE (f ns) g)"
proof (rule appendsI)
  fix ns
  show "bindE (f ns) g = prefixed ns (bindE (f []) g)"
  proof (cases "f []")
    case (Inl e)
    then show ?thesis by (simp add: appends_prefixed [OF f, of ns])
  next
    case (Inr a)
    then show ?thesis
      by (simp add: appends_prefixed [OF f, of ns] appends_prefixed [OF g, of "ns @ a"]
            appends_prefixed [OF g, of a] prefixed_prefixed)
  qed
next
  fix x
  assume "bindE (f []) g = Inr x"
  then obtain a where a: "f [] = Inr a" "g a = Inr x" by (cases "f []") auto
  from appends_Inr [OF g a(2)] appends_nodes [OF f a(1)] show "list_all P x"
    by auto
qed

lemma appends_bind_const [intro!]:
  assumes "\<And>x. m = Inr x \<Longrightarrow> appends P (\<lambda>ns. g x ns)"
  shows "appends P (\<lambda>ns. bindE m (\<lambda>x. g x ns))"
proof (cases m)
  case (Inl e)
  then show ?thesis by (auto intro!: appendsI)
next
  case (Inr x)
  with assms [OF Inr] show ?thesis by simp
qed

lemma appends_if [intro!]:
  "(c \<Longrightarrow> appends P f) \<Longrightarrow> (\<not> c \<Longrightarrow> appends P g) \<Longrightarrow> appends P (\<lambda>ns. if c then f ns else g ns)"
  by (cases c) simp_all

lemma appends_case_option [intro!]:
  "(opt = None \<Longrightarrow> appends P f) \<Longrightarrow> (\<And>x. opt = Some x \<Longrightarrow> appends P (g x)) \<Longrightarrow>
   appends P (\<lambda>ns. case opt of None \<Rightarrow> f ns | Some x \<Rightarrow> g x ns)"
  by (cases opt) simp_all

lemma appends_appendNodes [intro!]:
  "list_all P xs \<Longrightarrow> appends P (\<lambda>ns. appendNodes C k ns xs)"
proof (induction xs)
  case Nil
  then show ?case by simp
next
  case (Cons x xs)
  then have "appends P (\<lambda>ns. bindE (appendNode C k ns x) (\<lambda>ns. appendNodes C k ns xs))"
    by (intro appends_bind appends_appendNode) simp_all
  then show ?case by simp
qed

lemma appends_appendSection [intro!]:
  "list_all P xs \<Longrightarrow> appends P (\<lambda>ns. appendSection C ns xs)"
  unfolding appendSection_def by (rule appends_appendNodes)

lemma appends_appendHeadingAndTable [intro!]:
  "P (DocHeading t) \<Longrightarrow> P (DocTable h rows) \<Longrightarrow>
   appends P (\<lambda>ns. appendHeadingAndTable C ns t h rows)"
  unfolding appendHeadingAndTable_def by (intro appends_bind appends_appendNode) simp_all

lemma new_DocParagraph_Inr: "new_DocParagraph C ns = Inr p \<Longrightarrow> tableHasRows p"
  by (auto simp: new_DocParagraph_def elim!: bindE.elims)

lemma new_DocNoteBox_Inr: "new_DocNoteBox C ns = Inr p \<Longrightarrow> tableHasRows p"
  by (auto simp: new_DocNoteBox_def elim!: bindE.elims)

lemma createParagraphForTypeExcerpt_Inr: "createParagraphForTypeExcerpt D e = Inr p \<Longrightarrow> tableHasRows p"
  by (auto simp: createParagraphForTypeExcerpt_def elim!: bindE.elims)

lemma appends_exampleLoop [intro!]:
  "P (DocHeading ''Example'') \<Longrightarrow> (\<And>i. P (DocHeading (''Example '' @ decimal i))) \<Longrightarrow>
   list_all P (concat (map snd blocks)) \<Longrightarrow>
   appends P (\<lambda>ns. exampleLoop C n i ns blocks)"
proof (induction blocks arbitrary: i)
  case Nil
  then show ?case by simp
next
  case (Cons b blocks)
  then have "appends P (\<lambda>ns.
      bindE (appendNode C Section ns (DocHeading (if n > 1 then ''Example '' @ decimal i else ''Example'')))
        (\<lambda>ns. bindE (appendSection C ns (snd b)) (\<lambda>ns. exampleLoop C n (i + 1) ns blocks)))"
    by (intro appends_bind appends_appendNode appends_appendSection) simp_all
  then show ?case by (simp add: Let_def)
qed

lemma appends_throwsLoop [intro!]:
  "list_all P (concat (map snd blocks)) \<Longrightarrow> appends P (\<lambda>ns. throwsLoop C ns blocks)"
proof (induction blocks)
  case Nil
  then show ?case by simp
next
  case (Cons b blocks)
  then have "appends P (\<lambda>ns. bindE (appendSection C ns (snd b)) (\<lambda>ns. throwsLoop C ns blocks))"
    by (intro appends_bind appends_appendSection) simp_all
  then show ?case by simp
qed

lemmas appends_intros = appends_bind appends_bind_const appends_if appends_case_option
  appends_appendNode appends_appendNodes appends_appendSection appends_appendHeadingAndTable
  appends_exampleLoop appends_throwsLoop appends_id

lemma list_all_concat_filter:
  "list_all P (concat (map snd xs)) \<Longrightarrow> list_all P (concat (map snd (filter Q xs)))"
  by (induction xs) auto

lemma comment_parts:
  assumes "commentAll P d" and "tsdocComment d = Some c"
  shows "list_all P (summarySection c)"
    and "remarksBlock c = Some r \<Longrightarrow> list_all P r"
    and "deprecatedBlock c = Some r \<Longrightarrow> list_all P r"
    and "returnsBlock c = Some t \<Longrightarrow> list_all P t"
    and "list_all P (concat (map snd (filter Q (customBlocks c))))"
  using assms
  by (auto simp: commentAll_def commentNodes_def intro: list_all_concat_filter)

lemma appends_writeRemarksSection:
  assumes "\<And>n. tableHasRows n \<Longrightarrow> P n" and "commentAll P d"
  shows "appends P (\<lambda>ns. writeRemarksSection D ns d)"
  unfolding writeRemarksSection_def Let_def
  by (intro appends_intros) (auto intro!: assms(1) dest: comment_parts [OF assms(2)])

lemma appends_writeThrowsSection:
  assumes "\<And>n. tableHasRows n \<Longrightarrow> P n" and "commentAll P d"
  shows "appends P (\<lambda>ns. writeThrowsSection D ns d)"
  unfolding writeThrowsSection_def Let_def
  by (intro appends_intros) (auto intro!: assms(1) dest: comment_parts [OF assms(2)])

lemma appends_writeParameterTables:
  assumes "\<And>n. tableHasRows n \<Longrightarrow> P n" and "commentAll P d"
  shows "appends P (\<lambda>ns. writeParameterTables D ns d)"
  unfolding writeParameterTables_def Let_def
  by (intro appends_intros)
     (auto intro!: assms(1) dest: comment_parts [OF assms(2)] createParagraphForTypeExcerpt_Inr)

lemma appends_writeEnumTables:
  assumes "\<And>n. tableHasRows n \<Longrightarrow> P n"
  shows "appends P (\<lambda>ns. writeEnumTables D ns r)"
  unfolding writeEnumTables_def
  by (intro appends_intros) (auto intro!: assms(1))

lemma appends_noteBoxWithText:
  assumes "\<And>n. tableHasRows n \<Longrightarrow> P n"
  shows "appends P (\<lambda>ns. noteBoxWithText C ns w)"
  unfolding noteBoxWithText_def
  by (intro appends_intros) (auto intro!: assms(1) dest: new_DocNoteBox_Inr)

lemma appends_writeHeritageTypes:
  assumes "\<And>n. tableHasRows n \<Longrightarrow> P n"
  shows "appends P (\<lambda>ns. writeHeritageTypes D ns d)"
  unfolding writeHeritageTypes_def Let_def
  by (intro appends_intros) (auto intro!: assms(1))

lemma appends_appendContainerTables:
  assumes "\<And>n. tableHasRows n \<Longrightarrow> P n"
  shows "appends P (\<lambda>ns. appendContainerTables C ns T)"
  unfolding appendContainerTables_def
  by (intro appends_intros) (auto intro!: assms(1))

lemma appends_appendClassTables:
  assumes "\<And>n. tableHasRows n \<Longrightarrow> P n"
  shows "appends P (\<lambda>ns. appendClassTables C ns T)"
  unfolding appendClassTables_def
  by (intro appends_intros) (auto intro!: assms(1))

lemma appends_appendInterfaceTables:
  assumes "\<And>n. tableHasRows n \<Longrightarrow> P n"
  shows "appends P (\<lambda>ns. appendInterfaceTables C ns T)"
  unfolding appendInterfaceTables_def
  by (intro appends_intros) (auto intro!: assms(1))

lemma appendsSI:
  "(\<And>ns. f ns = prefixedS ns (f [])) \<Longrightarrow> (\<And>x s. f [] = Inr (x, s) \<Longrightarrow> list_all P x) \<Longrightarrow>
   appendsS P f"
  unfolding appendsS_def by blast

lemma appendsS_prefixed: "appendsS P f \<Longrightarrow> f ns = prefixedS ns (f [])"
  unfolding appendsS_def by blast

lemma appendsS_nodes: "appendsS P f \<Longrightarrow> f [] = Inr (x, s) \<Longrightarrow> list_all P x"
  unfolding appendsS_def by blast

lemma appendsS_Inr:
  assumes "appendsS P f" and "f ns = Inr (ns', s)"
  shows "\<exists>x. f [] = Inr (x, s) \<and> ns' = ns @ x \<and> list_all P x"
proof -
  from assms have "prefixedS ns (f []) = Inr (ns', s)" by (simp add: appendsS_prefixed [symmetric])
  then obtain x where "f [] = Inr (x, s)" "ns' = ns @ x"
    by (cases "f []") (auto split: prod.splits)
  with appendsS_nodes [OF assms(1)] show ?thesis by blast
qed

lemma prefixedS_Nil [simp]: "prefixedS [] m = m"
  by (cases m) auto

lemma prefixedS_prefixedS: "prefixedS a (prefixedS b m) = prefixedS (a @ b) m"
  by (cases m) auto

lemma appendsS_return [intro!, simp]: "appendsS P (\<lambda>ns. Inr (ns, s))"
  by (rule appendsSI) simp_all

lemma appendsS_Inl [intro!, simp]: "appendsS P (\<lambda>ns. Inl e)"
  by (rule appendsSI) simp_all

lemma appendsS_lift [intro!]:
  assumes f: "appends P f"
  shows "appendsS P (\<lambda>ns. bindE (f ns) (\<lambda>out. Inr (out, s)))"
proof (rule appendsSI)
  fix ns
  show "bindE (f ns) (\<lambda>out. Inr (out, s)) = prefixedS ns (bindE (f []) (\<lambda>out. Inr (out, s)))"
    by (cases "f []") (simp_all add: appends_prefixed [OF f, of ns])
next
  fix x s'
  assume "bindE (f []) (\<lambda>out. Inr (out, s)) = Inr (x, s')"
  then have "f [] = Inr x" by (cases "f []") auto
  with appends_nodes [OF f] show "list_all P x" by blast
qed

lemma appendsS_bind [intro!]:
  assumes f: "appends P f" and g: "appendsS P g"
  shows "appendsS P (\<lambda>ns. bindE (f ns) g)"
proof (rule appendsSI)
  fix ns
  show "bindE (f ns) g = prefixedS ns (bindE (f []) g)"
  proof (cases "f []")
    case (Inl e)
    then show ?thesis by (simp add: appends_prefixed [OF f, of ns])
  next
    case (Inr a)
    then show ?thesis
      by (simp add: appends_prefixed [OF f, of ns] appendsS_prefixed [OF g, of "ns @ a"]
            appendsS_prefixed [OF g, of a] prefixedS_prefixedS)
  qed
next
  fix x s
  assume "bindE (f []) g = Inr (x, s)"
  then obtain a where a: "f [] = Inr a" "g a = Inr (x, s)" by (cases "f []") auto
  from appendsS_Inr [OF g a(2)] appends_nodes [OF f a(1)] show "list_all P x"
    by auto
qed

lemma appendsS_bindS [intro!]:
  assumes f: "appendsS P f" and g: "\<And>s. appendsS P (\<lambda>ns. g ns s)"
  shows "appendsS P (\<lambda>ns. bindE (f ns) (\<lambda>(out, s). g out s))"
proof (rule appendsSI)
  fix ns
  show "bindE (f ns) (\<lambda>(out, s). g out s) = prefixedS ns (bindE (f []) (\<lambda>(out, s). g out s))"
  proof (cases "f []")
    case (Inl e)
    then show ?thesis by (simp add: appendsS_prefixed [OF f, of ns])
  next
    case (Inr a)
    obtain x s where a: "a = (x, s)" by (cases a)
    show ?thesis
      by (simp add: Inr a appendsS_prefixed [OF f, of ns] appendsS_prefixed [OF g, where ns = "ns @ x"]
            appendsS_prefixed [OF g, where ns = x] prefixedS_prefixedS)
  qed
next
  fix x s
  assume "bindE (f []) (\<lambda>(out, s). g out s) = Inr (x, s)"
  then obtain a s0 where a: "f [] = Inr (a, s0)" "g a s0 = Inr (x, s)"
    by (cases "f []") auto
  from appendsS_Inr [OF g a(2)] appendsS_nodes [OF f a(1)] show "list_all P x"
    by auto
qed

lemma appendsS_bind_const [intro!]:
  assumes "\<And>x. m = Inr x \<Longrightarrow> appendsS P (\<lambda>ns. g x ns)"
  shows "appendsS P (\<lambda>ns. bindE m (\<lambda>x. g x ns))"
proof (cases m)
  case (Inl e)
  then show ?thesis by simp
next
  case (Inr x)
  with assms [OF Inr] show ?thesis by simp
qed

lemma appendsS_case_prod [intro!]:
  "(\<And>a b. x = (a, b) \<Longrightarrow> appendsS P (\<lambda>ns. f a b ns)) \<Longrightarrow>
   appendsS P (\<lambda>ns. case x of (a, b) \<Rightarrow> f a b ns)"
  by (cases x) simp

lemma appendsS_if [intro!]:
  "(c \<Longrightarrow> appendsS P f) \<Longrightarrow> (\<not> c \<Longrightarrow> appendsS P g) \<Longrightarrow>
   appendsS P (\<lambda>ns. if c then f ns else g ns)"
  by (cases c) simp_all

lemmas appendsS_intros = appendsS_bindS appendsS_bind_const appendsS_case_prod appendsS_if
  appendsS_lift appendsS_return

lemma bindE_assoc: "bindE (bindE m f) g = bindE m (\<lambda>x. bindE (f x) g)"
  by (cases m) simp_all

lemma bindE_if: "bindE (if c then a else b) f = (if c then bindE a f else bindE b f)"
  by simp

text \<open>
  The members of a class or interface: what is appended to the body is the advisory
  paragraph or nothing; the members and the state do not depend on the body.
\<close>

lemma getMembers_appends:
  assumes w: "\<And>n. tableHasRows n \<Longrightarrow> P n"
  obtains W ms s where "appends P W"
    and "\<And>ns. getMembersAndWriteIncompleteWarning D r ns st
                 = bindE (W ns) (\<lambda>out. Inr (ms, out, s))"
proof (cases "case documenterConfig D of None \<Rightarrow> False | Some config \<Rightarrow> showInheritedMembers config")
  case False
  then have "getMembersAndWriteIncompleteWarning D r ns st
               = bindE (Inr ns) (\<lambda>out. Inr (memberRefs r, out, st))" for ns
    by (simp add: getMembersAndWriteIncompleteWarning_def)
  moreover have "appends P Inr" by simp
  ultimately show ?thesis by (rule that [rotated])
next
  case True
  let ?C = "tsdocConfiguration D"
  let ?W = "\<lambda>ns. if maybeIncompleteResult (findMembersWithInheritance D r)
                   then
                     bindE (new_DocEmphasisSpan ?C False True
                              [DocPlainText (''(Some inherited members may not be shown because they are''
                                 @ '' not represented in the documentation.)'')]) (\<lambda>span.
                     bindE (new_DocParagraph ?C [span]) (\<lambda>p.
                       appendNode ?C Section ns p))
                   else Inr ns"
  have "appends P ?W"
    by (intro appends_intros) (auto intro!: w dest: new_DocParagraph_Inr)
  moreover from True have "getMembersAndWriteIncompleteWarning D r ns st
      = bindE (?W ns) (\<lambda>out. Inr (items (findMembersWithInheritance D r), out,
           st\<lparr> consoleLog := consoleLog st
                 @ map (\<lambda>message. ''Diagnostic message for findMembersWithInheritance: '' @ message)
                     (messages (findMembersWithInheritance D r)) \<rparr>))" for ns
    unfolding getMembersAndWriteIncompleteWarning_def Let_def
    by (simp only: simp_thms if_False)
  ultimately show ?thesis by (rule that)
qed

lemma appendsS_members:
  assumes w: "\<And>n. tableHasRows n \<Longrightarrow> P n"
    and k: "\<And>ms s. appendsS P (\<lambda>ns. k ms ns s)"
  shows "appendsS P (\<lambda>ns. bindE (getMembersAndWriteIncompleteWarning D r ns st)
                             (\<lambda>(ms, out, s). k ms out s))"
proof (rule getMembers_appends [OF w, where D = D and r = r and st = st])
  fix W ms s
  assume W: "appends P W"
    and eq: "\<And>ns. getMembersAndWriteIncompleteWarning D r ns st
                    = bindE (W ns) (\<lambda>out. Inr (ms, out, s))"
  have "appendsS P (\<lambda>ns. bindE (W ns) (\<lambda>out. k ms out s))"
    by (rule appendsS_bind [OF W k])
  then show ?thesis by (simp add: eq bindE_assoc)
qed

lemma appendsS_writeClassTables:
  assumes w: "\<And>n. tableHasRows n \<Longrightarrow> P n"
  shows "appendsS P (\<lambda>ns. writeClassTables D wr ns r st)"
  unfolding writeClassTables_def
  by (intro appendsS_members w appendsS_intros appends_appendClassTables)

lemma appendsS_writeInterfaceTables:
  assumes w: "\<And>n. tableHasRows n \<Longrightarrow> P n"
  shows "appendsS P (\<lambda>ns. writeInterfaceTables D wr ns r st)"
  unfolding writeInterfaceTables_def
  by (intro appendsS_members w appendsS_intros appends_appendInterfaceTables)

lemma appendsS_writeModelTable:
  assumes w: "\<And>n. tableHasRows n \<Longrightarrow> P n"
  shows "appendsS P (\<lambda>ns. writeModelTable D wr ns r st)"
  unfolding writeModelTable_def
  by (intro appendsS_intros appends_intros) (auto intro!: w)

lemma appendsS_writePackageOrNamespaceTables:
  assumes w: "\<And>n. tableHasRows n \<Longrightarrow> P n"
  shows "appendsS P (\<lambda>ns. writePackageOrNamespaceTables D wr ns r st)"
  unfolding writePackageOrNamespaceTables_def Let_def
  by (intro appendsS_intros appends_intros appends_appendContainerTables w) (auto intro!: w)

lemma bindE_InrE:
  assumes "bindE m f = Inr y"
  obtains x where "m = Inr x" and "f x = Inr y"
  using assms by (cases m) auto

lemma bindE_appends_nodes:
  assumes "bindE m g = Inr x" and "\<And>a. m = Inr a \<Longrightarrow> list_all P a" and "appends P g"
  shows "list_all P x"
proof -
  from assms(1) obtain a where a: "m = Inr a" "g a = Inr x" by (rule bindE_InrE)
  from appends_Inr [OF assms(3) a(2)] assms(2) [OF a(1)] show ?thesis by auto
qed

lemma writeCommonStart_nodes:
  assumes w: "\<And>n. tableHasRows n \<Longrightarrow> P n" and c: "commentAll P d"
    and start: "writeCommonStart D d = Inr start"
  shows "list_all P start"
  using start unfolding writeCommonStart_def Let_def
proof (rule bindE_appends_nodes)
  fix a
  assume "(if releaseTag d = Some Alpha then writeAlphaWarning D []
           else if releaseTag d = Some Beta then writeBetaWarning D [] else Inr []) = Inr a"
  then show "list_all P a"
    using appends_nodes [OF appends_noteBoxWithText [OF w]]
    by (auto simp: writeAlphaWarning_def writeBetaWarning_def split: if_splits)
next
  show "appends P (\<lambda>output.
      bindE (case if isApiDocumentedItem (kind d) then tsdocComment d else None of
               None \<Rightarrow> Inr output
             | Some c \<Rightarrow>
                 bindE (case deprecatedBlock c of
                          None \<Rightarrow> Inr output
                        | Some content \<Rightarrow>
                            bindE (new_DocParagraph (tsdocConfiguration D)
                                     [DocPlainText ''Warning: This API is now obsolete. '']) (\<lambda>p.
                            bindE (new_DocNoteBox (tsdocConfiguration D) (p # content)) (\<lambda>box.
                              appendNode (tsdocConfiguration D) Section output box))) (\<lambda>output.
                   appendSection (tsdocConfiguration D) output (summarySection c))) (\<lambda>output.
      bindE (if isApiDeclaredItem (kind d)
             then
               bindE (if length (excerptText (excerptTokens d)) > 0
                      then
                        bindE (boldLabel (tsdocConfiguration D) ''Signature:'') (\<lambda>label.
                        bindE (appendNode (tsdocConfiguration D) Section output (DocParagraph label)) (\<lambda>output.
                          appendNode (tsdocConfiguration D) Section output
                            (DocFencedCode (excerptWithModifiers d) ''typescript'')))
                      else Inr output) (\<lambda>output.
                 writeHeritageTypes D output d)
             else Inr output) (\<lambda>output.
      if length (case if isApiDocumentedItem (kind d) then tsdocComment d else None of
                   None \<Rightarrow> []
                 | Some c \<Rightarrow> filter (\<lambda>block. fst block = ''@DECORATOR'') (customBlocks c)) > 0
      then
        bindE (boldLabel (tsdocConfiguration D) ''Decorators:'') (\<lambda>label.
        bindE (appendNode (tsdocConfiguration D) Section output (DocParagraph label)) (\<lambda>output.
          appendNodes (tsdocConfiguration D) Section output
            (concat (map snd (case if isApiDocumentedItem (kind d) then tsdocComment d else None of
                   None \<Rightarrow> []
                 | Some c \<Rightarrow> filter (\<lambda>block. fst block = ''@DECORATOR'') (customBlocks c))))))
      else Inr output)))"
    by (intro appends_intros appends_writeHeritageTypes w)
       (auto intro!: w dest: comment_parts [OF c] new_DocNoteBox_Inr split: if_splits option.splits)
qed

lemma appendsS_writeKindTables:
  assumes w: "\<And>n. tableHasRows n \<Longrightarrow> P n" and c: "commentAll P (refData r)"
    and k: "kind (refData r) \<noteq> EntryPoint"
  shows "appendsS P (\<lambda>ns. writeKindTables D wr ns r st)"
proof -
  have functionLike: "appendsS P (\<lambda>ns.
      bindE (writeParameterTables D ns (refData r)) (\<lambda>output.
      bindE (writeThrowsSection D output (refData r)) (\<lambda>output. Inr (output, st))))"
    by (intro appendsS_bind appendsS_lift appends_writeParameterTables appends_writeThrowsSection w c)
  have enum: "appendsS P (\<lambda>ns. bindE (writeEnumTables D ns r) (\<lambda>output. Inr (output, st)))"
    by (intro appendsS_lift appends_writeEnumTables w)
  show ?thesis
    using k unfolding writeKindTables_def Let_def
    by (cases "kind (refData r)")
       (simp_all add: functionLike enum appendsS_writeClassTables [OF w]
          appendsS_writeInterfaceTables [OF w] appendsS_writeModelTable [OF w]
          appendsS_writePackageOrNamespaceTables [OF w])
qed

lemma appendNodeInParagraph_new:
  assumes "ns = [] \<or> (\<exists>b. last ns = DocNoteBox b)"
  shows "appendNodeInParagraph C ns n
         = bindE (appendNode C Section ns (DocParagraph [])) (\<lambda>nodes.
           bindE (appendNode C Paragraph [] n) (\<lambda>children.
             Inr (butlast nodes @ [DocParagraph children])))"
  using assms by (auto simp: appendNodeInParagraph_def)

lemma appendNodeInParagraph_prefixed:
  assumes "ns = [] \<or> (\<exists>b. last ns = DocNoteBox b)"
  shows "appendNodeInParagraph C ns n = prefixed ns (appendNodeInParagraph C [] n)"
    and "appendNodeInParagraph C [] n = Inr x \<Longrightarrow> \<exists>children. x = [DocParagraph children]"
proof -
  show "appendNodeInParagraph C ns n = prefixed ns (appendNodeInParagraph C [] n)"
    unfolding appendNodeInParagraph_new [OF assms] appendNodeInParagraph_new [of "[]", simplified]
    by (cases "isAllowedChild C Section Paragraph"; cases "appendNode C Paragraph [] n")
       (auto simp: appendNode_def)
  show "appendNodeInParagraph C [] n = Inr x \<Longrightarrow> \<exists>children. x = [DocParagraph children]"
    unfolding appendNodeInParagraph_new [of "[]", simplified]
    by (cases "isAllowedChild C Section Paragraph"; cases "appendNode C Paragraph [] n")
       (auto simp: appendNode_def split: if_splits)
qed

lemma noteBoxWithText_Nil:
  "noteBoxWithText C [] t = Inr x \<Longrightarrow> \<exists>b. x = [DocNoteBox b]"
  unfolding noteBoxWithText_def new_DocNoteBox_def
  by (auto elim!: bindE_InrE simp: appendNode_def split: if_splits)

lemma writeCommonStart_EntryPoint:
  assumes "kind d = EntryPoint" and "writeCommonStart D d = Inr start"
  shows "start = [] \<or> (\<exists>b. last start = DocNoteBox b)"
proof -
  from assms have "(if releaseTag d = Some Alpha then writeAlphaWarning D []
           else if releaseTag d = Some Beta then writeBetaWarning D [] else Inr []) = Inr start"
    by (auto simp: writeCommonStart_def isApiDocumentedItem_def isApiDeclaredItem_def
          elim!: bindE_InrE)
  then show ?thesis
    by (auto simp: writeAlphaWarning_def writeBetaWarning_def split: if_splits
          dest!: noteBoxWithText_Nil)
qed

lemma writeKindTables_EntryPoint:
  assumes k: "kind (refData r) = EntryPoint"
    and start: "ns = [] \<or> (\<exists>b. last ns = DocNoteBox b)"
  shows "writeKindTables D wr ns r st = prefixedS ns (writeKindTables D wr [] r st)"
    and "writeKindTables D wr [] r st = Inr (x, s) \<Longrightarrow> \<exists>children. x = [DocParagraph children]"
proof -
  let ?n = "DocPlainText (''TODO: Please reference the root entrypoint which contains''
                      @ '' links to elements from all entrypoints'')"
  have eq: "writeKindTables D wr ns r st
            = bindE (appendNodeInParagraph (tsdocConfiguration D) ns ?n) (\<lambda>output. Inr (output, st))"
    for ns
    using k by (simp add: writeKindTables_def)
  show "writeKindTables D wr ns r st = prefixedS ns (writeKindTables D wr [] r st)"
    unfolding eq appendNodeInParagraph_prefixed(1) [OF start, of "tsdocConfiguration D" ?n]
    by (cases "appendNodeInParagraph (tsdocConfiguration D) [] ?n") simp_all
  show "writeKindTables D wr [] r st = Inr (x, s) \<Longrightarrow> \<exists>children. x = [DocParagraph children]"
    unfolding eq
    by (erule bindE_InrE) (auto dest: appendNodeInParagraph_prefixed(2) [OF disjI1 [OF refl]])
qed

text \<open>
  The body of a page: the common start, then the remarks and the content of the kind, in
  the order the kind asks for. Every node of the body satisfies a property that the
  nodes of the comment satisfy and the tables with rows satisfy.
\<close>

lemma buildApiItemPage_body:
  assumes w: "\<And>n. tableHasRows n \<Longrightarrow> P n" and c: "commentAll P (refData r)"
    and page: "buildApiItemPage D wr r st = Inr (Page fm body, st')"
  obtains start remarks content st1 where
    "pageFrontMatter D r st = Inr (Some fm, st1)"
    and "writeCommonStart D (refData r) = Inr start"
    and "writeRemarksSection D [] (refData r) = Inr remarks"
    and "writeKindTables D wr [] r st1 = Inr (content, st')"
    and "body = (if remarksFirst (kind (refData r)) then start @ remarks @ content
                 else start @ content @ remarks)"
    and "list_all P start" and "list_all P remarks" and "list_all P content"
proof -
  let ?d = "refData r"
  from page obtain st1 start o1 o2 where
    fm: "pageFrontMatter D r st = Inr (Some fm, st1)"
    and start: "writeCommonStart D ?d = Inr start"
    and o1: "(if remarksFirst (kind ?d) then writeRemarksSection D start ?d else Inr start) = Inr o1"
    and o2: "writeKindTables D wr o1 r st1 = Inr (o2, st')"
    and body: "(if \<not> remarksFirst (kind ?d) then writeRemarksSection D o2 ?d else Inr o2) = Inr body"
    unfolding buildApiItemPage_def
    by (auto elim!: bindE_InrE split: option.splits prod.splits)
  note R = appends_writeRemarksSection [OF w c, of D]
  have P_start: "list_all P start"
    by (rule writeCommonStart_nodes [OF w c start])
  have tables: "\<exists>content. writeKindTables D wr [] r st1 = Inr (content, st') \<and> o2 = o1 @ content
                  \<and> list_all P content"
    if "o1 = [] \<or> (\<exists>b. last o1 = DocNoteBox b) \<or> kind ?d \<noteq> EntryPoint"
  proof (cases "kind ?d = EntryPoint")
    case False
    from appendsS_Inr [OF appendsS_writeKindTables [OF w c False] o2] show ?thesis .
  next
    case True
    with that have s: "o1 = [] \<or> (\<exists>b. last o1 = DocNoteBox b)" by blast
    from o2 have "prefixedS o1 (writeKindTables D wr [] r st1) = Inr (o2, st')"
      by (simp add: writeKindTables_EntryPoint(1) [OF True s, symmetric])
    then obtain content where content: "writeKindTables D wr [] r st1 = Inr (content, st')"
      "o2 = o1 @ content"
      by (cases "writeKindTables D wr [] r st1") (auto split: prod.splits)
    from writeKindTables_EntryPoint(2) [OF True disjI1 [OF refl] content(1)] w
    have "list_all P content" by auto
    with content show ?thesis by blast
  qed
  show ?thesis
  proof (cases "remarksFirst (kind ?d)")
    case True
    with o1 obtain remarks where remarks: "writeRemarksSection D [] ?d = Inr remarks"
      "o1 = start @ remarks" "list_all P remarks"
      using appends_Inr [OF R] by auto
    from True have "kind ?d \<noteq> EntryPoint" by (auto simp: remarksFirst_def)
    with tables obtain content where content: "writeKindTables D wr [] r st1 = Inr (content, st')"
      "o2 = o1 @ content" "list_all P content"
      by blast
    from True body have "body = o2" by simp
    with True remarks content have "body = (if remarksFirst (kind ?d) then start @ remarks @ content
                 else start @ content @ remarks)"
      by simp
    from that [OF fm start remarks(1) content(1) this P_start remarks(3) content(3)]
    show ?thesis .
  next
    case False
    with o1 have o1_start: "o1 = start" by simp
    have "o1 = [] \<or> (\<exists>b. last o1 = DocNoteBox b) \<or> kind ?d \<noteq> EntryPoint"
      using writeCommonStart_EntryPoint [OF _ start] o1_start by blast
    with tables obtain content where content: "writeKindTables D wr [] r st1 = Inr (content, st')"
      "o2 = o1 @ content" "list_all P content"
      by blast
    from False body obtain remarks where remarks: "writeRemarksSection D [] ?d = Inr remarks"
      "body = o2 @ remarks" "list_all P remarks"
      using appends_Inr [OF R] by auto
    from False remarks content o1_start
    have "body = (if remarksFirst (kind ?d) then start @ remarks @ content
                 else start @ content @ remarks)"
      by simp
    from that [OF fm start remarks(1) content(1) this P_start remarks(3) content(3)]
    show ?thesis .
  qed
qed

lemmas ex_page_defs = exRemarks_def exGadget_def exGadgetTree_def exMeasure_def exDerived_def
  exDerivedTree_def

lemma exInheritingDocumenter_simps [simp]:
  "tsdocConfiguration exInheritingDocumenter = customConfiguration 0"
  "documenterConfig exInheritingDocumenter
     = Some \<lparr> newlineKind = CrLf, showInheritedMembers = True, markdownDocumenterFeature = None \<rparr>"
  "naming exInheritingDocumenter = exNaming"
  "findMembersWithInheritance exInheritingDocumenter
     = (\<lambda>r. \<lparr> items = memberRefs r, messages = [''Unable to analyze base class Base''],
              maybeIncompleteResult = True \<rparr>)"
  by (simp_all add: exInheritingDocumenter_def)

lemma derived_page:
  "buildApiItemPage exInheritingDocumenter (\<lambda>m s. Inr s)
     ([exModel, exPackage, exRootEntry], exDerivedTree) emptyRun
   = Inr (Page (titled ''Derived class'')
       [DocParagraph [DocEmphasisSpan True False [DocPlainText ''Signature:'']],
        DocFencedCode ''export declare class Derived extends Base'' ''typescript'',
        incompleteWarning,
        DocHeading ''Constructors'',
        DocTable [''Constructor'', ''Modifiers'', ''Description'']
         [DocTableRow
           [DocTableCell
             [DocParagraph
               [DocLinkTag ''(constructor)''
                 ''/docs/widgets/_root/derived/_constructor_/_index.md'']],
            DocTableCell [], DocTableCell []]]],
      emptyRun \<lparr> consoleLog :=
        [''Diagnostic message for findMembersWithInheritance: Unable to analyze base class Base''] \<rparr>)"
  by (simp add: eval_simps ex_page_defs incompleteWarning_def emptyRun_def del: One_nat_def)


lemma writeRemarksSection_prefixed:
  "writeRemarksSection D ns d = prefixed ns (writeRemarksSection D [] d)"
  by (rule appends_prefixed [OF appends_writeRemarksSection [where P = "\<lambda>n. True"]]) simp_all

lemma writeRemarksSection_Model: "kind d = Model \<Longrightarrow> writeRemarksSection D ns d = Inr ns"
  by (simp add: writeRemarksSection_def isApiDocumentedItem_def)

lemma writeKindTables_prefixedS:
  assumes "kind (refData r) \<noteq> EntryPoint"
  shows "writeKindTables D wr ns r st = prefixedS ns (writeKindTables D wr [] r st)"
  by (rule appendsS_prefixed [OF appendsS_writeKindTables [where P = "\<lambda>n. True", OF _ _ assms]])
     simp_all

lemma writeKindTables_start:
  assumes "writeCommonStart D (refData r) = Inr start"
  shows "writeKindTables D wr start r st = prefixedS start (writeKindTables D wr [] r st)"
proof (cases "kind (refData r) = EntryPoint")
  case True
  from writeKindTables_EntryPoint(1) [OF True writeCommonStart_EntryPoint [OF True assms]]
  show ?thesis .
next
  case False
  then show ?thesis by (rule writeKindTables_prefixedS)
qed

text \<open>
  Claim C7. The body of a page is the common start (warnings, summary, signature, heritage
  types, decorators), the Remarks and Example sections, and the content of the item's
  kind. For a class, an interface, a namespace and a package the remarks and examples
  come before the content of the kind. For the model the page has no Remarks or Example
  section at all, before or after the table of packages: the code calls
  \<^verbatim>\<open>_writeRemarksSection\<close> after the table, and the model has no documentation comment.
  For every other kind the remarks and examples come after the content of the kind. A
  page is built exactly when the front matter, the start, the remarks and the content
  can be built, in the order given.
\<close>

theorem remarks_before_member_tables:
  "buildApiItemPage D wr r st =
     bindE (pageFrontMatter D r st) (\<lambda>(frontMatter, st1).
       case frontMatter of
         None \<Rightarrow> Inr (Skipped, st1)
       | Some frontMatter \<Rightarrow>
           bindE (writeCommonStart D (refData r)) (\<lambda>start.
             if kind (refData r) \<in> {Class, Interface, Namespace, Package}
             then bindE (writeRemarksSection D [] (refData r)) (\<lambda>remarks.
                  bindE (writeKindTables D wr [] r st1) (\<lambda>(content, st').
                    Inr (Page frontMatter (start @ remarks @ content), st')))
             else if kind (refData r) = Model
             then bindE (writeKindTables D wr [] r st1) (\<lambda>(content, st').
                    Inr (Page frontMatter (start @ content), st'))
             else bindE (writeKindTables D wr [] r st1) (\<lambda>(content, st').
                  bindE (writeRemarksSection D [] (refData r)) (\<lambda>remarks.
                    Inr (Page frontMatter (start @ content @ remarks), st')))))"
proof (cases "pageFrontMatter D r st")
  case (Inl e)
  then show ?thesis by (simp add: buildApiItemPage_def)
next
  case (Inr a)
  obtain frontMatter st1 where a: "a = (frontMatter, st1)" by (cases a)
  show ?thesis
  proof (cases frontMatter)
    case None
    with Inr a show ?thesis by (simp add: buildApiItemPage_def)
  next
    case (Some fm)
    show ?thesis
    proof (cases "writeCommonStart D (refData r)")
      case Inl
      with Inr a Some show ?thesis by (simp add: buildApiItemPage_def)
    next
      case start: (Inr start)
      let ?d = "refData r"
      let ?R = "writeRemarksSection D [] ?d"
      let ?K = "writeKindTables D wr [] r st1"
      note K = writeKindTables_start [OF start, of wr st1]
      consider (before) "kind ?d \<in> {Class, Interface, Namespace, Package}"
        | (model) "kind ?d = Model"
        | (after) "kind ?d \<notin> {Class, Interface, Namespace, Package}" "kind ?d \<noteq> Model"
        by blast
      then show ?thesis
      proof cases
        case before
        then have k: "kind ?d \<noteq> EntryPoint" and rf: "remarksFirst (kind ?d)"
          by (auto simp: remarksFirst_def)
        note R = writeRemarksSection_prefixed [of D start]
        show ?thesis
        proof (cases ?R)
          case Inl
          with Inr a Some start rf show ?thesis
            by (simp only: before if_True) (simp add: buildApiItemPage_def R)
        next
          case remarks: (Inr remarks)
          note K' = writeKindTables_prefixedS [OF k, of D wr "start @ remarks"]
          show ?thesis
          proof (cases ?K)
            case Inl
            with Inr a Some start rf remarks show ?thesis
              by (simp only: before if_True) (simp add: buildApiItemPage_def R K')
          next
            case (Inr b)
            obtain content st' where "b = (content, st')" by (cases b)
            with Inr \<open>pageFrontMatter D r st = Inr a\<close> a Some start rf remarks show ?thesis
              by (simp only: before if_True) (simp add: buildApiItemPage_def R K')
          qed
        qed
      next
        case model
        then have nf: "\<not> remarksFirst (kind ?d)"
          and out: "kind ?d \<notin> {Class, Interface, Namespace, Package}"
          by (simp_all add: remarksFirst_def)
        show ?thesis
        proof (cases ?K)
          case Inl
          with Inr a Some start nf show ?thesis
            by (simp only: out model if_True if_False refl)
               (simp add: buildApiItemPage_def K model remarksFirst_def)
        next
          case (Inr b)
          obtain content st' where "b = (content, st')" by (cases b)
          with Inr \<open>pageFrontMatter D r st = Inr a\<close> a Some start nf
            writeRemarksSection_Model [OF model, of D]
          show ?thesis
            by (simp only: out model if_True if_False refl)
               (simp add: buildApiItemPage_def K model remarksFirst_def)
        qed
      next
        case after
        then have nf: "\<not> remarksFirst (kind ?d)" by (auto simp: remarksFirst_def)
        show ?thesis
        proof (cases ?K)
          case Inl
          with Inr a Some start nf show ?thesis
            by (simp only: after if_False) (simp add: buildApiItemPage_def K)
        next
          case (Inr b)
          obtain content st' where b: "b = (content, st')" by (cases b)
          note R = writeRemarksSection_prefixed [of D "start @ content"]
          show ?thesis
          proof (cases ?R)
            case Inl
            with Inr \<open>pageFrontMatter D r st = Inr a\<close> a Some start nf b show ?thesis
              by (simp only: after if_False) (simp add: buildApiItemPage_def K R)
          next
            case remarks: (Inr remarks)
            with Inr \<open>pageFrontMatter D r st = Inr a\<close> a Some start nf b show ?thesis
              by (simp only: after if_False) (simp add: buildApiItemPage_def K R)
          qed
        qed
      qed
    qed
  qed
qed


text \<open>
  The page of the class \<^verbatim>\<open>Gadget\<close> has its remarks and its example before the table of
  constructors; the page of the function \<^verbatim>\<open>measure\<close> has them after the return type; the
  page of the model has the table of packages and nothing else.
\<close>

theorem remarks_before_member_tables_witness:
  "buildApiItemPage exDocumenter (\<lambda>m s. Inr s) ([exModel, exPackage, exRootEntry], exGadgetTree) emptyRun
     = Inr (Page (titled ''Gadget class'')
         [DocParagraph [DocPlainText ''A gadget.''], DocHeading ''Remarks'',
          DocParagraph [DocPlainText ''Handle with care.''],
          DocHeading ''Example'', DocFencedCode ''gadget()'' ''ts'',
          DocHeading ''Constructors'',
          DocTable [''Constructor'', ''Modifiers'', ''Description'']
           [DocTableRow
             [DocTableCell
               [DocParagraph
                 [DocLinkTag ''(constructor)''
                   ''/docs/widgets/_root/gadget/_constructor_/_index.md'']],
              DocTableCell [], DocTableCell []]]], emptyRun)
   \<and> buildApiItemPage exDocumenter (\<lambda>m s. Inr s)
       ([exModel, exPackage, exRootEntry], ApiItem exMeasure []) emptyRun
     = Inr (Page (titled ''measure function'')
         [DocParagraph [DocPlainText ''A gadget.''], DocParagraph [],
          DocParagraph [DocEmphasisSpan True False [DocPlainText ''Returns:'']],
          DocParagraph [DocPlainText ''(not declared)''],
          DocHeading ''Remarks'',
          DocParagraph [DocPlainText ''Handle with care.''],
          DocHeading ''Example'', DocFencedCode ''gadget()'' ''ts''], emptyRun)
   \<and> buildApiItemPage exDocumenter (\<lambda>m s. Inr s) ([], exTree) emptyRun
     = Inr (Page \<lparr> title = ''API Reference'', menuMainWeight = Some 20 \<rparr>
         [DocHeading ''Packages'',
          DocTable [''Package'', ''Description'']
           [DocTableRow
             [DocTableCell
               [DocParagraph [DocLinkTag ''@scope/widgets'' ''/docs/widgets/_root/_index.md'']],
              DocTableCell []]]], emptyRun)"
  unfolding remarks_before_member_tables
  by (simp add: eval_simps ex_page_defs exTree_def exWidgetTree_def del: One_nat_def)


lemma bindE_return [simp]: "bindE m Inr = m"
  by (cases m) simp_all


lemma tableHasRows_headedTable: "list_all tableHasRows (headedTable t h rows)"
  by (simp add: headedTable_def)




text \<open>
  Claim C8, as the code has it. When the configuration file asks for the inherited
  members and the inheritance query reports that its result may be incomplete,
  \<^verbatim>\<open>_getMembersAndWriteIncompleteWarning\<close> appends one paragraph in italics to the body as
  it stands, logs one line for each message of the query and returns the members the
  query found; it raises no error. On the page of a class or interface the tables of the
  members follow that paragraph, and the common start of the page and the remarks come
  before it: it is the first element of the body only when there is neither.
\<close>

theorem incomplete_inheritance_warning:
  assumes "documenterConfig D = Some config" and "showInheritedMembers config"
    and "maybeIncompleteResult (findMembersWithInheritance D r)"
    and "tsdocConfiguration D = customConfiguration i"
  shows "getMembersAndWriteIncompleteWarning D r output st =
           Inr (items (findMembersWithInheritance D r), output @ [incompleteWarning],
                st \<lparr> consoleLog := consoleLog st
                      @ map (\<lambda>message. ''Diagnostic message for findMembersWithInheritance: ''
                                          @ message)
                          (messages (findMembersWithInheritance D r)) \<rparr>)
       \<and> writeClassTables D wr output r st =
           bindE (classLoop D wr r emptyMemberTables (items (findMembersWithInheritance D r))
                    (st \<lparr> consoleLog := consoleLog st
                          @ map (\<lambda>message. ''Diagnostic message for findMembersWithInheritance: ''
                                              @ message)
                              (messages (findMembersWithInheritance D r)) \<rparr>)) (\<lambda>(T, st').
           bindE (appendClassTables (tsdocConfiguration D) (output @ [incompleteWarning]) T)
             (\<lambda>output. Inr (output, st')))
       \<and> writeInterfaceTables D wr output r st =
           bindE (interfaceLoop D wr r emptyMemberTables (items (findMembersWithInheritance D r))
                    (st \<lparr> consoleLog := consoleLog st
                          @ map (\<lambda>message. ''Diagnostic message for findMembersWithInheritance: ''
                                              @ message)
                              (messages (findMembersWithInheritance D r)) \<rparr>)) (\<lambda>(T, st').
           bindE (appendInterfaceTables (tsdocConfiguration D) (output @ [incompleteWarning]) T)
             (\<lambda>output. Inr (output, st')))
       \<and> ((kind (refData r) = Class \<or> kind (refData r) = Interface)
            \<and> buildApiItemPage D wr r st = Inr (Page frontMatter body, st'')
          \<longrightarrow> (\<exists>start remarks tables.
                 writeCommonStart D (refData r) = Inr start
               \<and> writeRemarksSection D [] (refData r) = Inr remarks
               \<and> body = start @ remarks @ incompleteWarning # tables))"
proof -
  let ?st = "st \<lparr> consoleLog := consoleLog st
                      @ map (\<lambda>message. ''Diagnostic message for findMembersWithInheritance: ''
                                          @ message)
                          (messages (findMembersWithInheritance D r)) \<rparr>"
  have members: "getMembersAndWriteIncompleteWarning D r out s =
           Inr (items (findMembersWithInheritance D r), out @ [incompleteWarning],
                s \<lparr> consoleLog := consoleLog s
                      @ map (\<lambda>message. ''Diagnostic message for findMembersWithInheritance: ''
                                          @ message)
                          (messages (findMembersWithInheritance D r)) \<rparr>)" for out s
    unfolding getMembersAndWriteIncompleteWarning_def Let_def incompleteWarning_def
      new_DocEmphasisSpan_def new_DocParagraph_def
    using assms
    by (simp add: appendNode_Section appendNode_Paragraph appendNode_EmphasisSpan
          del: append_Cons)
  have classTables: "writeClassTables D wr out r s =
           bindE (classLoop D wr r emptyMemberTables (items (findMembersWithInheritance D r))
                    (s \<lparr> consoleLog := consoleLog s
                          @ map (\<lambda>message. ''Diagnostic message for findMembersWithInheritance: ''
                                              @ message)
                              (messages (findMembersWithInheritance D r)) \<rparr>)) (\<lambda>(T, st').
           bindE (appendClassTables (tsdocConfiguration D) (out @ [incompleteWarning]) T)
             (\<lambda>output. Inr (output, st')))" for out s
    by (simp add: writeClassTables_def members)
  have interfaceTables: "writeInterfaceTables D wr out r s =
           bindE (interfaceLoop D wr r emptyMemberTables (items (findMembersWithInheritance D r))
                    (s \<lparr> consoleLog := consoleLog s
                          @ map (\<lambda>message. ''Diagnostic message for findMembersWithInheritance: ''
                                              @ message)
                              (messages (findMembersWithInheritance D r)) \<rparr>)) (\<lambda>(T, st').
           bindE (appendInterfaceTables (tsdocConfiguration D) (out @ [incompleteWarning]) T)
             (\<lambda>output. Inr (output, st')))" for out s
    by (simp add: writeInterfaceTables_def members)
  have placement: "\<exists>start remarks tables.
                 writeCommonStart D (refData r) = Inr start
               \<and> writeRemarksSection D [] (refData r) = Inr remarks
               \<and> body = start @ remarks @ incompleteWarning # tables"
    if k: "kind (refData r) = Class \<or> kind (refData r) = Interface"
      and page: "buildApiItemPage D wr r st = Inr (Page frontMatter body, st'')"
  proof (rule buildApiItemPage_body [where P = "\<lambda>n. True", OF _ commentAll_True page])
    fix start remarks content st1
    assume start: "writeCommonStart D (refData r) = Inr start"
      and remarks: "writeRemarksSection D [] (refData r) = Inr remarks"
      and content: "writeKindTables D wr [] r st1 = Inr (content, st'')"
      and body: "body = (if remarksFirst (kind (refData r)) then start @ remarks @ content
                 else start @ content @ remarks)"
    from k content have "\<exists>T. appendClassTables (tsdocConfiguration D) [incompleteWarning] T = Inr content
         \<or> appendInterfaceTables (tsdocConfiguration D) [incompleteWarning] T = Inr content"
      by (auto simp: writeKindTables_def classTables interfaceTables bindE_Inr_iff)
    then obtain T tables where "content = [incompleteWarning] @ tables"
      using appends_Inr [OF appends_appendClassTables [where P = "\<lambda>n. True"],
          where ns = "[incompleteWarning]"]
        appends_Inr [OF appends_appendInterfaceTables [where P = "\<lambda>n. True"],
          where ns = "[incompleteWarning]"]
      by fastforce
    with k body have "body = start @ remarks @ incompleteWarning # tables"
      by (auto simp: remarksFirst_def)
    with start remarks show ?thesis by blast
  qed simp
  from members classTables interfaceTables placement show ?thesis by blast
qed


text \<open>
  The class \<^verbatim>\<open>Derived\<close>, built with the inherited members asked for and an incomplete
  result of the query: the paragraph is appended, one line is logged for the one message,
  and on the page the paragraph stands after the signature and before the table of
  constructors.
\<close>

theorem incomplete_inheritance_warning_witness:
  "getMembersAndWriteIncompleteWarning exInheritingDocumenter
     ([exModel, exPackage, exRootEntry], exDerivedTree) [] emptyRun
     = Inr ([([exModel, exPackage, exRootEntry, exDerived], ApiItem (exCtor 15 ''(constructor)'' 1) [])],
            [incompleteWarning],
            emptyRun \<lparr> consoleLog :=
              [''Diagnostic message for findMembersWithInheritance: Unable to analyze base class Base''] \<rparr>)
   \<and> buildApiItemPage exInheritingDocumenter (\<lambda>m s. Inr s)
       ([exModel, exPackage, exRootEntry], exDerivedTree) emptyRun
     = Inr (Page (titled ''Derived class'')
         [DocParagraph [DocEmphasisSpan True False [DocPlainText ''Signature:'']],
          DocFencedCode ''export declare class Derived extends Base'' ''typescript'',
          incompleteWarning,
          DocHeading ''Constructors'',
          DocTable [''Constructor'', ''Modifiers'', ''Description'']
           [DocTableRow
             [DocTableCell
               [DocParagraph
                 [DocLinkTag ''(constructor)''
                   ''/docs/widgets/_root/derived/_constructor_/_index.md'']],
              DocTableCell [], DocTableCell []]]],
        emptyRun \<lparr> consoleLog :=
          [''Diagnostic message for findMembersWithInheritance: Unable to analyze base class Base''] \<rparr>)
   \<and> (\<exists>start remarks tables.
         writeCommonStart exInheritingDocumenter exDerived = Inr start
       \<and> writeRemarksSection exInheritingDocumenter [] exDerived = Inr remarks
       \<and> [DocParagraph [DocEmphasisSpan True False [DocPlainText ''Signature:'']],
           DocFencedCode ''export declare class Derived extends Base'' ''typescript'',
           incompleteWarning,
           DocHeading ''Constructors'',
           DocTable [''Constructor'', ''Modifiers'', ''Description'']
            [DocTableRow
              [DocTableCell
                [DocParagraph
                  [DocLinkTag ''(constructor)''
                    ''/docs/widgets/_root/derived/_constructor_/_index.md'']],
               DocTableCell [], DocTableCell []]]]
          = start @ remarks @ incompleteWarning # tables)
   \<and> writeCommonStart exInheritingDocumenter exDerived
     = Inr [DocParagraph [DocEmphasisSpan True False [DocPlainText ''Signature:'']],
            DocFencedCode ''export declare class Derived extends Base'' ''typescript'']
   \<and> writeRemarksSection exInheritingDocumenter [] exDerived = Inr []"
proof (intro conjI)
  let ?r = "([exModel, exPackage, exRootEntry], exDerivedTree)"
  let ?body = "[DocParagraph [DocEmphasisSpan True False [DocPlainText ''Signature:'']],
           DocFencedCode ''export declare class Derived extends Base'' ''typescript'',
           incompleteWarning,
           DocHeading ''Constructors'',
           DocTable [''Constructor'', ''Modifiers'', ''Description'']
            [DocTableRow
              [DocTableCell
                [DocParagraph
                  [DocLinkTag ''(constructor)''
                    ''/docs/widgets/_root/derived/_constructor_/_index.md'']],
               DocTableCell [], DocTableCell []]]]"
  let ?st = "emptyRun \<lparr> consoleLog :=
          [''Diagnostic message for findMembersWithInheritance: Unable to analyze base class Base''] \<rparr>"
  have kind: "kind (refData ?r) = Class"
    by (simp add: refData_def exDerivedTree_def exDerived_def)
  have data: "refData ?r = exDerived"
    by (simp add: refData_def exDerivedTree_def)
  note inst = incomplete_inheritance_warning [of exInheritingDocumenter
          "\<lparr> newlineKind = CrLf, showInheritedMembers = True, markdownDocumenterFeature = None \<rparr>"
          ?r 0 "[]" emptyRun "\<lambda>m s. Inr s" "titled ''Derived class''" ?body ?st]
  have "getMembersAndWriteIncompleteWarning exInheritingDocumenter ?r [] emptyRun =
          Inr (items (findMembersWithInheritance exInheritingDocumenter ?r), [] @ [incompleteWarning],
               emptyRun \<lparr> consoleLog := consoleLog emptyRun
                 @ map (\<lambda>message. ''Diagnostic message for findMembersWithInheritance: '' @ message)
                     (messages (findMembersWithInheritance exInheritingDocumenter ?r)) \<rparr>)"
    using inst by simp
  then show "getMembersAndWriteIncompleteWarning exInheritingDocumenter ?r [] emptyRun
     = Inr ([([exModel, exPackage, exRootEntry, exDerived], ApiItem (exCtor 15 ''(constructor)'' 1) [])],
            [incompleteWarning], ?st)"
    by (simp add: memberRefs_def refData_def exDerivedTree_def emptyRun_def)
  show page: "buildApiItemPage exInheritingDocumenter (\<lambda>m s. Inr s) ?r emptyRun
     = Inr (Page (titled ''Derived class'') ?body, ?st)"
    by (rule derived_page)
  have "\<exists>start remarks tables.
         writeCommonStart exInheritingDocumenter (refData ?r) = Inr start
       \<and> writeRemarksSection exInheritingDocumenter [] (refData ?r) = Inr remarks
       \<and> ?body = start @ remarks @ incompleteWarning # tables"
    using inst kind page by simp
  then show "\<exists>start remarks tables.
         writeCommonStart exInheritingDocumenter exDerived = Inr start
       \<and> writeRemarksSection exInheritingDocumenter [] exDerived = Inr remarks
       \<and> ?body = start @ remarks @ incompleteWarning # tables"
    by (simp only: data)
  show "writeCommonStart exInheritingDocumenter exDerived
     = Inr [DocParagraph [DocEmphasisSpan True False [DocPlainText ''Signature:'']],
            DocFencedCode ''export declare class Derived extends Base'' ''typescript'']"
    by (simp add: writeCommonStart_def exDerived_def isApiDocumentedItem_def
          isApiDeclaredItem_def boldLabel_custom appendNode_Section writeHeritageTypes_def
          excerptText_def Let_def)
  show "writeRemarksSection exInheritingDocumenter [] exDerived = Inr []"
    by (simp add: writeRemarksSection_def exDerived_def Let_def)
qed

text \<open>
  Claim C8 as stated makes the advisory paragraph the first element of the page body. On
  the page of the class \<^verbatim>\<open>Derived\<close> the first element is the label of the signature, and
  the advisory paragraph is the third.
\<close>

theorem incomplete_inheritance_warning_counterexample:
  "documenterConfig exInheritingDocumenter
     = Some \<lparr> newlineKind = CrLf, showInheritedMembers = True, markdownDocumenterFeature = None \<rparr>
   \<and> maybeIncompleteResult
       (findMembersWithInheritance exInheritingDocumenter
          ([exModel, exPackage, exRootEntry], exDerivedTree))
   \<and> kind (refData ([exModel, exPackage, exRootEntry], exDerivedTree)) = Class
   \<and> buildApiItemPage exInheritingDocumenter (\<lambda>m s. Inr s)
       ([exModel, exPackage, exRootEntry], exDerivedTree) emptyRun
     = Inr (Page (titled ''Derived class'')
         [DocParagraph [DocEmphasisSpan True False [DocPlainText ''Signature:'']],
          DocFencedCode ''export declare class Derived extends Base'' ''typescript'',
          incompleteWarning,
          DocHeading ''Constructors'',
          DocTable [''Constructor'', ''Modifiers'', ''Description'']
           [DocTableRow
             [DocTableCell
               [DocParagraph
                 [DocLinkTag ''(constructor)''
                   ''/docs/widgets/_root/derived/_constructor_/_index.md'']],
              DocTableCell [], DocTableCell []]]],
        emptyRun \<lparr> consoleLog :=
          [''Diagnostic message for findMembersWithInheritance: Unable to analyze base class Base''] \<rparr>)
   \<and> DocParagraph [DocEmphasisSpan True False [DocPlainText ''Signature:'']] \<noteq> incompleteWarning"
proof (intro conjI)
  show "kind (refData ([exModel, exPackage, exRootEntry], exDerivedTree)) = Class"
    by (simp add: refData_def exDerivedTree_def exDerived_def)
  show "maybeIncompleteResult
       (findMembersWithInheritance exInheritingDocumenter
          ([exModel, exPackage, exRootEntry], exDerivedTree))"
    by simp
qed (simp_all add: derived_page incompleteWarning_def)

end
